theory Spec2Isabelle
  imports Complex_Main
begin

section \<open>The particle engine of nibi: host-side state and per-particle kernel\<close>

text \<open>
  The development embeds the class \<^verbatim>\<open>GPUParticleSystem\<close> (its constructor, the command
  methods and \<^verbatim>\<open>update\<close>) and the parts of the compute kernel built by
  \<^verbatim>\<open>_buildComputeShader\<close> that select a particle's group, layer and attraction and that
  respawn it. JavaScript numbers are modelled as \<^typ>\<open>real\<close> (rounding of doubles and of
  the kernel's 32-bit floats is left out), counts and indices as \<^typ>\<open>nat\<close>, \<^verbatim>\<open>null\<close> and
  \<^verbatim>\<open>undefined\<close> as \<^const>\<open>None\<close>. Source names are kept without their leading underscore.
\<close>

subsection \<open>Plain data\<close>

type_synonym vec3 = "real \<times> real \<times> real"

datatype phase = Flow | Forming | Text | Releasing

text \<open>One row of \<^verbatim>\<open>MACRO_PHASES\<close>.\<close>

record macro_phase =
  p_end :: real
  p_noiseStr :: real
  p_noiseScl :: real
  p_spring :: real
  p_damp :: real
  p_vortex :: real
  p_wave :: real
  p_convUp :: real
  p_convDn :: real
  p_pointScale :: real

definition mk_phase ::
  "real \<Rightarrow> real \<Rightarrow> real \<Rightarrow> real \<Rightarrow> real \<Rightarrow> real \<Rightarrow> real \<Rightarrow> real \<Rightarrow> real \<Rightarrow> real \<Rightarrow> macro_phase" where
  "mk_phase e ns nc sp da vo wa cu cd ps =
     \<lparr>p_end = e, p_noiseStr = ns, p_noiseScl = nc, p_spring = sp, p_damp = da,
      p_vortex = vo, p_wave = wa, p_convUp = cu, p_convDn = cd, p_pointScale = ps\<rparr>"

definition MACRO_PHASES :: "macro_phase list" where
  "MACRO_PHASES =
    [mk_phase 11  0.00008 0.08 0.015 0.993 0       0      0.10 0.004 0.6,
     mk_phase 33  0.00025 0.12 0.040 0.982 0.00005 0      0.15 0.006 1.0,
     mk_phase 44  0.00060 0.20 0.030 0.975 0.00040 0.0003 0.12 0.005 1.3,
     mk_phase 66  0.00030 0.14 0.050 0.980 0.00008 0      0.16 0.006 1.1,
     mk_phase 77  0.00080 0.25 0.025 0.970 0.00060 0.0005 0.10 0.005 1.4,
     mk_phase 99  0.00010 0.06 0.070 0.990 0       0      0.22 0.008 0.8,
     mk_phase 121 0.00015 0.08 0.065 0.988 0.00002 0      0.20 0.007 0.9,
     mk_phase 999 0.00004 0.04 0.010 0.995 0       0      0.06 0.003 0.4]"

text \<open>The smoothed macro values \<^verbatim>\<open>this._macro\<close>.\<close>

record macro =
  m_noiseStr :: real
  m_noiseScl :: real
  m_spring :: real
  m_damp :: real
  m_vortex :: real
  m_wave :: real
  m_gravity :: real
  m_convUp :: real
  m_convDn :: real
  m_pointScale :: real

text \<open>
  The object returned by \<^verbatim>\<open>_extractPhysicsOverrides\<close>: one optional entry per key of its
  \<^verbatim>\<open>keys\<close> array.
\<close>

record physics_overrides =
  ov_spring :: "real option"
  ov_damping :: "real option"
  ov_noiseStrength :: "real option"
  ov_noiseScale :: "real option"
  ov_vortex :: "real option"
  ov_wave :: "real option"
  ov_gravity :: "real option"
  ov_pointScale :: "real option"
  ov_convUp :: "real option"
  ov_convDn :: "real option"
  ov_lerpRate :: "real option"

text \<open>
  The options bag of \<^verbatim>\<open>setText\<close>, \<^verbatim>\<open>setShadowSculptureTarget\<close>, \<^verbatim>\<open>setFlowTargets\<close> and
  \<^verbatim>\<open>setMode\<close>. A missing key is \<^const>\<open>None\<close>.
\<close>

record options =
  animation :: "string option"
  viewDirection :: "vec3 option"
  o_maxConvergence :: "real option"
  holdDuration :: "real option"
  o_releaseSpeed :: "real option"
  o_dissolveMode :: "string option"
  origin :: "vec3 option"
  targetWidth :: "real option"
  backgroundPattern :: "string option"
  textRatio :: "real option"
  align :: "string option"
  particleGroup :: "nat option"
  groupBPattern :: "string option"
  groupBConvergence :: "real option"
  groupBOrigin :: "vec3 option"
  groupBScale :: "real option"
  font :: "string option"
  fontSize :: "real option"
  o_depthSpread :: "real option"
  o_spring :: "real option"
  o_damping :: "real option"
  o_noiseStrength :: "real option"
  o_noiseScale :: "real option"
  o_vortex :: "real option"
  o_wave :: "real option"
  o_gravity :: "real option"
  o_pointScale :: "real option"
  o_convUp :: "real option"
  o_convDn :: "real option"
  o_lerpRate :: "real option"

definition no_options :: options where
  "no_options =
    \<lparr>animation = None, viewDirection = None, o_maxConvergence = None, holdDuration = None,
     o_releaseSpeed = None, o_dissolveMode = None, origin = None, targetWidth = None,
     backgroundPattern = None, textRatio = None, align = None, particleGroup = None,
     groupBPattern = None, groupBConvergence = None, groupBOrigin = None, groupBScale = None,
     font = None, fontSize = None, o_depthSpread = None,
     o_spring = None, o_damping = None, o_noiseStrength = None, o_noiseScale = None,
     o_vortex = None, o_wave = None, o_gravity = None, o_pointScale = None,
     o_convUp = None, o_convDn = None, o_lerpRate = None\<rparr>"

text \<open>JavaScript's \<^verbatim>\<open>a ?? b\<close> and the truthiness of an optional string or number.\<close>

definition nullish :: "'a option \<Rightarrow> 'a \<Rightarrow> 'a" where
  "nullish a b = (case a of Some v \<Rightarrow> v | None \<Rightarrow> b)"

definition truthy_str :: "string option \<Rightarrow> bool" where
  "truthy_str a = (case a of Some v \<Rightarrow> v \<noteq> [] | None \<Rightarrow> False)"

definition or_num :: "real option \<Rightarrow> real \<Rightarrow> real" where
  "or_num a b = (case a of Some v \<Rightarrow> (if v = 0 then b else v) | None \<Rightarrow> b)"

definition or_str :: "string option \<Rightarrow> string \<Rightarrow> string" where
  "or_str a b = (case a of Some v \<Rightarrow> (if v = [] then b else v) | None \<Rightarrow> b)"

text \<open>\<^verbatim>\<open>_extractPhysicsOverrides\<close>: \<^verbatim>\<open>null\<close> unless some key is present.\<close>

definition extractPhysicsOverrides :: "options \<Rightarrow> physics_overrides option" where
  "extractPhysicsOverrides opts =
    (let found = (o_spring opts \<noteq> None \<or> o_damping opts \<noteq> None \<or> o_noiseStrength opts \<noteq> None
                  \<or> o_noiseScale opts \<noteq> None \<or> o_vortex opts \<noteq> None \<or> o_wave opts \<noteq> None
                  \<or> o_gravity opts \<noteq> None \<or> o_pointScale opts \<noteq> None \<or> o_convUp opts \<noteq> None
                  \<or> o_convDn opts \<noteq> None \<or> o_lerpRate opts \<noteq> None);
         overrides = \<lparr>ov_spring = o_spring opts, ov_damping = o_damping opts,
                      ov_noiseStrength = o_noiseStrength opts, ov_noiseScale = o_noiseScale opts,
                      ov_vortex = o_vortex opts, ov_wave = o_wave opts, ov_gravity = o_gravity opts,
                      ov_pointScale = o_pointScale opts, ov_convUp = o_convUp opts,
                      ov_convDn = o_convDn opts, ov_lerpRate = o_lerpRate opts\<rparr>
     in if found then Some overrides else None)"


subsection \<open>Constant tables\<close>

text \<open>\<^verbatim>\<open>GPU_PATTERN_IDS\<close>: the patterns the kernel computes, numbered from 1.\<close>

definition GPU_PATTERN_IDS :: "string \<Rightarrow> nat option" where
  "GPU_PATTERN_IDS = map_of
    [(''organic'', 1), (''cubeWave'', 2), (''rollingWave'', 3), (''orbiting'', 4),
     (''breathingSphere'', 5), (''pendulumWave'', 6), (''galaxySpin'', 7), (''vortexDrain'', 8),
     (''ripplePool'', 9), (''flowField'', 10), (''auroraCurtain'', 11), (''perlinFlow3d'', 12),
     (''flowingSilk'', 13)]"

text \<open>
  \<^verbatim>\<open>GPU_PATTERN_IDS[name] || GPU_PATTERN_IDS.organic || 1\<close>, as the multi-layer setter
  resolves a pattern name.
\<close>

definition gpuIdOrOrganic :: "string \<Rightarrow> nat" where
  "gpuIdOrOrganic name =
    (case GPU_PATTERN_IDS name of
       Some g \<Rightarrow> (if g = 0 then nullish (GPU_PATTERN_IDS ''organic'') 1 else g)
     | None \<Rightarrow> nullish (GPU_PATTERN_IDS ''organic'') 1)"

text \<open>The keys of \<^verbatim>\<open>FLOW_PATTERN_GENERATORS\<close> and \<^verbatim>\<open>FLOW_PATTERN_ANIMATORS\<close>, in order.\<close>

definition FLOW_PATTERN_GENERATOR_KEYS :: "string list" where
  "FLOW_PATTERN_GENERATOR_KEYS =
    [''organic'', ''branchTree'', ''fractalTree'', ''kochCurve'', ''randomWalk'',
     ''cubeWave'', ''rollingWave'', ''orbiting'', ''breathingSphere'', ''pendulumWave'',
     ''galaxySpin'', ''vortexDrain'', ''ripplePool'', ''flowField'']"

definition FLOW_PATTERN_ANIMATOR_KEYS :: "string list" where
  "FLOW_PATTERN_ANIMATOR_KEYS =
    [''cubeWave'', ''rollingWave'', ''orbiting'', ''breathingSphere'', ''pendulumWave'',
     ''galaxySpin'', ''vortexDrain'', ''ripplePool'', ''flowField'']"

text \<open>\<^verbatim>\<open>TEXT_ANIMATIONS\<close>: name, delay and stagger, in the order of the source.\<close>

definition TEXT_ANIMATIONS :: "(string \<times> real \<times> real) list" where
  "TEXT_ANIMATIONS =
    [(''waveReveal'', 0.0, 0.08), (''rainDrop'', 0.0, 0.0), (''spiralPerChar'', 0.2, 0.10),
     (''ringToChar'', 0.2, 0.08), (''typewriter'', 0.0, 0.18), (''columnDrop'', 0.0, 0.0),
     (''centerBurst'', 0.0, 0.0), (''directSnap'', 0.0, 0.0), (''sphereContract'', 0.15, 0.0),
     (''riseUp'', 0.0, 0.0), (''scatterIn'', 0.0, 0.05), (''gridDissolve'', 0.2, 0.0),
     (''tornado'', 0.3, 0.10), (''phyllotaxis'', 0.2, 0.0), (''shockwaveRing'', 0.15, 0.0),
     (''flatPlane'', 0.0, 0.06)]"

text \<open>\<^verbatim>\<open>TEXT_ANIMATIONS[name] || TEXT_ANIMATIONS.directSnap\<close>.\<close>

definition animDef :: "string \<Rightarrow> real \<times> real" where
  "animDef name = (case map_of TEXT_ANIMATIONS name of Some d \<Rightarrow> d | None \<Rightarrow> (0.0, 0.0))"

definition sweepDirs :: "vec3 list" where
  "sweepDirs =
    [(1, 0, 0), (-1, 0, 0), (0, -1, 0), (0, 1, 0),
     (0.7, 0.7, 0), (-0.7, -0.7, 0), (0, 0, 0), (0.7, -0.7, 0)]"

subsection \<open>The engine state\<close>

text \<open>The entries of \<^verbatim>\<open>this._uniforms\<close> that the host writes.\<close>

record uniforms =
  uDeltaTime :: real
  uTime :: real
  uSpringStrength :: real
  uDamping :: real
  uNoiseScale :: real
  uNoiseStrength :: real
  uConvergence :: real
  uSweepX :: real
  uSweepY :: real
  uSweepZ :: real
  uVortexStrength :: real
  uWavePhase :: real
  uWaveStrength :: real
  uGravity :: real
  uIsOrtho :: real
  uFlattenZ :: real
  uGPUPatternId :: nat
  uBgPatternId :: nat
  uTextParticleRatio :: real
  uTextPerChar :: real
  uGroupSplit :: nat
  uConvergenceB :: real
  uSweepXB :: real
  uSweepYB :: real
  uSweepZB :: real
  uGPUPatternIdB :: nat
  uFlowOriginB :: vec3
  uFlowScaleB :: real
  uFlowOrigin :: vec3
  uFlowScale :: real
  uNumLayers :: nat
  uLayerPatternId0 :: nat
  uLayerPatternId1 :: nat
  uLayerPatternId2 :: nat
  uLayerPatternId3 :: nat
  uLayerOrigin0 :: vec3
  uLayerOrigin1 :: vec3
  uLayerOrigin2 :: vec3
  uLayerOrigin3 :: vec3
  uLayerScale0 :: real
  uLayerScale1 :: real
  uLayerScale2 :: real
  uLayerScale3 :: real
  uPointSize :: real

text \<open>A character record: the sampler's output plus the particle slice assigned to it.\<close>

record char_data =
  textPositions :: "vec3 list"
  center :: vec3
  revealed :: bool
  startIdx :: nat
  cd_count :: nat

text \<open>\<^verbatim>\<open>this._slotB\<close>, the phase state of group B.\<close>

record slotB =
  b_phase :: phase
  b_convergence :: real
  b_targetConvergence :: real
  b_lastTextTime :: real
  b_holdDurationOverride :: "real option"
  b_releaseSpeed :: real
  b_dissolveMode :: "string option"
  b_maxConvergence :: real
  b_physicsOverrides :: "physics_overrides option"
  b_charData :: "char_data list option"
  b_formationPending :: bool
  b_formationStartTime :: real
  b_animType :: "string option"
  b_sweepDir :: vec3
  b_currentSweepX :: real
  b_currentSweepY :: real
  b_currentSweepZ :: real

text \<open>
  The rotation \<^verbatim>\<open>_targetWorldQuat\<close> is kept symbolically: the identity, or the rotation taking
  the z axis to a view direction. The quaternion arithmetic of \<^verbatim>\<open>update\<close> (slerp of
  \<^verbatim>\<open>object3D\<close>, the camera position uniform) belongs to three.js and is not modelled; no
  modelled operation reads its result.
\<close>

datatype world_quat = QuatIdentity | QuatFromUnitVectors vec3

record engine =
  count :: nat
  spring :: real
  damping :: real
  noiseScale :: real
  noiseStrength :: real
  pointSize :: real
  posBuffer :: "vec3 list"
  velBuffer :: "vec3 list"
  targetBuffer :: "vec3 list"
  uniforms :: uniforms
  currentText :: string
  textFont :: string
  textFontSize :: real
  textHoldDuration :: real
  convUpScale :: real
  convDnScale :: real
  lastTextTime :: real
  textIndex :: nat
  flowPatternIdx :: nat
  phase :: phase
  convergence :: real
  targetConvergence :: real
  charData :: "char_data list option"
  animType :: string
  formationPending :: bool
  formationStartTime :: real
  maxConvergence :: real
  holdDurationOverride :: "real option"
  releaseSpeed :: real
  sweepDir :: vec3
  currentSweepX :: real
  currentSweepY :: real
  currentSweepZ :: real
  lastFlowTargetUpdate :: real
  lastAnimUpdate :: "real option"
  currentFlowPattern :: string
  macro :: macro
  physicsOverrides :: "physics_overrides option"
  dissolveMode :: "string option"
  pendingFlowPattern :: "string option"
  pendingFlowOptions :: options
  targetWorldQuat :: "world_quat option"
  splitPoint :: nat
  groupBPatternActive :: bool
  slotB :: slotB

text \<open>
  What the engine takes from outside the repository's logic: the canvas rasteriser behind the
  two samplers, \<^verbatim>\<open>Math.random\<close>, and the trigonometric bodies of the pre-shapes and of the
  CPU pattern generators. Each command receives them as an environment, so every theorem
  holds for whatever they return.
\<close>

record sampler_opts =
  s_font :: string
  s_fontSize :: real
  s_maxPointsPerChar :: nat
  s_targetWidth :: real
  s_depthSpread :: real
  s_align :: string

record env =
  rasterChar :: "string \<Rightarrow> sampler_opts \<Rightarrow> nat \<Rightarrow> vec3 list \<times> vec3"
  dualProjection :: "string \<Rightarrow> string \<Rightarrow> string \<Rightarrow> real \<Rightarrow> nat \<Rightarrow> real \<Rightarrow> vec3 list"
  randomCentered :: "nat \<Rightarrow> real"
  preShape :: "string \<Rightarrow> char_data list \<Rightarrow> nat \<Rightarrow> vec3 list \<Rightarrow> vec3 list"
  generator :: "string \<Rightarrow> vec3 list \<Rightarrow> nat \<Rightarrow> vec3 list"
  animator :: "string \<Rightarrow> vec3 list \<Rightarrow> nat \<Rightarrow> real \<Rightarrow> vec3 list"
  initialPositions :: "nat \<Rightarrow> vec3 list"

text \<open>The argument of \<^verbatim>\<open>update\<close>; \<^verbatim>\<open>musicTime\<close> may be absent.\<close>

record tick =
  deltaTime :: real
  elapsedTime :: real
  musicTime :: "real option"

record layer =
  l_pattern :: string
  l_origin :: "vec3 option"
  l_scale :: "real option"

subsection \<open>Writing character targets\<close>

text \<open>
  The target, position and velocity buffers hold one point per particle. A write past the
  end of a typed array is ignored, as \<^const>\<open>list_update\<close> does. \<^verbatim>\<open>randomCentered e k\<close>
  stands for the value \<^verbatim>\<open>Math.random() - 0.5\<close> drawn when component \<open>k\<close> of the flat
  array is written.
\<close>

definition hasDepthChar :: "vec3 list \<Rightarrow> bool" where
  "hasDepthChar tp =
    (snd (snd (tp ! 0)) \<noteq> 0 \<or> (length tp > 1 \<and> snd (snd (tp ! 1)) \<noteq> 0))"

definition charTarget :: "env \<Rightarrow> char_data \<Rightarrow> nat \<Rightarrow> vec3" where
  "charTarget e cd j =
    (let tp = textPositions cd;
         tCount = length tp;
         idx = startIdx cd + j;
         srcIdx = j mod tCount;
         jitter = (if j < tCount then 0 else 0.03);
         hasDepth = hasDepthChar tp
     in (fst (tp ! srcIdx) + randomCentered e (idx * 3) * jitter,
         fst (snd (tp ! srcIdx)) + randomCentered e (idx * 3 + 1) * jitter,
         snd (snd (tp ! srcIdx)) + (if hasDepth then randomCentered e (idx * 3 + 2) * 0.02 else 0)))"

text \<open>
  The inner loop shared by \<^verbatim>\<open>_applyAllCharTargets\<close> and \<^verbatim>\<open>_revealChar\<close>: it stops at the
  first index outside the buffer.
\<close>

definition writeChar :: "env \<Rightarrow> nat \<Rightarrow> char_data \<Rightarrow> vec3 list \<Rightarrow> vec3 list" where
  "writeChar e cnt cd ta =
    (if length (textPositions cd) = 0 then ta
     else foldl (\<lambda>t j. t[startIdx cd + j := charTarget e cd j]) ta
            (takeWhile (\<lambda>j. startIdx cd + j < cnt) [0..<cd_count cd]))"

definition applyAllCharTargets :: "env \<Rightarrow> nat \<Rightarrow> char_data list \<Rightarrow> vec3 list \<Rightarrow> vec3 list" where
  "applyAllCharTargets e cnt cds ta = foldl (\<lambda>t cd. writeChar e cnt cd t) ta cds"

definition revealChar ::
  "env \<Rightarrow> nat \<Rightarrow> nat \<Rightarrow> char_data list \<Rightarrow> vec3 list \<Rightarrow> char_data list \<times> vec3 list" where
  "revealChar e cnt charIdx cds ta =
    (if charIdx < length cds \<and> \<not> revealed (cds ! charIdx)
     then (cds[charIdx := (cds ! charIdx)\<lparr>revealed := True\<rparr>], writeChar e cnt (cds ! charIdx) ta)
     else (cds, ta))"

text \<open>
  \<^verbatim>\<open>_setupFormation\<close>: the sixteen pre-shapes are the environment's \<^verbatim>\<open>preShape\<close>; the
  flattening that follows the \<^verbatim>\<open>switch\<close> is modelled.
\<close>

definition setupFormation :: "env \<Rightarrow> string \<Rightarrow> nat \<Rightarrow> char_data list \<Rightarrow> vec3 list \<Rightarrow> vec3 list" where
  "setupFormation e animName cnt cds ta =
    (let ta1 = preShape e animName cds cnt ta;
         hasDepth = list_ex (\<lambda>cd. length (textPositions cd) \<ge> 1 \<and> hasDepthChar (textPositions cd)) cds
     in if \<not> hasDepth
        then foldl (\<lambda>t i. t[i := (fst (t ! i), fst (snd (t ! i)), 0)]) ta1 [0..<cnt]
        else ta1)"

text \<open>
  \<^verbatim>\<open>sampleTextPositionsPerChar\<close>: one record per character of the text, each unrevealed;
  the rasterised points and the centre of a character come from the environment.
\<close>

definition sampleTextPositionsPerChar :: "env \<Rightarrow> string \<Rightarrow> sampler_opts \<Rightarrow> char_data list" where
  "sampleTextPositionsPerChar e text so =
    map (\<lambda>c. \<lparr>textPositions = fst (rasterChar e text so c), center = snd (rasterChar e text so c),
              revealed = False, startIdx = 0, cd_count = 0\<rparr>) [0..<length text]"

subsection \<open>Commands\<close>

definition slotB_init :: slotB where
  "slotB_init =
    \<lparr>b_phase = Flow, b_convergence = 0, b_targetConvergence = 0.1, b_lastTextTime = 0,
     b_holdDurationOverride = None, b_releaseSpeed = 1.0, b_dissolveMode = None,
     b_maxConvergence = 1.0, b_physicsOverrides = None, b_charData = None,
     b_formationPending = False, b_formationStartTime = -1, b_animType = None,
     b_sweepDir = (0, 0, 0), b_currentSweepX = 0, b_currentSweepY = 0, b_currentSweepZ = 0\<rparr>"

definition resetToSingleLayer :: "engine \<Rightarrow> engine" where
  "resetToSingleLayer s =
    s\<lparr>uniforms := (uniforms s)\<lparr>uNumLayers := 1, uFlowOrigin := (0, 0, 0), uFlowScale := 1.0\<rparr>\<rparr>"

text \<open>\<^verbatim>\<open>FLOW_PATTERN_GENERATORS[pattern] || FLOW_PATTERN_GENERATORS.organic\<close>, run on the buffer.\<close>

definition cpuGenerate :: "env \<Rightarrow> string \<Rightarrow> vec3 list \<Rightarrow> nat \<Rightarrow> vec3 list" where
  "cpuGenerate e pattern ta N =
    generator e (if pattern \<in> set FLOW_PATTERN_GENERATOR_KEYS then pattern else ''organic'') ta N"

definition setFlowTargets :: "env \<Rightarrow> string \<Rightarrow> options \<Rightarrow> engine \<Rightarrow> engine" where
  "setFlowTargets e pattern opts s =
    (let u = (uniforms s)\<lparr>uFlattenZ := 0.0, uBgPatternId := 0, uTextParticleRatio := 1.0,
               uTextPerChar := 1.0, uGroupSplit := count s, uConvergenceB := 0, uSweepXB := 0,
               uSweepYB := 0, uSweepZB := 0, uGPUPatternIdB := 0, uFlowOriginB := (0, 0, 0),
               uFlowScaleB := 1.0\<rparr>;
         s1 = s\<lparr>uniforms := u, targetWorldQuat := Some QuatIdentity, currentFlowPattern := pattern,
                lastFlowTargetUpdate := 0, splitPoint := count s, groupBPatternActive := False,
                slotB := slotB_init, physicsOverrides := extractPhysicsOverrides opts\<rparr>;
         gpuId = nullish (GPU_PATTERN_IDS pattern) 0
     in if gpuId \<noteq> 0
        then s1\<lparr>uniforms := (uniforms s1)\<lparr>uGPUPatternId := gpuId\<rparr>\<rparr>
        else s1\<lparr>uniforms := (uniforms s1)\<lparr>uGPUPatternId := 0\<rparr>,
                targetBuffer := cpuGenerate e pattern (targetBuffer s1) (count s1)\<rparr>)"

definition setFlowOrigin :: "real \<Rightarrow> real \<Rightarrow> real \<Rightarrow> engine \<Rightarrow> engine" where
  "setFlowOrigin x y z s = s\<lparr>uniforms := (uniforms s)\<lparr>uFlowOrigin := (x, y, z)\<rparr>\<rparr>"

definition setFlowScale :: "real \<Rightarrow> engine \<Rightarrow> engine" where
  "setFlowScale scale s = s\<lparr>uniforms := (uniforms s)\<lparr>uFlowScale := scale\<rparr>\<rparr>"

text \<open>
  \<^verbatim>\<open>setFlowTargetsMultiLayer\<close>. The loop over the four layer slots is unrolled: slot \<open>l\<close>
  takes the \<open>l\<close>-th layer when there is one among the first \<^verbatim>\<open>numLayers\<close>, and is cleared
  otherwise.
\<close>

definition layerSlot :: "layer list \<Rightarrow> nat \<Rightarrow> nat \<Rightarrow> nat \<times> vec3 \<times> real" where
  "layerSlot layers numLayers l =
    (if l < numLayers
     then (gpuIdOrOrganic (l_pattern (layers ! l)),
           nullish (l_origin (layers ! l)) (0, 0, 0),
           nullish (l_scale (layers ! l)) 1.0)
     else (0, (0, 0, 0), 1.0))"

definition setFlowTargetsMultiLayer :: "layer list \<Rightarrow> engine \<Rightarrow> engine" where
  "setFlowTargetsMultiLayer layers s =
    (if length layers = 0 then s
     else
       let numLayers = min (length layers) 4;
           firstGpuId = gpuIdOrOrganic (l_pattern (layers ! 0));
           s0 = layerSlot layers numLayers 0;
           s1 = layerSlot layers numLayers 1;
           s2 = layerSlot layers numLayers 2;
           s3 = layerSlot layers numLayers 3
       in s\<lparr>uniforms := (uniforms s)\<lparr>uNumLayers := numLayers, uGPUPatternId := firstGpuId,
               uLayerPatternId0 := fst s0, uLayerOrigin0 := fst (snd s0), uLayerScale0 := snd (snd s0),
               uLayerPatternId1 := fst s1, uLayerOrigin1 := fst (snd s1), uLayerScale1 := snd (snd s1),
               uLayerPatternId2 := fst s2, uLayerOrigin2 := fst (snd s2), uLayerScale2 := snd (snd s2),
               uLayerPatternId3 := fst s3, uLayerOrigin3 := fst (snd s3), uLayerScale3 := snd (snd s3)\<rparr>,
            currentFlowPattern := l_pattern (layers ! 0)\<rparr>)"

definition snapToTargets :: "engine \<Rightarrow> engine" where
  "snapToTargets s =
    s\<lparr>posBuffer := foldl (\<lambda>p i. p[i := targetBuffer s ! i]) (posBuffer s) [0..<count s],
      velBuffer := foldl (\<lambda>v i. v[i := (0, 0, 0)]) (velBuffer s) [0..<count s],
      convergence := targetConvergence s,
      uniforms := (uniforms s)\<lparr>uConvergence := targetConvergence s\<rparr>\<rparr>"

text \<open>
  \<^verbatim>\<open>setMode\<close>. A flow request made while the phase is \<^verbatim>\<open>text\<close> or \<^verbatim>\<open>forming\<close> is only
  recorded; in any other phase it goes to \<^verbatim>\<open>setFlowTargets\<close>, with the next name of the
  generator table when no pattern is given.
\<close>

definition setMode :: "env \<Rightarrow> string \<Rightarrow> string option \<Rightarrow> options \<Rightarrow> engine \<Rightarrow> engine" where
  "setMode e mode pattern opts s =
    (let s1 =
       (if mode = ''text'' \<or> mode = ''forming'' then
          (resetToSingleLayer (s\<lparr>uniforms := (uniforms s)\<lparr>uGPUPatternId := 0\<rparr>\<rparr>))
            \<lparr>targetConvergence := 1.0,
             sweepDir := sweepDirs ! (textIndex s mod length sweepDirs)\<rparr>
        else if mode = ''flow'' then
          (let s0 = s\<lparr>sweepDir := (0, 0, 0)\<rparr>
           in if phase s0 = Text \<or> phase s0 = Forming
              then s0\<lparr>pendingFlowPattern := (if truthy_str pattern then pattern else None),
                      pendingFlowOptions := opts\<rparr>
              else
                (let s00 = s0\<lparr>targetConvergence := 0.10\<rparr>
                 in if truthy_str pattern
                    then setFlowTargets e (nullish pattern []) opts s00
                    else (setFlowTargets e
                            (FLOW_PATTERN_GENERATOR_KEYS !
                               (flowPatternIdx s00 mod length FLOW_PATTERN_GENERATOR_KEYS))
                            opts s00)
                         \<lparr>flowPatternIdx := flowPatternIdx s00 + 1\<rparr>))
        else s\<lparr>uniforms := (uniforms s)\<lparr>uFlattenZ := 0.0\<rparr>, targetConvergence := 0.0,
               sweepDir := (0, 0, 0)\<rparr>)
     in if mode \<noteq> ''text'' \<and> mode \<noteq> ''forming'' then s1\<lparr>currentText := []\<rparr> else s1)"

text \<open>
  \<^verbatim>\<open>setShadowSculptureTarget\<close>. When the sampled sculpture is empty the source stores
  not-a-number in every target; the model has no such value and leaves the buffer as it is
  in that case.
\<close>

definition setShadowSculptureTarget :: "env \<Rightarrow> string \<Rightarrow> string \<Rightarrow> options \<Rightarrow> engine \<Rightarrow> engine" where
  "setShadowSculptureTarget e textA textB opts s =
    (if textA = [] \<or> textB = [] then s
     else
       let s1 = resetToSingleLayer
                  (s\<lparr>uniforms := (uniforms s)\<lparr>uFlattenZ := 0.0, uGPUPatternId := 0\<rparr>\<rparr>);
           sp = dualProjection e textA textB (or_str (font opts) (textFont s1))
                  (or_num (fontSize opts) (textFontSize s1)) (count s1)
                  (or_num (targetWidth opts) 4);
           num = length sp;
           ta = (if num = 0 then targetBuffer s1
                 else foldl (\<lambda>t i.
                        let srcIdx = i mod num;
                            jitter = (if i < num then 0 else 0.03)
                        in t[i := (fst (sp ! srcIdx) + randomCentered e (i * 3) * jitter,
                                   fst (snd (sp ! srcIdx)) + randomCentered e (i * 3 + 1) * jitter,
                                   snd (snd (sp ! srcIdx)) + randomCentered e (i * 3 + 2) * jitter)])
                      (targetBuffer s1) [0..<count s1])
       in s1\<lparr>currentText := textA @ ''|'' @ textB, lastTextTime := 0, textIndex := textIndex s1 + 1,
             maxConvergence := nullish (o_maxConvergence opts) 1.0,
             holdDurationOverride := holdDuration opts,
             releaseSpeed := nullish (o_releaseSpeed opts) 1.0,
             dissolveMode := o_dissolveMode opts,
             physicsOverrides := extractPhysicsOverrides opts,
             targetBuffer := ta, charData := None, formationPending := False,
             animType := ''sculpture'', phase := Text, targetConvergence := 1.0,
             sweepDir := (0, 0, 0)\<rparr>)"

text \<open>\<^verbatim>\<open>_getDefaultAnimation\<close>: the animation names in table order, cycled by the text index.\<close>

definition getDefaultAnimation :: "engine \<Rightarrow> string" where
  "getDefaultAnimation s = map fst TEXT_ANIMATIONS ! (textIndex s mod length TEXT_ANIMATIONS)"

definition isAnamorphicDir :: "vec3 option \<Rightarrow> bool" where
  "isAnamorphicDir viewDir =
    (case viewDir of None \<Rightarrow> False | Some (x, y, z) \<Rightarrow> x \<noteq> 0 \<or> y \<noteq> 0 \<or> z \<noteq> 1)"

text \<open>The index slice of each character: \<^verbatim>\<open>startIdx\<close>, \<^verbatim>\<open>count\<close>, and the origin offset.\<close>

definition assignSlices :: "nat \<Rightarrow> nat \<Rightarrow> nat \<Rightarrow> real \<Rightarrow> real \<Rightarrow> char_data list \<Rightarrow> char_data list" where
  "assignSlices groupStart groupCount nChars offX offY cds =
    (let perChar = groupCount div nChars
     in map (\<lambda>(c, cd).
          cd\<lparr>startIdx := groupStart + c * perChar,
             cd_count := (if c < nChars - 1 then perChar else groupCount - c * perChar),
             revealed := False,
             center := (fst (center cd) + offX, fst (snd (center cd)) + offY, snd (snd (center cd))),
             textPositions := map (\<lambda>(x, y, z). (x + offX, y + offY, z)) (textPositions cd)\<rparr>)
          (zip [0..<length cds] cds))"

text \<open>
  \<^verbatim>\<open>setTextTarget\<close> (\<^verbatim>\<open>setText\<close> forwards to it). The first block moves the split point, the
  middle part samples the text, and the last block writes either slot B or the main slot
  (the main slot's own fields first, then the group B animation that may accompany it).
\<close>

definition splitForGroup :: "nat \<Rightarrow> options \<Rightarrow> engine \<Rightarrow> engine" where
  "splitForGroup pg opts s =
    (if pg = 1 then
       s\<lparr>splitPoint := count s div 2,
         uniforms := (uniforms s)\<lparr>uGroupSplit := count s div 2\<rparr>,
         groupBPatternActive := False\<rparr>
     else if pg = 0 \<and> truthy_str (groupBPattern opts) then
       s\<lparr>splitPoint := count s div 2,
         uniforms := (uniforms s)\<lparr>uGroupSplit := count s div 2\<rparr>,
         groupBPatternActive := True\<rparr>
     else if pg = 0 \<and> groupBPatternActive s then
       s\<lparr>splitPoint := count s,
         uniforms := (uniforms s)\<lparr>uGroupSplit := count s, uGPUPatternIdB := 0\<rparr>,
         groupBPatternActive := False\<rparr>
     else s)"

definition backgroundForGroup :: "nat \<Rightarrow> options \<Rightarrow> nat \<Rightarrow> engine \<Rightarrow> engine" where
  "backgroundForGroup pg opts nChars s =
    (if pg = 0 then
       (if truthy_str (backgroundPattern opts) then
          (let bgId = nullish (GPU_PATTERN_IDS (nullish (backgroundPattern opts) [])) 0
           in if bgId \<noteq> 0
              then s\<lparr>uniforms := (uniforms s)\<lparr>uBgPatternId := bgId,
                        uTextParticleRatio := nullish (textRatio opts) 0.6,
                        uTextPerChar := real (count s div nChars)\<rparr>\<rparr>
              else s)
        else s\<lparr>uniforms := (uniforms s)\<lparr>uBgPatternId := 0, uTextParticleRatio := 1.0,
                  uTextPerChar := 1.0\<rparr>\<rparr>)
     else s)"

definition writeSlotB :: "env \<Rightarrow> string \<Rightarrow> vec3 \<Rightarrow> options \<Rightarrow> char_data list \<Rightarrow> engine \<Rightarrow> engine" where
  "writeSlotB e animName sweep opts cds s =
    s\<lparr>slotB := (slotB s)\<lparr>b_charData := Some cds, b_formationStartTime := -1,
                  b_formationPending := False, b_animType := Some animName, b_sweepDir := sweep,
                  b_holdDurationOverride := holdDuration opts,
                  b_releaseSpeed := nullish (o_releaseSpeed opts) 1.0,
                  b_dissolveMode := o_dissolveMode opts,
                  b_maxConvergence := nullish (o_maxConvergence opts) 1.0,
                  b_physicsOverrides := physicsOverrides s,
                  b_lastTextTime := 0, b_targetConvergence := 1.0, b_phase := Text\<rparr>,
      targetBuffer := applyAllCharTargets e (count s) cds (targetBuffer s)\<rparr>"

definition groupBAnimation :: "options \<Rightarrow> engine \<Rightarrow> engine" where
  "groupBAnimation opts s =
    (if truthy_str (groupBPattern opts) then
       (let bgId = nullish (GPU_PATTERN_IDS (nullish (groupBPattern opts) [])) 0;
            bConv = nullish (groupBConvergence opts) 0.4
        in if bgId \<noteq> 0
           then s\<lparr>uniforms := (uniforms s)\<lparr>uGPUPatternIdB := bgId,
                     uFlowOriginB := nullish (groupBOrigin opts) (0, 0, 0),
                     uFlowScaleB := nullish (groupBScale opts) 1.0\<rparr>,
                   slotB := (slotB s)\<lparr>b_phase := Text, b_lastTextTime := 0,
                     b_targetConvergence := bConv, b_maxConvergence := bConv,
                     b_holdDurationOverride := holdDuration opts, b_releaseSpeed := 1.0,
                     b_charData := None, b_dissolveMode := None, b_physicsOverrides := None\<rparr>\<rparr>
           else s)
     else s)"

definition writeMainTargets :: "env \<Rightarrow> string \<Rightarrow> vec3 \<Rightarrow> options \<Rightarrow> char_data list \<Rightarrow> engine \<Rightarrow> engine" where
  "writeMainTargets e animName sweep opts cds s =
    (let s1 = s\<lparr>lastTextTime := 0,
                maxConvergence := nullish (o_maxConvergence opts) 1.0,
                holdDurationOverride := holdDuration opts,
                releaseSpeed := nullish (o_releaseSpeed opts) 1.0,
                dissolveMode := o_dissolveMode opts,
                charData := Some cds, formationStartTime := -1, formationPending := True,
                animType := animName, sweepDir := sweep, targetConvergence := 1.0\<rparr>
     in if animName = ''directSnap''
        then s1\<lparr>targetBuffer := applyAllCharTargets e (count s1) cds (targetBuffer s1),
                formationPending := False, phase := Text\<rparr>
        else s1\<lparr>targetBuffer := setupFormation e animName (count s1) cds (targetBuffer s1),
                phase := Forming\<rparr>)"

definition writeMainSlot :: "env \<Rightarrow> string \<Rightarrow> vec3 \<Rightarrow> options \<Rightarrow> char_data list \<Rightarrow> engine \<Rightarrow> engine" where
  "writeMainSlot e animName sweep opts cds s =
    groupBAnimation opts (writeMainTargets e animName sweep opts cds s)"

definition setTextTarget :: "env \<Rightarrow> string \<Rightarrow> options \<Rightarrow> engine \<Rightarrow> engine" where
  "setTextTarget e text opts s =
    (if text = [] then s
     else
       let pg = nullish (particleGroup opts) 0;
           s1 = splitForGroup pg opts s;
           groupStart = (if pg = 1 then splitPoint s1 else 0);
           groupEnd = (if pg = 1 then count s1 else splitPoint s1);
           groupCount = groupEnd - groupStart;
           s2 = (resetToSingleLayer (s1\<lparr>uniforms := (uniforms s1)\<lparr>uGPUPatternId := 0\<rparr>\<rparr>))
                  \<lparr>currentText := text, textIndex := textIndex s1 + 1,
                   physicsOverrides := extractPhysicsOverrides opts\<rparr>;
           animName = or_str (animation opts) (getDefaultAnimation s2);
           s3 = s2\<lparr>animType := animName\<rparr>;
           isAnamorphic = isAnamorphicDir (viewDirection opts);
           nChars = length text;
           s4 = backgroundForGroup pg opts nChars s3;
           sampled = sampleTextPositionsPerChar e text
                       \<lparr>s_font = or_str (font opts) (textFont s4),
                        s_fontSize = or_num (fontSize opts) (textFontSize s4),
                        s_maxPointsPerChar = min 30000 (groupCount div nChars),
                        s_targetWidth = or_num (targetWidth opts) (if nChars \<le> 3 then 2.5 else 4),
                        s_depthSpread = or_num (o_depthSpread opts) (if isAnamorphic then 0.15 else 0),
                        s_align = or_str (align opts) ''center''\<rparr>;
           offX = (case origin opts of Some (x, y, z) \<Rightarrow> x | None \<Rightarrow> 0);
           offY = (case origin opts of Some (x, y, z) \<Rightarrow> y | None \<Rightarrow> 0);
           cds = assignSlices groupStart groupCount nChars offX offY sampled;
           s5 = s4\<lparr>targetWorldQuat :=
                      (if isAnamorphic
                       then Some (QuatFromUnitVectors (nullish (viewDirection opts) (0, 0, 1)))
                       else Some QuatIdentity),
                   uniforms := (uniforms s4)\<lparr>uFlattenZ := (if isAnamorphic then 0.0 else 1.0)\<rparr>\<rparr>;
           sweep = sweepDirs ! (textIndex s5 mod length sweepDirs)
       in if pg = 1 then writeSlotB e animName sweep opts cds s5
          else writeMainSlot e animName sweep opts cds s5)"

definition setText :: "env \<Rightarrow> string \<Rightarrow> options \<Rightarrow> engine \<Rightarrow> engine" where
  "setText e text opts s = setTextTarget e text opts s"

text \<open>\<^verbatim>\<open>setParams\<close> and \<^verbatim>\<open>onProjectionChange\<close>.\<close>

record params =
  pa_spring :: "real option"
  pa_damping :: "real option"
  pa_noiseScale :: "real option"
  pa_noiseStrength :: "real option"
  pa_pointSize :: "real option"
  pa_mode :: "string option"

definition setParams :: "env \<Rightarrow> params \<Rightarrow> engine \<Rightarrow> engine" where
  "setParams e pa s =
    (let s1 = s\<lparr>spring := nullish (pa_spring pa) (spring s),
                damping := nullish (pa_damping pa) (damping s),
                noiseScale := nullish (pa_noiseScale pa) (noiseScale s),
                noiseStrength := nullish (pa_noiseStrength pa) (noiseStrength s)\<rparr>;
         s2 = (case pa_pointSize pa of
                 Some v \<Rightarrow> s1\<lparr>pointSize := v, uniforms := (uniforms s1)\<lparr>uPointSize := v\<rparr>\<rparr>
               | None \<Rightarrow> s1)
     in if truthy_str (pa_mode pa) then setMode e (nullish (pa_mode pa) []) None no_options s2
        else s2)"

definition onProjectionChange :: "bool \<Rightarrow> engine \<Rightarrow> engine" where
  "onProjectionChange isOrtho s =
    s\<lparr>uniforms := (uniforms s)\<lparr>uIsOrtho := (if isOrtho then 1 else 0)\<rparr>\<rparr>"

subsection \<open>The per-frame update\<close>

text \<open>
  \<^verbatim>\<open>update\<close> is a sequence of blocks, each modelled by one function in the order of the
  source. The clock block caps the time step; the time that selects the macro row is
  \<^verbatim>\<open>musicTime || elapsedTime\<close>, so an absent or zero music time falls back to the elapsed
  time.
\<close>

definition clock_step :: "tick \<Rightarrow> engine \<Rightarrow> engine" where
  "clock_step tc s =
    s\<lparr>uniforms := (uniforms s)\<lparr>uDeltaTime := min (deltaTime tc) 0.022, uTime := elapsedTime tc\<rparr>\<rparr>"

definition macroTime :: "tick \<Rightarrow> real" where
  "macroTime tc = or_num (musicTime tc) (elapsedTime tc)"

text \<open>The loop choosing the macro row: the last row unless an earlier one ends later than \<open>t\<close>.\<close>

fun firstEndingAfter :: "real \<Rightarrow> macro_phase list \<Rightarrow> macro_phase option" where
  "firstEndingAfter t [] = None"
| "firstEndingAfter t (p # ps) = (if t < p_end p then Some p else firstEndingAfter t ps)"

definition activePhase :: "real \<Rightarrow> macro_phase" where
  "activePhase t = nullish (firstEndingAfter t MACRO_PHASES) (last MACRO_PHASES)"

text \<open>\<^verbatim>\<open>ov?.key\<close>, and one eased scalar: \<^verbatim>\<open>m.x += ((ov?.k ?? ambient) - m.x) * (ov?.k != null ? ovRate : rate)\<close>.\<close>

definition ovGet :: "physics_overrides option \<Rightarrow> (physics_overrides \<Rightarrow> real option) \<Rightarrow> real option" where
  "ovGet ov key = (case ov of None \<Rightarrow> None | Some r \<Rightarrow> key r)"

definition ease :: "real \<Rightarrow> real option \<Rightarrow> real \<Rightarrow> real \<Rightarrow> real \<Rightarrow> real" where
  "ease x ovv ambient ovRate rate =
    x + (nullish ovv ambient - x) * (if ovv \<noteq> None then ovRate else rate)"

definition easeMacro :: "physics_overrides option \<Rightarrow> macro_phase \<Rightarrow> macro \<Rightarrow> macro" where
  "easeMacro ov ph m =
    (let rate = 0.005;
         ovRate = nullish (ovGet ov ov_lerpRate) rate
     in \<lparr>m_noiseStr = ease (m_noiseStr m) (ovGet ov ov_noiseStrength) (p_noiseStr ph) ovRate rate,
         m_noiseScl = ease (m_noiseScl m) (ovGet ov ov_noiseScale) (p_noiseScl ph) ovRate rate,
         m_spring = ease (m_spring m) (ovGet ov ov_spring) (p_spring ph) ovRate rate,
         m_damp = ease (m_damp m) (ovGet ov ov_damping) (p_damp ph) ovRate rate,
         m_vortex = ease (m_vortex m) (ovGet ov ov_vortex) (p_vortex ph) ovRate rate,
         m_wave = ease (m_wave m) (ovGet ov ov_wave) (p_wave ph) ovRate rate,
         m_gravity = ease (m_gravity m) (ovGet ov ov_gravity) 0 ovRate rate,
         m_convUp = ease (m_convUp m) (ovGet ov ov_convUp) (p_convUp ph) ovRate rate,
         m_convDn = ease (m_convDn m) (ovGet ov ov_convDn) (p_convDn ph) ovRate rate,
         m_pointScale = ease (m_pointScale m) (ovGet ov ov_pointScale) (p_pointScale ph) ovRate rate\<rparr>)"

definition macro_step :: "tick \<Rightarrow> engine \<Rightarrow> engine" where
  "macro_step tc s =
    (let m = easeMacro (physicsOverrides s) (activePhase (macroTime tc)) (macro s)
     in s\<lparr>macro := m,
          uniforms := (uniforms s)\<lparr>uNoiseStrength := m_noiseStr m, uNoiseScale := m_noiseScl m,
            uSpringStrength := m_spring m, uDamping := m_damp m, uVortexStrength := m_vortex m,
            uWaveStrength := m_wave m, uGravity := m_gravity m,
            uWavePhase := elapsedTime tc * 3.0\<rparr>\<rparr>)"

definition dissolve_boost_step :: "engine \<Rightarrow> engine" where
  "dissolve_boost_step s =
    (let s1 = (if phase s = Releasing \<and> dissolveMode s = Some ''down''
               then (let progress = 0.3 + 0.7 * max 0 (1.0 - convergence s / 0.8)
                     in s\<lparr>uniforms := (uniforms s)\<lparr>
                            uGravity := uGravity (uniforms s) + 0.0018 * progress,
                            uNoiseStrength := uNoiseStrength (uniforms s) + 0.0012 * progress\<rparr>\<rparr>)
               else s)
     in s1\<lparr>uniforms := (uniforms s1)\<lparr>uPointSize := pointSize s1 * m_pointScale (macro s1)\<rparr>\<rparr>)"

text \<open>
  The asymmetric convergence of a group: a step of the given speed towards the target, then
  the per-lyric ceiling, which applies only when it is below 1.
\<close>

definition converge :: "real \<Rightarrow> real \<Rightarrow> real \<Rightarrow> real \<Rightarrow> real \<Rightarrow> real" where
  "converge conv target upSpeed downSpeed maxConv =
    (let isRising = target > conv;
         convSpeed = (if isRising then upSpeed else downSpeed);
         c = conv + (target - conv) * convSpeed
     in if maxConv < 1.0 then min c maxConv else c)"

definition convergence_step :: "engine \<Rightarrow> engine" where
  "convergence_step s =
    (let c = converge (convergence s) (targetConvergence s)
               (m_convUp (macro s) * convUpScale s)
               (m_convDn (macro s) * convDnScale s * releaseSpeed s)
               (maxConvergence s)
     in s\<lparr>convergence := c, uniforms := (uniforms s)\<lparr>uConvergence := c\<rparr>\<rparr>)"

definition sweep_step :: "engine \<Rightarrow> engine" where
  "sweep_step s =
    (let x = currentSweepX s + (fst (sweepDir s) - currentSweepX s) * 0.025;
         y = currentSweepY s + (fst (snd (sweepDir s)) - currentSweepY s) * 0.025;
         z = currentSweepZ s + (snd (snd (sweepDir s)) - currentSweepZ s) * 0.025
     in s\<lparr>currentSweepX := x, currentSweepY := y, currentSweepZ := z,
          uniforms := (uniforms s)\<lparr>uSweepX := x, uSweepY := y, uSweepZ := z\<rparr>\<rparr>)"

text \<open>
  The slot B block, on the slot alone: convergence, sweep, start of the hold, end of the
  hold, end of the release. It runs only while the split point is below the particle count.
\<close>

definition slotB_converge :: "macro \<Rightarrow> slotB \<Rightarrow> slotB" where
  "slotB_converge m b =
    b\<lparr>b_convergence := converge (b_convergence b) (b_targetConvergence b)
                          (m_convUp m) (m_convDn m * b_releaseSpeed b) (b_maxConvergence b)\<rparr>"

definition slotB_sweep :: "slotB \<Rightarrow> slotB" where
  "slotB_sweep b =
    b\<lparr>b_currentSweepX := b_currentSweepX b + (fst (b_sweepDir b) - b_currentSweepX b) * 0.025,
      b_currentSweepY := b_currentSweepY b + (fst (snd (b_sweepDir b)) - b_currentSweepY b) * 0.025,
      b_currentSweepZ := b_currentSweepZ b + (snd (snd (b_sweepDir b)) - b_currentSweepZ b) * 0.025\<rparr>"

definition slotB_hold :: "real \<Rightarrow> real \<Rightarrow> slotB \<Rightarrow> slotB" where
  "slotB_hold elapsed defaultHold b =
    (let b1 = (if b_phase b = Text \<and> b_lastTextTime b = 0 then b\<lparr>b_lastTextTime := elapsed\<rparr> else b)
     in if b_phase b1 = Text \<and> b_lastTextTime b1 > 0
           \<and> elapsed - b_lastTextTime b1 > nullish (b_holdDurationOverride b1) defaultHold
        then b1\<lparr>b_phase := Releasing, b_targetConvergence := 0\<rparr>
        else b1)"

definition slotB_release :: "slotB \<Rightarrow> slotB" where
  "slotB_release b =
    (if b_phase b = Releasing \<and> b_convergence b < 0.02
     then b\<lparr>b_phase := Flow, b_lastTextTime := 0, b_targetConvergence := 0.1,
            b_physicsOverrides := None, b_dissolveMode := None, b_maxConvergence := 1.0,
            b_holdDurationOverride := None, b_releaseSpeed := 1.0\<rparr>
     else b)"

definition slotB_tick :: "macro \<Rightarrow> real \<Rightarrow> real \<Rightarrow> slotB \<Rightarrow> slotB" where
  "slotB_tick m elapsed defaultHold b =
    slotB_release (slotB_hold elapsed defaultHold (slotB_sweep (slotB_converge m b)))"

definition slotB_step :: "tick \<Rightarrow> engine \<Rightarrow> engine" where
  "slotB_step tc s =
    (if splitPoint s < count s then
       (let b = slotB_tick (macro s) (elapsedTime tc) (textHoldDuration s) (slotB s);
            b0 = slotB_sweep (slotB_converge (macro s) (slotB s))
        in s\<lparr>slotB := b,
             uniforms := (uniforms s)\<lparr>uConvergenceB := b_convergence b0,
               uSweepXB := b_currentSweepX b0, uSweepYB := b_currentSweepY b0,
               uSweepZB := b_currentSweepZ b0\<rparr>\<rparr>)
     else s)"

text \<open>
  The formation block: every unrevealed character whose time has come is revealed, and when
  none is left the phase becomes \<^verbatim>\<open>text\<close>.
\<close>

definition revealDue ::
  "env \<Rightarrow> nat \<Rightarrow> real \<Rightarrow> real \<Rightarrow> real \<Rightarrow>
   char_data list \<times> vec3 list \<times> bool \<Rightarrow> nat \<Rightarrow> char_data list \<times> vec3 list \<times> bool" where
  "revealDue e cnt elapsed delay stagger acc c =
    (case acc of (cds, ta, allRevealed) \<Rightarrow>
       if revealed (cds ! c) then (cds, ta, allRevealed)
       else if elapsed \<ge> delay + real c * stagger
            then (fst (revealChar e cnt c cds ta), snd (revealChar e cnt c cds ta), allRevealed)
            else (cds, ta, False))"

definition formation_step :: "env \<Rightarrow> tick \<Rightarrow> engine \<Rightarrow> engine" where
  "formation_step e tc s =
    (case charData s of
       None \<Rightarrow> s
     | Some cds0 \<Rightarrow>
         if \<not> formationPending s then s
         else
           let s1 = (if formationStartTime s < 0 then s\<lparr>formationStartTime := elapsedTime tc\<rparr> else s);
               elapsed = elapsedTime tc - formationStartTime s1;
               ad = animDef (animType s1);
               r = foldl (revealDue e (count s1) elapsed (fst ad) (snd ad))
                     (cds0, targetBuffer s1, True) [0..<length cds0];
               s2 = s1\<lparr>charData := Some (fst r), targetBuffer := fst (snd r)\<rparr>
           in if snd (snd r) then s2\<lparr>formationPending := False, phase := Text\<rparr> else s2)"

definition animated_flow_step :: "env \<Rightarrow> tick \<Rightarrow> engine \<Rightarrow> engine" where
  "animated_flow_step e tc s =
    (if phase s = Flow \<and> uGPUPatternId (uniforms s) = 0
        \<and> currentFlowPattern s \<in> set FLOW_PATTERN_ANIMATOR_KEYS
     then (if (case lastAnimUpdate s of None \<Rightarrow> True
               | Some l \<Rightarrow> l = 0 \<or> elapsedTime tc - l > 0.25)
           then s\<lparr>lastAnimUpdate := Some (elapsedTime tc),
                  targetBuffer := animator e (currentFlowPattern s) (targetBuffer s) (count s)
                                    (elapsedTime tc)\<rparr>
           else s)
     else s)"

definition text_time_step :: "tick \<Rightarrow> engine \<Rightarrow> engine" where
  "text_time_step tc s =
    (if lastTextTime s = 0 \<and> phase s = Text then s\<lparr>lastTextTime := elapsedTime tc\<rparr> else s)"

text \<open>The hold duration of the main slot: the override, or the constructor's value.\<close>

definition holdDur :: "engine \<Rightarrow> real" where
  "holdDur s = nullish (holdDurationOverride s) (textHoldDuration s)"

definition hold_step :: "tick \<Rightarrow> engine \<Rightarrow> engine" where
  "hold_step tc s =
    (if phase s = Text \<and> lastTextTime s > 0 \<and> elapsedTime tc - lastTextTime s > holdDur s
     then s\<lparr>phase := Releasing, targetConvergence := 0.0\<rparr>
     else s)"

text \<open>
  The last block: a released group returns to flow. The pending pattern and options recorded
  by \<^verbatim>\<open>setMode\<close> go to \<^verbatim>\<open>setFlowTargets\<close>, which runs after the overrides are cleared.
\<close>

definition release_step :: "env \<Rightarrow> engine \<Rightarrow> engine" where
  "release_step e s =
    (if phase s = Releasing \<and> convergence s < 0.02 then
       (let s1 = resetToSingleLayer
                   (s\<lparr>phase := Flow, lastTextTime := 0, currentText := [],
                      physicsOverrides := None, dissolveMode := None, maxConvergence := 1.0,
                      holdDurationOverride := None, releaseSpeed := 1.0,
                      uniforms := (uniforms s)\<lparr>uBgPatternId := 0, uTextParticleRatio := 1.0,
                                    uTextPerChar := 1.0\<rparr>,
                      targetWorldQuat := Some QuatIdentity\<rparr>);
            nextPattern = or_str (pendingFlowPattern s1) ''organic'';
            nextOptions = pendingFlowOptions s1;
            s2 = s1\<lparr>pendingFlowPattern := None, pendingFlowOptions := no_options\<rparr>
        in (setFlowTargets e nextPattern nextOptions s2)
             \<lparr>targetConvergence := 0.10, sweepDir := (0, 0, 0)\<rparr>)
     else s)"

definition update :: "env \<Rightarrow> tick \<Rightarrow> engine \<Rightarrow> engine" where
  "update e tc s =
    release_step e
      (hold_step tc
        (text_time_step tc
          (animated_flow_step e tc
            (formation_step e tc
              (slotB_step tc
                (sweep_step
                  (convergence_step
                    (dissolve_boost_step
                      (macro_step tc
                        (clock_step tc s))))))))))"

subsection \<open>Construction\<close>

text \<open>
  The constructor's parameters, each optional, and the state that the constructor and
  \<^verbatim>\<open>init\<close> build before \<^verbatim>\<open>init\<close> ends with \<^verbatim>\<open>setMode('flow')\<close>.
\<close>

record ctor_params =
  c_count :: "nat option"
  c_spring :: "real option"
  c_damping :: "real option"
  c_noiseScale :: "real option"
  c_noiseStrength :: "real option"
  c_pointSize :: "real option"
  c_font :: "string option"
  c_fontSize :: "real option"
  c_textHoldDuration :: "real option"
  c_convUpScale :: "real option"
  c_convDnScale :: "real option"

definition default_params :: ctor_params where
  "default_params =
    \<lparr>c_count = None, c_spring = None, c_damping = None, c_noiseScale = None,
     c_noiseStrength = None, c_pointSize = None, c_font = None, c_fontSize = None,
     c_textHoldDuration = None, c_convUpScale = None, c_convDnScale = None\<rparr>"

definition initialUniforms :: "nat \<Rightarrow> real \<Rightarrow> real \<Rightarrow> real \<Rightarrow> real \<Rightarrow> real \<Rightarrow> uniforms" where
  "initialUniforms COUNT sp da nsc nst ps =
    \<lparr>uDeltaTime = 0.016, uTime = 0, uSpringStrength = sp, uDamping = da, uNoiseScale = nsc,
     uNoiseStrength = nst, uConvergence = 0, uSweepX = 0, uSweepY = 0, uSweepZ = 0,
     uVortexStrength = 0, uWavePhase = 0, uWaveStrength = 0, uGravity = 0, uIsOrtho = 0,
     uFlattenZ = 0, uGPUPatternId = 0, uBgPatternId = 0, uTextParticleRatio = 1.0,
     uTextPerChar = 1.0, uGroupSplit = COUNT, uConvergenceB = 0.0, uSweepXB = 0.0,
     uSweepYB = 0.0, uSweepZB = 0.0, uGPUPatternIdB = 0, uFlowOriginB = (0, 0, 0),
     uFlowScaleB = 1.0, uFlowOrigin = (0, 0, 0), uFlowScale = 1.0, uNumLayers = 1,
     uLayerPatternId0 = 0, uLayerPatternId1 = 0, uLayerPatternId2 = 0, uLayerPatternId3 = 0,
     uLayerOrigin0 = (0, 0, 0), uLayerOrigin1 = (0, 0, 0), uLayerOrigin2 = (0, 0, 0),
     uLayerOrigin3 = (0, 0, 0), uLayerScale0 = 1.0, uLayerScale1 = 1.0, uLayerScale2 = 1.0,
     uLayerScale3 = 1.0, uPointSize = ps\<rparr>"

definition constructed :: "env \<Rightarrow> ctor_params \<Rightarrow> engine" where
  "constructed e cp =
    (let COUNT = (case c_count cp of Some n \<Rightarrow> (if n = 0 then 1000000 else n) | None \<Rightarrow> 1000000);
         sp = nullish (c_spring cp) 0.005;
         da = nullish (c_damping cp) 0.988;
         nsc = nullish (c_noiseScale cp) 0.15;
         nst = nullish (c_noiseStrength cp) 0.0003;
         ps = nullish (c_pointSize cp) 1.0
     in \<lparr>count = COUNT, spring = sp, damping = da, noiseScale = nsc, noiseStrength = nst,
         pointSize = ps,
         posBuffer = initialPositions e COUNT,
         velBuffer = replicate COUNT (0, 0, 0),
         targetBuffer = replicate COUNT (0, 0, 0),
         uniforms = initialUniforms COUNT sp da nsc nst ps,
         currentText = [],
         textFont = or_str (c_font cp) (CHR 0x27 # ''Zen Kaku Gothic New'' @ CHR 0x27 # '', sans-serif''),
         textFontSize = or_num (c_fontSize cp) 200,
         textHoldDuration = nullish (c_textHoldDuration cp) 2.5,
         convUpScale = nullish (c_convUpScale cp) 1.0,
         convDnScale = nullish (c_convDnScale cp) 1.0,
         lastTextTime = 0, textIndex = 0, flowPatternIdx = 0,
         phase = Flow, convergence = 0.0, targetConvergence = 0.0,
         charData = None, animType = ''directSnap'', formationPending = False,
         formationStartTime = -1,
         maxConvergence = 1.0, holdDurationOverride = None, releaseSpeed = 1.0,
         sweepDir = (0, 0, 0), currentSweepX = 0, currentSweepY = 0, currentSweepZ = 0,
         lastFlowTargetUpdate = 0, lastAnimUpdate = None, currentFlowPattern = ''organic'',
         macro = \<lparr>m_noiseStr = 0.00015, m_noiseScl = 0.10, m_spring = 0.012, m_damp = 0.993,
                   m_vortex = 0.0, m_wave = 0.0, m_gravity = 0.0, m_convUp = 0.025,
                   m_convDn = 0.004, m_pointScale = 0.6\<rparr>,
         physicsOverrides = None, dissolveMode = None,
         pendingFlowPattern = None, pendingFlowOptions = no_options,
         targetWorldQuat = None, splitPoint = COUNT, groupBPatternActive = False,
         slotB = slotB_init\<rparr>)"

definition init :: "env \<Rightarrow> ctor_params \<Rightarrow> engine" where
  "init e cp = setMode e ''flow'' None no_options (constructed e cp)"

subsection \<open>Call sequences\<close>

text \<open>
  The public methods as commands. Each call comes with its own environment, since the random
  numbers and rasterised glyphs differ from call to call.
\<close>

datatype command =
    SetText string options
  | SetShadowSculptureTarget string string options
  | SetFlowTargets "string option" options
  | SetFlowOrigin real real real
  | SetFlowScale real
  | SetFlowTargetsMultiLayer "layer list"
  | SnapToTargets
  | SetMode string "string option" options
  | Update tick
  | SetParams params
  | OnProjectionChange bool

fun exec :: "env \<Rightarrow> command \<Rightarrow> engine \<Rightarrow> engine" where
  "exec e (SetText text opts) s = setText e text opts s"
| "exec e (SetShadowSculptureTarget textA textB opts) s = setShadowSculptureTarget e textA textB opts s"
| "exec e (SetFlowTargets pattern opts) s = setFlowTargets e (nullish pattern ''organic'') opts s"
| "exec e (SetFlowOrigin x y z) s = setFlowOrigin x y z s"
| "exec e (SetFlowScale scale) s = setFlowScale scale s"
| "exec e (SetFlowTargetsMultiLayer layers) s = setFlowTargetsMultiLayer layers s"
| "exec e SnapToTargets s = snapToTargets s"
| "exec e (SetMode mode pattern opts) s = setMode e mode pattern opts s"
| "exec e (Update tc) s = update e tc s"
| "exec e (SetParams pa) s = setParams e pa s"
| "exec e (OnProjectionChange isOrtho) s = onProjectionChange isOrtho s"

fun run :: "(env \<times> command) list \<Rightarrow> engine \<Rightarrow> engine" where
  "run [] s = s"
| "run (ec # rest) s = run rest (exec (fst ec) (snd ec) s)"

subsection \<open>The compute kernel\<close>

text \<open>
  The kernel runs once per particle \<open>i\<close>. The functions below are the sub-expressions of
  \<^verbatim>\<open>computeUpdate\<close> that pick the particle's group, layer and attraction and that handle its
  life; the forces between them (noise, vortex, wave, spring, camera, boundary, gravity,
  damping) are not needed here and are not modelled. The shader library's \<^verbatim>\<open>hash\<close> and the
  pattern bodies of \<^verbatim>\<open>buildGPUTargetSection\<close> are parameters.
\<close>

definition mix :: "real \<Rightarrow> real \<Rightarrow> real \<Rightarrow> real" where
  "mix a b t = a * (1 - t) + b * t"

definition clamp :: "real \<Rightarrow> real \<Rightarrow> real \<Rightarrow> real" where
  "clamp x lo hi = min (max x lo) hi"

definition fmod :: "real \<Rightarrow> real \<Rightarrow> real" where
  "fmod x y = x - y * of_int \<lfloor>x / y\<rfloor>"

definition vadd :: "vec3 \<Rightarrow> vec3 \<Rightarrow> vec3" where
  "vadd a b = (fst a + fst b, fst (snd a) + fst (snd b), snd (snd a) + snd (snd b))"

definition vsub :: "vec3 \<Rightarrow> vec3 \<Rightarrow> vec3" where
  "vsub a b = (fst a - fst b, fst (snd a) - fst (snd b), snd (snd a) - snd (snd b))"

definition vscale :: "vec3 \<Rightarrow> real \<Rightarrow> vec3" where
  "vscale a k = (fst a * k, fst (snd a) * k, snd (snd a) * k)"

definition vlength :: "vec3 \<Rightarrow> real" where
  "vlength a = sqrt (fst a * fst a + fst (snd a) * fst (snd a) + snd (snd a) * snd (snd a))"

definition inGroupB :: "uniforms \<Rightarrow> nat \<Rightarrow> real" where
  "inGroupB u i = (if real i \<ge> real (uGroupSplit u) then 1 else 0)"

definition effConv :: "uniforms \<Rightarrow> nat \<Rightarrow> real" where
  "effConv u i = mix (uConvergence u) (uConvergenceB u) (inGroupB u i)"

definition effSweep :: "uniforms \<Rightarrow> nat \<Rightarrow> vec3" where
  "effSweep u i =
    (mix (uSweepX u) (uSweepXB u) (inGroupB u i),
     mix (uSweepY u) (uSweepYB u) (inGroupB u i),
     mix (uSweepZ u) (uSweepZB u) (inGroupB u i))"

text \<open>The layer block: pattern id, origin and scale in force for particle \<open>i\<close>.\<close>

definition resolveLayer :: "uniforms \<Rightarrow> nat \<Rightarrow> nat \<times> vec3 \<times> real" where
  "resolveLayer u i =
    (if uNumLayers u > 1 then
       (let layerId = i mod uNumLayers u
        in if layerId < 1 then (uLayerPatternId0 u, uLayerOrigin0 u, uLayerScale0 u)
           else if layerId < 2 then (uLayerPatternId1 u, uLayerOrigin1 u, uLayerScale1 u)
           else if layerId < 3 then (uLayerPatternId2 u, uLayerOrigin2 u, uLayerScale2 u)
           else (uLayerPatternId3 u, uLayerOrigin3 u, uLayerScale3 u))
     else (uGPUPatternId u, uFlowOrigin u, uFlowScale u))"

definition isBgParticle :: "uniforms \<Rightarrow> nat \<Rightarrow> bool" where
  "isBgParticle u i =
    (let tpc = max (uTextPerChar u) 1.0;
         posInChar = fmod (real i) tpc
     in uBgPatternId u > 0 \<and> posInChar / tpc \<ge> uTextParticleRatio u)"

definition effPattern :: "uniforms \<Rightarrow> nat \<Rightarrow> nat \<times> vec3 \<times> real" where
  "effPattern u i =
    (if isBgParticle u i
     then (uBgPatternId u, fst (snd (resolveLayer u i)), snd (snd (resolveLayer u i)))
     else resolveLayer u i)"

text \<open>
  The target of particle \<open>i\<close> for this tick. \<open>g pid i t tg\<close> is what
  \<^verbatim>\<open>buildGPUTargetSection\<close> leaves in \<^verbatim>\<open>target\<close> for pattern id \<open>pid\<close>.
\<close>

definition kernelTarget ::
  "(nat \<Rightarrow> nat \<Rightarrow> real \<Rightarrow> vec3 \<Rightarrow> vec3) \<Rightarrow> uniforms \<Rightarrow> nat \<Rightarrow> vec3 \<Rightarrow> vec3" where
  "kernelTarget g u i tg =
    (let ep = effPattern u i;
         t1 = (if fst ep > 0
               then vadd (vscale (g (fst ep) i (uTime u) tg) (snd (snd ep))) (fst (snd ep))
               else tg)
     in if inGroupB u i > 0.5 \<and> uGPUPatternIdB u > 0
        then vadd (vscale (g (uGPUPatternIdB u) i (uTime u) t1) (uFlowScaleB u)) (uFlowOriginB u)
        else t1)"

text \<open>The attraction of particle \<open>i\<close> at position \<open>pos\<close>; \<open>h\<close> is \<^verbatim>\<open>hash\<close> on a float.\<close>

definition particleHash :: "(real \<Rightarrow> real) \<Rightarrow> nat \<Rightarrow> real" where
  "particleHash h i = h (real i * 0.137)"

definition sweepDelay :: "uniforms \<Rightarrow> nat \<Rightarrow> vec3 \<Rightarrow> real" where
  "sweepDelay u i pos =
    fst pos * fst (effSweep u i) + fst (snd pos) * fst (snd (effSweep u i))
      + snd (snd pos) * snd (snd (effSweep u i))"

definition effectiveAttraction :: "(real \<Rightarrow> real) \<Rightarrow> uniforms \<Rightarrow> nat \<Rightarrow> vec3 \<Rightarrow> real" where
  "effectiveAttraction h u i pos =
    clamp (effConv u i - sweepDelay u i pos * 0.03 - particleHash h i * 0.01) 0.0 1.0"

text \<open>
  Life. \<open>h2\<close> is \<^verbatim>\<open>hash\<close> on a pair; \<open>a\<close> is the particle's effective attraction, \<open>tg\<close>
  its target and \<open>pos\<close> its position after integration.
\<close>

definition lifeTick :: "uniforms \<Rightarrow> real \<times> real \<Rightarrow> real \<times> real" where
  "lifeTick u life = (fst life - uDeltaTime u, snd life)"

definition rawDir :: "(real \<times> real \<Rightarrow> real) \<Rightarrow> nat \<Rightarrow> real \<Rightarrow> vec3" where
  "rawDir h2 i t =
    (h2 (real i + 500.0, t) - 0.5, h2 (real i + 1500.0, t) - 0.5, h2 (real i + 2500.0, t) - 0.5)"

definition shellPos :: "(real \<times> real \<Rightarrow> real) \<Rightarrow> nat \<Rightarrow> real \<Rightarrow> vec3" where
  "shellPos h2 i t =
    (let raw = rawDir h2 i t;
         rawLen = max (vlength raw) 0.001;
         resetHash = h2 (real i + 3500.0, t);
         farR = 2.5 + resetHash * 2.0
     in vscale (vscale raw (1 / rawLen)) farR)"

definition resetPos :: "(real \<times> real \<Rightarrow> real) \<Rightarrow> nat \<Rightarrow> real \<Rightarrow> real \<Rightarrow> vec3 \<Rightarrow> vec3" where
  "resetPos h2 i t a tg =
    (let raw = rawDir h2 i t;
         targetJitter = vscale (vscale raw 0.02) (max (1.0 - a) 0.05);
         targetPos = vadd tg targetJitter;
         attractSq = a * a
     in vadd (shellPos h2 i t)
          (vscale (vsub targetPos (shellPos h2 i t)) (attractSq * 0.8 + a * 0.2)))"

definition lifeReset ::
  "(real \<times> real \<Rightarrow> real) \<Rightarrow> nat \<Rightarrow> real \<Rightarrow> real \<Rightarrow> vec3 \<Rightarrow> vec3 \<Rightarrow> real \<times> real
     \<Rightarrow> vec3 \<times> real \<times> real" where
  "lifeReset h2 i t a tg pos life =
    (let isDead = (if fst life < 0.0 then 1 else 0)
     in (vadd pos (vscale (vsub (resetPos h2 i t a tg) pos) isDead),
         fst life + snd life * isDead, snd life))"

definition kernelLife ::
  "(real \<times> real \<Rightarrow> real) \<Rightarrow> uniforms \<Rightarrow> nat \<Rightarrow> real \<Rightarrow> vec3 \<Rightarrow> vec3 \<Rightarrow> real \<times> real
     \<Rightarrow> vec3 \<times> real \<times> real" where
  "kernelLife h2 u i a tg pos life = lifeReset h2 i (uTime u) a tg pos (lifeTick u life)"

section \<open>Properties and instances\<close>

subsection \<open>Wording of the specification\<close>

text \<open>
  ``The first table row whose end time strictly exceeds the current authored time (the last
  row if none)''.
\<close>

definition firstRowEndingAfter :: "real \<Rightarrow> macro_phase list \<Rightarrow> macro_phase \<Rightarrow> bool" where
  "firstRowEndingAfter t rows row =
    ((\<exists>k\<in>{..<length rows}. row = rows ! k \<and> t < p_end (rows ! k)
          \<and> (\<forall>j\<in>{..<k}. \<not> t < p_end (rows ! j)))
     \<or> ((\<forall>j\<in>{..<length rows}. \<not> t < p_end (rows ! j)) \<and> row = last rows))"

text \<open>
  ``value += (targetValue - value) * rate'': with an override the target is the override
  and the rate the caller's; without one the target is the ambient value and the rate 0.005.
\<close>

definition easedTowards :: "real \<Rightarrow> real \<Rightarrow> real option \<Rightarrow> real \<Rightarrow> real \<Rightarrow> bool" where
  "easedTowards new old override ambient lerpRate =
    (case override of
       Some target \<Rightarrow> new = old + (target - old) * lerpRate
     | None \<Rightarrow> new = old + (ambient - old) * 0.005)"

subsection \<open>Concrete instances\<close>

text \<open>
  A small engine of four particles in an environment whose glyphs are single points and
  whose random numbers are zero, reached through the public commands.
\<close>

definition demo_env :: env where
  "demo_env =
    \<lparr>rasterChar = (\<lambda>text so c. ([(0, 0, 0)], (0, 0, 0))),
     dualProjection = (\<lambda>textA textB fnt fs n w. []),
     randomCentered = (\<lambda>k. 0),
     preShape = (\<lambda>name cds n ta. ta),
     generator = (\<lambda>name ta n. ta),
     animator = (\<lambda>name ta n t. ta),
     initialPositions = (\<lambda>n. replicate n (0, 0, 0))\<rparr>"

definition demo_params :: ctor_params where
  "demo_params = default_params\<lparr>c_count := Some 4\<rparr>"

definition demo_engine :: engine where
  "demo_engine = init demo_env demo_params"

definition c9_opts :: options where
  "c9_opts = no_options\<lparr>o_spring := Some 0.1, o_lerpRate := Some 0.5\<rparr>"

definition c9_engine :: engine where
  "c9_engine = exec demo_env (SetFlowTargets (Some ''galaxySpin'') c9_opts) demo_engine"

definition c9_tick :: tick where
  "c9_tick = \<lparr>deltaTime = 0.016, elapsedTime = 50, musicTime = Some 40\<rparr>"

text \<open>A tick before playback starts: the music clock reads 0 while the wall clock runs.\<close>

definition c9_idle_tick :: tick where
  "c9_idle_tick = \<lparr>deltaTime = 0.016, elapsedTime = 50, musicTime = Some 0\<rparr>"

definition demo_hash :: "real \<Rightarrow> real" where
  "demo_hash x = 1 / 2"

definition c5_uniforms :: uniforms where
  "c5_uniforms = (initialUniforms 4 0.005 0.988 0.15 0.0003 1.0)\<lparr>uConvergence := 0.5, uSweepX := 1\<rparr>"

text \<open>
  The layer slots as the kernel reads them, and the triple a layer description stands for.
\<close>

definition layerUniforms :: "uniforms \<Rightarrow> nat \<Rightarrow> nat \<times> vec3 \<times> real" where
  "layerUniforms u k =
    (if k = 0 then (uLayerPatternId0 u, uLayerOrigin0 u, uLayerScale0 u)
     else if k = 1 then (uLayerPatternId1 u, uLayerOrigin1 u, uLayerScale1 u)
     else if k = 2 then (uLayerPatternId2 u, uLayerOrigin2 u, uLayerScale2 u)
     else (uLayerPatternId3 u, uLayerOrigin3 u, uLayerScale3 u))"

definition layerTriple :: "layer \<Rightarrow> nat \<times> vec3 \<times> real" where
  "layerTriple l =
    (gpuIdOrOrganic (l_pattern l), nullish (l_origin l) (0, 0, 0), nullish (l_scale l) 1.0)"

definition c6_layer :: layer where
  "c6_layer = \<lparr>l_pattern = ''galaxySpin'', l_origin = Some (1, 0, 0), l_scale = Some 2\<rparr>"

definition c6_layer2 :: layer where
  "c6_layer2 = \<lparr>l_pattern = ''vortexDrain'', l_origin = None, l_scale = None\<rparr>"

definition c6_koch :: layer where
  "c6_koch = \<lparr>l_pattern = ''kochCurve'', l_origin = Some (0, 1, 0), l_scale = None\<rparr>"

text \<open>The small engine with two layers set, still in phase \<^verbatim>\<open>flow\<close>.\<close>

definition c3_layered :: engine where
  "c3_layered = exec demo_env (SetFlowTargetsMultiLayer [c6_layer, c6_layer2]) demo_engine"

definition demo_pattern :: "nat \<Rightarrow> nat \<Rightarrow> real \<Rightarrow> vec3 \<Rightarrow> vec3" where
  "demo_pattern pid i t tg = (real pid, real i, t)"

text \<open>The weight with which a respawned particle is blended from the shell to its target.\<close>

definition blendWeight :: "real \<Rightarrow> real" where
  "blendWeight a = a * a * 0.8 + a * 0.2"

definition c4_hash2 :: "real \<times> real \<Rightarrow> real" where
  "c4_hash2 p = (if fst p = 500 then 0 else 1 / 2)"

definition c4_hash_half :: "real \<times> real \<Rightarrow> real" where
  "c4_hash_half p = 1 / 2"

text \<open>
  The first six blocks of \<^verbatim>\<open>update\<close> taken together: clock, macro, dissolve boost,
  convergence, sweep and slot B. They write uniforms, the macro values, the convergence, the
  eased sweep and slot B, and nothing else.
\<close>

definition early_steps :: "tick \<Rightarrow> engine \<Rightarrow> engine" where
  "early_steps tc s =
    slotB_step tc (sweep_step (convergence_step (dissolve_boost_step (macro_step tc (clock_step tc s)))))"

definition tick_at :: "real \<Rightarrow> tick" where
  "tick_at t = \<lparr>deltaTime = 0.016, elapsedTime = t, musicTime = None\<rparr>"





text \<open>Everything \<^verbatim>\<open>update\<close> does before its last block, the return to flow.\<close>

definition before_release :: "env \<Rightarrow> tick \<Rightarrow> engine \<Rightarrow> engine" where
  "before_release e tc s =
    hold_step tc (text_time_step tc (animated_flow_step e tc (formation_step e tc (early_steps tc s))))"

text \<open>
  The time from which a text's hold is counted at a tick: the recorded time, or this tick's
  time when none is recorded yet.
\<close>

definition recordedTextTime :: "tick \<Rightarrow> engine \<Rightarrow> real" where
  "recordedTextTime tc s = (if lastTextTime s = 0 then elapsedTime tc else lastTextTime s)"

definition holdExpired :: "tick \<Rightarrow> engine \<Rightarrow> bool" where
  "holdExpired tc s =
    (recordedTextTime tc s > 0 \<and> elapsedTime tc - recordedTextTime tc s > holdDur s)"

text \<open>
  A lyric with a convergence ceiling of 0.01, set at once and first ticked at second 1; and a
  plain lyric, set, snapped into place and first ticked at second 1.
\<close>

definition c2_opts :: options where
  "c2_opts = no_options\<lparr>animation := Some ''directSnap'', o_maxConvergence := Some 0.01\<rparr>"

definition c2_text :: engine where
  "c2_text = exec demo_env (SetText ''A'' c2_opts) demo_engine"

definition c2_held :: engine where
  "c2_held = exec demo_env (Update (tick_at 1)) c2_text"

definition c2w_opts :: options where
  "c2w_opts = no_options\<lparr>animation := Some ''directSnap''\<rparr>"

definition c2w_text :: engine where
  "c2w_text = run [(demo_env, SetText ''A'' c2w_opts), (demo_env, SnapToTargets)] demo_engine"

definition c2w_held :: engine where
  "c2w_held = exec demo_env (Update (tick_at 1)) c2w_text"

text \<open>
  A lyric held for one second and released at 250 times the normal speed; while it is held,
  a flow pattern is requested through \<^verbatim>\<open>setMode\<close> with the options \<open>fo\<close>. The states are the
  one after the three commands, after the tick at second 1, and after the tick at second 3.
\<close>

definition c1_opts :: options where
  "c1_opts = no_options\<lparr>animation := Some ''directSnap'', holdDuration := Some 1,
     o_releaseSpeed := Some 250\<rparr>"

definition c1_flow_opts :: options where
  "c1_flow_opts = no_options\<lparr>o_spring := Some 0.1\<rparr>"

definition c1_text :: "options \<Rightarrow> engine" where
  "c1_text fo =
    run [(demo_env, SetText ''A'' c1_opts), (demo_env, SnapToTargets),
         (demo_env, SetMode ''flow'' (Some ''galaxySpin'') fo)] demo_engine"

definition c1_held :: "options \<Rightarrow> engine" where
  "c1_held fo = exec demo_env (Update (tick_at 1)) (c1_text fo)"

definition c1_releasing :: "options \<Rightarrow> engine" where
  "c1_releasing fo = exec demo_env (Update (tick_at 3)) (c1_held fo)"

text \<open>A second text for group B, requested with a formation animation.\<close>

definition c8_opts :: options where
  "c8_opts = no_options\<lparr>particleGroup := Some 1, animation := Some ''typewriter'',
     holdDuration := Some 4\<rparr>"

definition c8_spring_opts :: options where
  "c8_spring_opts = c8_opts\<lparr>o_spring := Some 0.1\<rparr>"


text \<open>
  The sampler options and the character records of a text for group B, as \<^verbatim>\<open>setTextTarget\<close>
  computes them from the arguments of the call.
\<close>

definition groupB_sampler :: "string \<Rightarrow> options \<Rightarrow> engine \<Rightarrow> sampler_opts" where
  "groupB_sampler text opts s =
    \<lparr>s_font = or_str (font opts) (textFont s),
     s_fontSize = or_num (fontSize opts) (textFontSize s),
     s_maxPointsPerChar = min 30000 ((count s - count s div 2) div length text),
     s_targetWidth = or_num (targetWidth opts) (if length text \<le> 3 then 2.5 else 4),
     s_depthSpread =
       or_num (o_depthSpread opts) (if isAnamorphicDir (viewDirection opts) then 0.15 else 0),
     s_align = or_str (align opts) ''center''\<rparr>"

definition groupB_records :: "env \<Rightarrow> string \<Rightarrow> options \<Rightarrow> engine \<Rightarrow> char_data list" where
  "groupB_records e text opts s =
    assignSlices (count s div 2) (count s - count s div 2) (length text)
      (case origin opts of Some (x, y, z) \<Rightarrow> x | None \<Rightarrow> 0)
      (case origin opts of Some (x, y, z) \<Rightarrow> y | None \<Rightarrow> 0)
      (sampleTextPositionsPerChar e text (groupB_sampler text opts s))"


text \<open>A formation is pending only while the main phase is \<^verbatim>\<open>forming\<close>.\<close>

definition formation_in_phase :: "engine \<Rightarrow> bool" where
  "formation_in_phase s = (formationPending s \<longrightarrow> phase s = Forming)"

section \<open>Verification\<close>

named_theorems frame

subsection \<open>The macro curve\<close>

lemma firstEndingAfter_Some:
  "firstEndingAfter t rows = Some p \<Longrightarrow>
   \<exists>k<length rows. p = rows ! k \<and> t < p_end (rows ! k) \<and> (\<forall>j<k. \<not> t < p_end (rows ! j))"
proof (induction rows)
  case Nil
  then show ?case by simp
next
  case (Cons r rows)
  show ?case
  proof (cases "t < p_end r")
    case True
    with Cons.prems have "p = r" by simp
    with True show ?thesis by (intro exI[of _ 0]) simp
  next
    case False
    with Cons.prems have "firstEndingAfter t rows = Some p" by simp
    from Cons.IH[OF this] obtain k where k: "k < length rows" "p = rows ! k"
      "t < p_end (rows ! k)" "\<forall>j<k. \<not> t < p_end (rows ! j)" by blast
    have "\<forall>j<Suc k. \<not> t < p_end ((r # rows) ! j)"
      using False k(4) by (auto simp: nth_Cons split: nat.splits)
    with k show ?thesis by (intro exI[of _ "Suc k"]) simp
  qed
qed

lemma firstEndingAfter_None:
  "firstEndingAfter t rows = None \<Longrightarrow> \<forall>j<length rows. \<not> t < p_end (rows ! j)"
  by (induction rows) (auto simp: nth_Cons split: if_splits nat.splits)

lemma firstRowEndingAfter_select:
  "firstRowEndingAfter t rows (nullish (firstEndingAfter t rows) (last rows))"
proof (cases "firstEndingAfter t rows")
  case None
  from firstEndingAfter_None[OF this] show ?thesis
    by (simp add: firstRowEndingAfter_def nullish_def None)
next
  case (Some p)
  from firstEndingAfter_Some[OF this] show ?thesis
    by (auto simp: firstRowEndingAfter_def nullish_def Some)
qed

text \<open>No block after the macro block writes \<^verbatim>\<open>this._macro\<close>.\<close>

lemma macro_release_step: "macro (release_step e s) = macro s"
  by (simp add: release_step_def setFlowTargets_def resetToSingleLayer_def Let_def)

lemma macro_hold_step: "macro (hold_step tc s) = macro s"
  by (simp add: hold_step_def)

lemma macro_text_time_step: "macro (text_time_step tc s) = macro s"
  by (simp add: text_time_step_def)

lemma macro_animated_flow_step: "macro (animated_flow_step e tc s) = macro s"
  by (simp add: animated_flow_step_def)

lemma macro_formation_step: "macro (formation_step e tc s) = macro s"
  by (simp add: formation_step_def Let_def split: option.splits)

lemma macro_slotB_step: "macro (slotB_step tc s) = macro s"
  by (simp add: slotB_step_def Let_def)

lemma macro_sweep_step: "macro (sweep_step s) = macro s"
  by (simp add: sweep_step_def Let_def)

lemma macro_convergence_step: "macro (convergence_step s) = macro s"
  by (simp add: convergence_step_def Let_def)

lemma macro_dissolve_boost_step: "macro (dissolve_boost_step s) = macro s"
  by (simp add: dissolve_boost_step_def Let_def)

lemma macro_macro_step:
  "macro (macro_step tc s) = easeMacro (physicsOverrides s) (activePhase (macroTime tc)) (macro s)"
  by (simp add: macro_step_def Let_def)

lemma clock_step_macro:
  "macro (clock_step tc s) = macro s" "physicsOverrides (clock_step tc s) = physicsOverrides s"
  by (simp_all add: clock_step_def)

lemma macro_update:
  "macro (update e tc s) = easeMacro (physicsOverrides s) (activePhase (macroTime tc)) (macro s)"
  by (simp add: update_def macro_release_step macro_hold_step macro_text_time_step
      macro_animated_flow_step macro_formation_step macro_slotB_step macro_sweep_step
      macro_convergence_step macro_dissolve_boost_step macro_macro_step clock_step_macro)

lemma ease_easedTowards:
  "r = 0.005 \<Longrightarrow> easedTowards (ease x ovv ambient l r) x ovv ambient l"
  by (cases ovv) (simp_all add: easedTowards_def ease_def nullish_def)

text \<open>
  Claim C9, amended. On every tick the active macro row is the first row of the table whose
  end time strictly exceeds the time \<open>t\<close>, the last row if there is none, where \<open>t\<close> is the
  music time when one is given and is not zero, and the elapsed time otherwise (so the music
  time selects the row only when it is not zero). Each of the ten macro scalars moves by
  \<open>(target - value) * rate\<close>: towards the override at the caller's \<^verbatim>\<open>lerpRate\<close> (0.005 when
  none is given) if the overrides supply that scalar, towards the ambient value at rate 0.005
  otherwise. The ambient value is the active row's entry; the table has no gravity column
  and the ambient gravity is 0.
\<close>

theorem macro_row_and_easing:
  "macroTime tc =
     (case musicTime tc of
        Some mt \<Rightarrow> (if mt = 0 then elapsedTime tc else mt)
      | None \<Rightarrow> elapsedTime tc) \<and>
   firstRowEndingAfter (macroTime tc) MACRO_PHASES (activePhase (macroTime tc)) \<and>
   (let ov = physicsOverrides s;
        row = activePhase (macroTime tc);
        lerp = nullish (ovGet ov ov_lerpRate) 0.005;
        m = macro s;
        m' = macro (update e tc s)
    in easedTowards (m_noiseStr m') (m_noiseStr m) (ovGet ov ov_noiseStrength) (p_noiseStr row) lerp
     \<and> easedTowards (m_noiseScl m') (m_noiseScl m) (ovGet ov ov_noiseScale) (p_noiseScl row) lerp
     \<and> easedTowards (m_spring m') (m_spring m) (ovGet ov ov_spring) (p_spring row) lerp
     \<and> easedTowards (m_damp m') (m_damp m) (ovGet ov ov_damping) (p_damp row) lerp
     \<and> easedTowards (m_vortex m') (m_vortex m) (ovGet ov ov_vortex) (p_vortex row) lerp
     \<and> easedTowards (m_wave m') (m_wave m) (ovGet ov ov_wave) (p_wave row) lerp
     \<and> easedTowards (m_gravity m') (m_gravity m) (ovGet ov ov_gravity) 0 lerp
     \<and> easedTowards (m_convUp m') (m_convUp m) (ovGet ov ov_convUp) (p_convUp row) lerp
     \<and> easedTowards (m_convDn m') (m_convDn m) (ovGet ov ov_convDn) (p_convDn row) lerp
     \<and> easedTowards (m_pointScale m') (m_pointScale m) (ovGet ov ov_pointScale) (p_pointScale row) lerp)"
proof -
  have row: "firstRowEndingAfter (macroTime tc) MACRO_PHASES (activePhase (macroTime tc))"
    unfolding activePhase_def by (rule firstRowEndingAfter_select)
  have t: "macroTime tc =
     (case musicTime tc of
        Some mt \<Rightarrow> (if mt = 0 then elapsedTime tc else mt)
      | None \<Rightarrow> elapsedTime tc)"
    by (simp add: macroTime_def or_num_def split: option.splits)
  have rest: "firstRowEndingAfter (macroTime tc) MACRO_PHASES (activePhase (macroTime tc)) \<and>
   (let ov = physicsOverrides s;
        row = activePhase (macroTime tc);
        lerp = nullish (ovGet ov ov_lerpRate) 0.005;
        m = macro s;
        m' = macro (update e tc s)
    in easedTowards (m_noiseStr m') (m_noiseStr m) (ovGet ov ov_noiseStrength) (p_noiseStr row) lerp
     \<and> easedTowards (m_noiseScl m') (m_noiseScl m) (ovGet ov ov_noiseScale) (p_noiseScl row) lerp
     \<and> easedTowards (m_spring m') (m_spring m) (ovGet ov ov_spring) (p_spring row) lerp
     \<and> easedTowards (m_damp m') (m_damp m) (ovGet ov ov_damping) (p_damp row) lerp
     \<and> easedTowards (m_vortex m') (m_vortex m) (ovGet ov ov_vortex) (p_vortex row) lerp
     \<and> easedTowards (m_wave m') (m_wave m) (ovGet ov ov_wave) (p_wave row) lerp
     \<and> easedTowards (m_gravity m') (m_gravity m) (ovGet ov ov_gravity) 0 lerp
     \<and> easedTowards (m_convUp m') (m_convUp m) (ovGet ov ov_convUp) (p_convUp row) lerp
     \<and> easedTowards (m_convDn m') (m_convDn m) (ovGet ov ov_convDn) (p_convDn row) lerp
     \<and> easedTowards (m_pointScale m') (m_pointScale m) (ovGet ov ov_pointScale) (p_pointScale row) lerp)"
    by (simp add: row macro_update easeMacro_def Let_def ease_easedTowards)
  from t rest show ?thesis by (rule conjI)
qed

lemma demo_engine_macro:
  "macro c9_engine = \<lparr>m_noiseStr = 0.00015, m_noiseScl = 0.10, m_spring = 0.012, m_damp = 0.993,
     m_vortex = 0.0, m_wave = 0.0, m_gravity = 0.0, m_convUp = 0.025, m_convDn = 0.004,
     m_pointScale = 0.6\<rparr>"
  by (simp add: c9_engine_def demo_engine_def init_def setMode_def setFlowTargets_def constructed_def
      Let_def)

lemma c9_engine_overrides:
  "ovGet (physicsOverrides c9_engine) ov_spring = Some 0.1"
  "ovGet (physicsOverrides c9_engine) ov_lerpRate = Some 0.5"
  "ovGet (physicsOverrides c9_engine) ov_noiseStrength = None"
  by (simp_all add: c9_engine_def setFlowTargets_def Let_def extractPhysicsOverrides_def
      c9_opts_def no_options_def ovGet_def)

lemma c9_time: "macroTime c9_tick = 40"
  by (simp add: macroTime_def c9_tick_def or_num_def)

lemma c9_row: "activePhase 40 = MACRO_PHASES ! 2"
  by (simp add: activePhase_def MACRO_PHASES_def mk_phase_def nullish_def)

theorem macro_row_and_easing_witness:
  "musicTime c9_tick = Some 40 \<and> macroTime c9_tick = 40
   \<and> activePhase (macroTime c9_tick) = MACRO_PHASES ! 2
   \<and> macroTime c9_tick < p_end (MACRO_PHASES ! 2)
   \<and> \<not> macroTime c9_tick < p_end (MACRO_PHASES ! 1)
   \<and> m_spring (macro (update demo_env c9_tick c9_engine)) = 0.056
   \<and> m_noiseStr (macro (update demo_env c9_tick c9_engine)) = 0.00015225"
proof -
  have rows: "p_end (MACRO_PHASES ! 2) = 44" "p_end (MACRO_PHASES ! 1) = 33"
    "p_noiseStr (MACRO_PHASES ! 2) = 0.0006"
    by (simp_all add: MACRO_PHASES_def mk_phase_def)
  from macro_row_and_easing [of c9_tick c9_engine demo_env]
  have "easedTowards (m_spring (macro (update demo_env c9_tick c9_engine))) 0.012 (Some 0.1)
          (p_spring (MACRO_PHASES ! 2)) 0.5"
    and "easedTowards (m_noiseStr (macro (update demo_env c9_tick c9_engine))) 0.00015 None
          0.0006 0.5"
    by (simp_all add: Let_def c9_time c9_row c9_engine_overrides demo_engine_macro nullish_def rows)
  moreover have "musicTime c9_tick = Some 40" by (simp add: c9_tick_def)
  ultimately show ?thesis
    by (simp add: easedTowards_def c9_time c9_row MACRO_PHASES_def mk_phase_def)
qed

text \<open>
  The claim as stated fails while the music clock reads 0: at music time 0 and elapsed time
  50 the first row ending after the music time is the first of the table (it ends at 11),
  but \<^verbatim>\<open>update\<close> eases towards the fourth row (it ends at 66), the first ending after the
  elapsed time. The noise strength moves up from 0.00015 towards 0.0003, not down towards
  0.00008.
\<close>

theorem macro_row_music_zero_counterexample:
  "musicTime c9_idle_tick = Some 0 \<and> elapsedTime c9_idle_tick = 50
   \<and> firstRowEndingAfter 0 MACRO_PHASES (MACRO_PHASES ! 0)
   \<and> p_end (MACRO_PHASES ! 0) = 11 \<and> p_noiseStr (MACRO_PHASES ! 0) = 0.00008
   \<and> activePhase (macroTime c9_idle_tick) = MACRO_PHASES ! 3
   \<and> p_end (MACRO_PHASES ! 3) = 66 \<and> p_noiseStr (MACRO_PHASES ! 3) = 0.0003
   \<and> \<not> firstRowEndingAfter 0 MACRO_PHASES (activePhase (macroTime c9_idle_tick))
   \<and> m_noiseStr (macro demo_engine) = 0.00015
   \<and> m_noiseStr (macro (exec demo_env (Update c9_idle_tick) demo_engine)) = 0.00015075
   \<and> m_noiseStr (macro (exec demo_env (Update c9_idle_tick) demo_engine))
       \<noteq> 0.00015 + (0.00008 - 0.00015) * 0.005"
proof -
  have t: "macroTime c9_idle_tick = 50"
    by (simp add: macroTime_def c9_idle_tick_def or_num_def)
  have row: "activePhase 50 = MACRO_PHASES ! 3"
    by (simp add: activePhase_def MACRO_PHASES_def mk_phase_def nullish_def)
  have rows: "p_end (MACRO_PHASES ! 0) = 11" "p_noiseStr (MACRO_PHASES ! 0) = 0.00008"
    "p_end (MACRO_PHASES ! 3) = 66" "p_noiseStr (MACRO_PHASES ! 3) = 0.0003"
    by (simp_all add: MACRO_PHASES_def mk_phase_def)
  have first: "firstRowEndingAfter 0 MACRO_PHASES (MACRO_PHASES ! 0)"
    using firstRowEndingAfter_select[of 0 MACRO_PHASES]
    by (simp add: MACRO_PHASES_def mk_phase_def nullish_def)
  have notfirst: "\<not> firstRowEndingAfter 0 MACRO_PHASES (MACRO_PHASES ! 3)"
    by (auto simp: firstRowEndingAfter_def MACRO_PHASES_def mk_phase_def lessThan_Suc
        nth_Cons split: nat.splits)
  have m0: "macro demo_engine = \<lparr>m_noiseStr = 0.00015, m_noiseScl = 0.10, m_spring = 0.012,
     m_damp = 0.993, m_vortex = 0.0, m_wave = 0.0, m_gravity = 0.0, m_convUp = 0.025,
     m_convDn = 0.004, m_pointScale = 0.6\<rparr>"
    by (simp add: demo_engine_def init_def setMode_def setFlowTargets_def constructed_def Let_def)
  have ov: "physicsOverrides demo_engine = None"
    by (simp add: demo_engine_def init_def setMode_def setFlowTargets_def constructed_def Let_def
        extractPhysicsOverrides_def no_options_def)
  have m1: "m_noiseStr (macro (update demo_env c9_idle_tick demo_engine)) = 0.00015075"
    by (simp add: macro_update t row rows m0 ov easeMacro_def Let_def ease_def ovGet_def
        nullish_def)
  have tk: "musicTime c9_idle_tick = Some 0" "elapsedTime c9_idle_tick = 50"
    by (simp_all add: c9_idle_tick_def)
  show ?thesis
    by (simp add: t row rows first notfirst m0 m1 tk)
qed

subsection \<open>What the first blocks of a tick leave alone\<close>

lemma clock_step_frame [frame]:
  "phase (clock_step tc s) = phase s"
  "targetConvergence (clock_step tc s) = targetConvergence s"
  "maxConvergence (clock_step tc s) = maxConvergence s"
  "holdDurationOverride (clock_step tc s) = holdDurationOverride s"
  "releaseSpeed (clock_step tc s) = releaseSpeed s"
  "dissolveMode (clock_step tc s) = dissolveMode s"
  "physicsOverrides (clock_step tc s) = physicsOverrides s"
  "textHoldDuration (clock_step tc s) = textHoldDuration s"
  "convUpScale (clock_step tc s) = convUpScale s"
  "convDnScale (clock_step tc s) = convDnScale s"
  "lastTextTime (clock_step tc s) = lastTextTime s"
  "formationPending (clock_step tc s) = formationPending s"
  "charData (clock_step tc s) = charData s"
  "pendingFlowPattern (clock_step tc s) = pendingFlowPattern s"
  "pendingFlowOptions (clock_step tc s) = pendingFlowOptions s"
  "currentFlowPattern (clock_step tc s) = currentFlowPattern s"
  "targetBuffer (clock_step tc s) = targetBuffer s"
  "count (clock_step tc s) = count s"
  "uGPUPatternId (uniforms (clock_step tc s)) = uGPUPatternId (uniforms s)"
  by (simp_all add: clock_step_def)

lemma macro_step_frame [frame]:
  "phase (macro_step tc s) = phase s"
  "targetConvergence (macro_step tc s) = targetConvergence s"
  "maxConvergence (macro_step tc s) = maxConvergence s"
  "holdDurationOverride (macro_step tc s) = holdDurationOverride s"
  "releaseSpeed (macro_step tc s) = releaseSpeed s"
  "dissolveMode (macro_step tc s) = dissolveMode s"
  "physicsOverrides (macro_step tc s) = physicsOverrides s"
  "textHoldDuration (macro_step tc s) = textHoldDuration s"
  "convUpScale (macro_step tc s) = convUpScale s"
  "convDnScale (macro_step tc s) = convDnScale s"
  "lastTextTime (macro_step tc s) = lastTextTime s"
  "formationPending (macro_step tc s) = formationPending s"
  "charData (macro_step tc s) = charData s"
  "pendingFlowPattern (macro_step tc s) = pendingFlowPattern s"
  "pendingFlowOptions (macro_step tc s) = pendingFlowOptions s"
  "currentFlowPattern (macro_step tc s) = currentFlowPattern s"
  "targetBuffer (macro_step tc s) = targetBuffer s"
  "count (macro_step tc s) = count s"
  "uGPUPatternId (uniforms (macro_step tc s)) = uGPUPatternId (uniforms s)"
  by (simp_all add: macro_step_def Let_def)

lemma dissolve_boost_step_frame [frame]:
  "phase (dissolve_boost_step s) = phase s"
  "targetConvergence (dissolve_boost_step s) = targetConvergence s"
  "maxConvergence (dissolve_boost_step s) = maxConvergence s"
  "holdDurationOverride (dissolve_boost_step s) = holdDurationOverride s"
  "releaseSpeed (dissolve_boost_step s) = releaseSpeed s"
  "dissolveMode (dissolve_boost_step s) = dissolveMode s"
  "physicsOverrides (dissolve_boost_step s) = physicsOverrides s"
  "textHoldDuration (dissolve_boost_step s) = textHoldDuration s"
  "convUpScale (dissolve_boost_step s) = convUpScale s"
  "convDnScale (dissolve_boost_step s) = convDnScale s"
  "lastTextTime (dissolve_boost_step s) = lastTextTime s"
  "formationPending (dissolve_boost_step s) = formationPending s"
  "charData (dissolve_boost_step s) = charData s"
  "pendingFlowPattern (dissolve_boost_step s) = pendingFlowPattern s"
  "pendingFlowOptions (dissolve_boost_step s) = pendingFlowOptions s"
  "currentFlowPattern (dissolve_boost_step s) = currentFlowPattern s"
  "targetBuffer (dissolve_boost_step s) = targetBuffer s"
  "count (dissolve_boost_step s) = count s"
  "uGPUPatternId (uniforms (dissolve_boost_step s)) = uGPUPatternId (uniforms s)"
  by (simp_all add: dissolve_boost_step_def Let_def)

lemma convergence_step_frame [frame]:
  "phase (convergence_step s) = phase s"
  "targetConvergence (convergence_step s) = targetConvergence s"
  "maxConvergence (convergence_step s) = maxConvergence s"
  "holdDurationOverride (convergence_step s) = holdDurationOverride s"
  "releaseSpeed (convergence_step s) = releaseSpeed s"
  "dissolveMode (convergence_step s) = dissolveMode s"
  "physicsOverrides (convergence_step s) = physicsOverrides s"
  "textHoldDuration (convergence_step s) = textHoldDuration s"
  "convUpScale (convergence_step s) = convUpScale s"
  "convDnScale (convergence_step s) = convDnScale s"
  "lastTextTime (convergence_step s) = lastTextTime s"
  "formationPending (convergence_step s) = formationPending s"
  "charData (convergence_step s) = charData s"
  "pendingFlowPattern (convergence_step s) = pendingFlowPattern s"
  "pendingFlowOptions (convergence_step s) = pendingFlowOptions s"
  "currentFlowPattern (convergence_step s) = currentFlowPattern s"
  "targetBuffer (convergence_step s) = targetBuffer s"
  "count (convergence_step s) = count s"
  "uGPUPatternId (uniforms (convergence_step s)) = uGPUPatternId (uniforms s)"
  by (simp_all add: convergence_step_def Let_def)

lemma sweep_step_frame [frame]:
  "phase (sweep_step s) = phase s"
  "targetConvergence (sweep_step s) = targetConvergence s"
  "maxConvergence (sweep_step s) = maxConvergence s"
  "holdDurationOverride (sweep_step s) = holdDurationOverride s"
  "releaseSpeed (sweep_step s) = releaseSpeed s"
  "dissolveMode (sweep_step s) = dissolveMode s"
  "physicsOverrides (sweep_step s) = physicsOverrides s"
  "textHoldDuration (sweep_step s) = textHoldDuration s"
  "convUpScale (sweep_step s) = convUpScale s"
  "convDnScale (sweep_step s) = convDnScale s"
  "lastTextTime (sweep_step s) = lastTextTime s"
  "formationPending (sweep_step s) = formationPending s"
  "charData (sweep_step s) = charData s"
  "pendingFlowPattern (sweep_step s) = pendingFlowPattern s"
  "pendingFlowOptions (sweep_step s) = pendingFlowOptions s"
  "currentFlowPattern (sweep_step s) = currentFlowPattern s"
  "targetBuffer (sweep_step s) = targetBuffer s"
  "count (sweep_step s) = count s"
  "uGPUPatternId (uniforms (sweep_step s)) = uGPUPatternId (uniforms s)"
  by (simp_all add: sweep_step_def Let_def)

lemma slotB_step_frame [frame]:
  "phase (slotB_step tc s) = phase s"
  "targetConvergence (slotB_step tc s) = targetConvergence s"
  "maxConvergence (slotB_step tc s) = maxConvergence s"
  "holdDurationOverride (slotB_step tc s) = holdDurationOverride s"
  "releaseSpeed (slotB_step tc s) = releaseSpeed s"
  "dissolveMode (slotB_step tc s) = dissolveMode s"
  "physicsOverrides (slotB_step tc s) = physicsOverrides s"
  "textHoldDuration (slotB_step tc s) = textHoldDuration s"
  "convUpScale (slotB_step tc s) = convUpScale s"
  "convDnScale (slotB_step tc s) = convDnScale s"
  "lastTextTime (slotB_step tc s) = lastTextTime s"
  "formationPending (slotB_step tc s) = formationPending s"
  "charData (slotB_step tc s) = charData s"
  "pendingFlowPattern (slotB_step tc s) = pendingFlowPattern s"
  "pendingFlowOptions (slotB_step tc s) = pendingFlowOptions s"
  "currentFlowPattern (slotB_step tc s) = currentFlowPattern s"
  "targetBuffer (slotB_step tc s) = targetBuffer s"
  "count (slotB_step tc s) = count s"
  "uGPUPatternId (uniforms (slotB_step tc s)) = uGPUPatternId (uniforms s)"
  by (simp_all add: slotB_step_def Let_def)

lemma early_slotB_frame [frame]:
  "slotB (clock_step tc s) = slotB s"
  "slotB (macro_step tc s) = slotB s"
  "slotB (dissolve_boost_step s) = slotB s"
  "slotB (convergence_step s) = slotB s"
  "slotB (sweep_step s) = slotB s"
  "splitPoint (clock_step tc s) = splitPoint s"
  "splitPoint (macro_step tc s) = splitPoint s"
  "splitPoint (dissolve_boost_step s) = splitPoint s"
  "splitPoint (convergence_step s) = splitPoint s"
  "splitPoint (sweep_step s) = splitPoint s"
  by (simp_all add: clock_step_def macro_step_def dissolve_boost_step_def convergence_step_def
      sweep_step_def Let_def)

lemma early_convergence_frame [frame]:
  "convergence (clock_step tc s) = convergence s"
  "convergence (macro_step tc s) = convergence s"
  "convergence (dissolve_boost_step s) = convergence s"
  by (simp_all add: clock_step_def macro_step_def dissolve_boost_step_def Let_def)

lemma convergence_step_value:
  "convergence (convergence_step s) =
     converge (convergence s) (targetConvergence s) (m_convUp (macro s) * convUpScale s)
       (m_convDn (macro s) * convDnScale s * releaseSpeed s) (maxConvergence s)"
  by (simp add: convergence_step_def Let_def)

subsection \<open>What the kernel reads\<close>

text \<open>
  The convergence and sweep uniforms of group A after a tick: nothing after the convergence
  and sweep blocks writes them.
\<close>

lemma release_step_conv [frame]:
  "convergence (release_step e s) = convergence s"
  "uConvergence (uniforms (release_step e s)) = uConvergence (uniforms s)"
  "uSweepX (uniforms (release_step e s)) = uSweepX (uniforms s)"
  "uSweepY (uniforms (release_step e s)) = uSweepY (uniforms s)"
  "uSweepZ (uniforms (release_step e s)) = uSweepZ (uniforms s)"
  by (simp_all add: release_step_def setFlowTargets_def resetToSingleLayer_def Let_def)

lemma hold_step_conv [frame]:
  "convergence (hold_step tc s) = convergence s"
  "uniforms (hold_step tc s) = uniforms s"
  by (simp_all add: hold_step_def)

lemma text_time_step_conv [frame]:
  "convergence (text_time_step tc s) = convergence s"
  "uniforms (text_time_step tc s) = uniforms s"
  by (simp_all add: text_time_step_def)

lemma animated_flow_step_conv [frame]:
  "convergence (animated_flow_step e tc s) = convergence s"
  "uniforms (animated_flow_step e tc s) = uniforms s"
  by (simp_all add: animated_flow_step_def)

lemma formation_step_conv [frame]:
  "convergence (formation_step e tc s) = convergence s"
  "uniforms (formation_step e tc s) = uniforms s"
  by (simp_all add: formation_step_def Let_def split: option.splits)

lemma slotB_step_conv [frame]:
  "convergence (slotB_step tc s) = convergence s"
  "uConvergence (uniforms (slotB_step tc s)) = uConvergence (uniforms s)"
  "uSweepX (uniforms (slotB_step tc s)) = uSweepX (uniforms s)"
  "uSweepY (uniforms (slotB_step tc s)) = uSweepY (uniforms s)"
  "uSweepZ (uniforms (slotB_step tc s)) = uSweepZ (uniforms s)"
  by (simp_all add: slotB_step_def Let_def)

lemma sweep_step_conv [frame]:
  "convergence (sweep_step s) = convergence s"
  "uConvergence (uniforms (sweep_step s)) = uConvergence (uniforms s)"
  "uSweepX (uniforms (sweep_step s)) = currentSweepX s + (fst (sweepDir s) - currentSweepX s) * 0.025"
  "uSweepY (uniforms (sweep_step s)) = currentSweepY s + (fst (snd (sweepDir s)) - currentSweepY s) * 0.025"
  "uSweepZ (uniforms (sweep_step s)) = currentSweepZ s + (snd (snd (sweepDir s)) - currentSweepZ s) * 0.025"
  by (simp_all add: sweep_step_def Let_def)

lemma convergence_step_conv [frame]:
  "uConvergence (uniforms (convergence_step s)) = convergence (convergence_step s)"
  "sweepDir (convergence_step s) = sweepDir s"
  "currentSweepX (convergence_step s) = currentSweepX s"
  "currentSweepY (convergence_step s) = currentSweepY s"
  "currentSweepZ (convergence_step s) = currentSweepZ s"
  by (simp_all add: convergence_step_def Let_def)

lemma early_steps_sweep [frame]:
  "sweepDir (dissolve_boost_step s) = sweepDir s"
  "currentSweepX (dissolve_boost_step s) = currentSweepX s"
  "currentSweepY (dissolve_boost_step s) = currentSweepY s"
  "currentSweepZ (dissolve_boost_step s) = currentSweepZ s"
  "sweepDir (macro_step tc s) = sweepDir s"
  "currentSweepX (macro_step tc s) = currentSweepX s"
  "currentSweepY (macro_step tc s) = currentSweepY s"
  "currentSweepZ (macro_step tc s) = currentSweepZ s"
  "sweepDir (clock_step tc s) = sweepDir s"
  "currentSweepX (clock_step tc s) = currentSweepX s"
  "currentSweepY (clock_step tc s) = currentSweepY s"
  "currentSweepZ (clock_step tc s) = currentSweepZ s"
  by (simp_all add: dissolve_boost_step_def macro_step_def clock_step_def Let_def)

lemma update_kernel_uniforms:
  "uConvergence (uniforms (update e tc s)) = convergence (update e tc s)"
  "uSweepX (uniforms (update e tc s)) = currentSweepX s + (fst (sweepDir s) - currentSweepX s) * 0.025"
  "uSweepY (uniforms (update e tc s)) = currentSweepY s + (fst (snd (sweepDir s)) - currentSweepY s) * 0.025"
  "uSweepZ (uniforms (update e tc s)) = currentSweepZ s + (snd (snd (sweepDir s)) - currentSweepZ s) * 0.025"
  by (simp_all add: update_def frame)

text \<open>
  Claim C5. For every particle \<open>i\<close> the kernel's effective attraction is
  \<open>clamp (convergence - sweepDelay * 0.03 - hash * 0.01) 0 1\<close>, where the convergence is the
  uniform of the particle's group (group A below the split index, group B from it on), the
  sweep delay is the dot product of the position with that group's sweep uniforms, which
  \<^verbatim>\<open>update\<close> eases towards the sweep direction (lemma \<open>update_kernel_uniforms\<close>), and
  the hash is \<^verbatim>\<open>hash\<close> of the particle index times 0.137, a function of the index alone.
  The value lies between 0 and 1.
\<close>

theorem effectiveAttraction_formula:
  "effectiveAttraction h u i pos =
     (let conv = (if i < uGroupSplit u then uConvergence u else uConvergenceB u);
          sweep = (if i < uGroupSplit u then (uSweepX u, uSweepY u, uSweepZ u)
                   else (uSweepXB u, uSweepYB u, uSweepZB u));
          delay = fst pos * fst sweep + fst (snd pos) * fst (snd sweep)
                    + snd (snd pos) * snd (snd sweep)
      in min (max (conv - delay * 0.03 - h (real i * 0.137) * 0.01) 0) 1)
   \<and> 0 \<le> effectiveAttraction h u i pos \<and> effectiveAttraction h u i pos \<le> 1"
  by (simp add: effectiveAttraction_def clamp_def effConv_def sweepDelay_def effSweep_def
      particleHash_def mix_def inGroupB_def Let_def)

theorem effectiveAttraction_formula_witness:
  "effectiveAttraction demo_hash c5_uniforms 0 (2, 0, 0) = 0.435
   \<and> effectiveAttraction demo_hash c5_uniforms 5 (2, 0, 0) = 0"
  using effectiveAttraction_formula [of demo_hash c5_uniforms 0 "(2, 0, 0)"]
        effectiveAttraction_formula [of demo_hash c5_uniforms 5 "(2, 0, 0)"]
  by (simp add: c5_uniforms_def initialUniforms_def demo_hash_def Let_def)

subsection \<open>Multi-layer flow\<close>

lemma GPU_PATTERN_IDS_pos: "GPU_PATTERN_IDS n = Some g \<Longrightarrow> g > 0"
  by (simp add: GPU_PATTERN_IDS_def split: if_splits)

lemma gpuIdOrOrganic_pos: "gpuIdOrOrganic n > 0"
proof (cases "GPU_PATTERN_IDS n")
  case None
  then show ?thesis by (simp add: gpuIdOrOrganic_def nullish_def GPU_PATTERN_IDS_def)
next
  case (Some g)
  with GPU_PATTERN_IDS_pos[OF Some] show ?thesis by (simp add: gpuIdOrOrganic_def)
qed

lemma multiLayer_uniforms:
  assumes "layers \<noteq> []"
  shows "uNumLayers (uniforms (setFlowTargetsMultiLayer layers s)) = min (length layers) 4"
    and "uFlowOrigin (uniforms (setFlowTargetsMultiLayer layers s)) = uFlowOrigin (uniforms s)"
    and "uFlowScale (uniforms (setFlowTargetsMultiLayer layers s)) = uFlowScale (uniforms s)"
    and "uGPUPatternId (uniforms (setFlowTargetsMultiLayer layers s)) = gpuIdOrOrganic (l_pattern (layers ! 0))"
    and "uLayerPatternId2 (uniforms (setFlowTargetsMultiLayer layers s)) =
           (if 2 < length layers then gpuIdOrOrganic (l_pattern (layers ! 2)) else 0)"
    and "uLayerPatternId3 (uniforms (setFlowTargetsMultiLayer layers s)) =
           (if 3 < length layers then gpuIdOrOrganic (l_pattern (layers ! 3)) else 0)"
  using assms
  by (simp_all add: setFlowTargetsMultiLayer_def Let_def layerSlot_def)

lemma multiLayer_slots:
  assumes "layers \<noteq> []" "k < 4"
  shows "layerUniforms (uniforms (setFlowTargetsMultiLayer layers s)) k =
           (if k < length layers then layerTriple (layers ! k) else (0, (0, 0, 0), 1))"
proof -
  from assms(2) have "k = 0 \<or> k = 1 \<or> k = 2 \<or> k = 3" by arith
  then show ?thesis
    using assms(1)
    by (elim disjE)
       (simp_all add: setFlowTargetsMultiLayer_def Let_def layerUniforms_def layerSlot_def
          layerTriple_def)
qed

lemma resolveLayer_multi:
  assumes "1 < uNumLayers u" "uNumLayers u \<le> 4"
  shows "resolveLayer u i = layerUniforms u (i mod uNumLayers u)"
proof -
  have "i mod uNumLayers u < uNumLayers u" using assms(1) by simp
  with assms(2) have "i mod uNumLayers u < 4" by linarith
  then show ?thesis using assms by (auto simp: resolveLayer_def layerUniforms_def Let_def)
qed

lemma resolveLayer_after_multiLayer:
  assumes "2 \<le> length layers"
  shows "resolveLayer (uniforms (setFlowTargetsMultiLayer layers s)) i =
           layerTriple (layers ! (i mod min (length layers) 4))"
proof -
  let ?u = "uniforms (setFlowTargetsMultiLayer layers s)"
  from assms have ne: "layers \<noteq> []" by auto
  have n: "uNumLayers ?u = min (length layers) 4" by (rule multiLayer_uniforms(1)[OF ne])
  with assms have gt: "1 < uNumLayers ?u" and le: "uNumLayers ?u \<le> 4" by simp_all
  have k4: "i mod min (length layers) 4 < 4"
    by (metis gt le less_le_trans mod_less_divisor n less_trans zero_less_one)
  have kl: "i mod min (length layers) 4 < length layers"
    by (metis gt min.cobounded1 less_le_trans mod_less_divisor n less_trans zero_less_one)
  show ?thesis
    by (simp add: resolveLayer_multi[OF gt le] n multiLayer_slots[OF ne k4] kl)
qed

lemma resolveLayer_single:
  assumes "length layers = 1"
  shows "resolveLayer (uniforms (setFlowTargetsMultiLayer layers s)) i =
           (gpuIdOrOrganic (l_pattern (layers ! 0)), uFlowOrigin (uniforms s), uFlowScale (uniforms s))"
proof -
  from assms have ne: "layers \<noteq> []" by auto
  show ?thesis
    by (simp add: resolveLayer_def multiLayer_uniforms[OF ne] assms)
qed

lemma kernelTarget_layer:
  assumes "effPattern u i = (pid, org, sc)" "pid > 0"
    "\<not> (inGroupB u i > 0.5 \<and> uGPUPatternIdB u > 0)"
  shows "kernelTarget g u i tg = vadd (vscale (g pid i (uTime u) tg) sc) org"
  using assms by (auto simp: kernelTarget_def Let_def)

lemma gpuIdOrOrganic_explicit:
  "gpuIdOrOrganic n = (case GPU_PATTERN_IDS n of Some g \<Rightarrow> g | None \<Rightarrow> 1)"
proof (cases "GPU_PATTERN_IDS n")
  case None
  then show ?thesis by (simp add: gpuIdOrOrganic_def nullish_def GPU_PATTERN_IDS_def)
next
  case (Some g)
  with GPU_PATTERN_IDS_pos[OF Some] show ?thesis by (simp add: gpuIdOrOrganic_def)
qed

lemma layerTriple_explicit:
  "layerTriple l =
     ((case GPU_PATTERN_IDS (l_pattern l) of Some g \<Rightarrow> g | None \<Rightarrow> 1),
      (case l_origin l of Some v \<Rightarrow> v | None \<Rightarrow> (0, 0, 0)),
      (case l_scale l of Some v \<Rightarrow> v | None \<Rightarrow> 1))"
  by (simp add: layerTriple_def gpuIdOrOrganic_explicit nullish_def)

lemma multiLayer_others:
  "isBgParticle (uniforms (setFlowTargetsMultiLayer layers s)) i = isBgParticle (uniforms s) i"
  "inGroupB (uniforms (setFlowTargetsMultiLayer layers s)) i = inGroupB (uniforms s) i"
  "uBgPatternId (uniforms (setFlowTargetsMultiLayer layers s)) = uBgPatternId (uniforms s)"
  "uGPUPatternIdB (uniforms (setFlowTargetsMultiLayer layers s)) = uGPUPatternIdB (uniforms s)"
  "uFlowScaleB (uniforms (setFlowTargetsMultiLayer layers s)) = uFlowScaleB (uniforms s)"
  "uFlowOriginB (uniforms (setFlowTargetsMultiLayer layers s)) = uFlowOriginB (uniforms s)"
  "uTime (uniforms (setFlowTargetsMultiLayer layers s)) = uTime (uniforms s)"
  by (simp_all add: setFlowTargetsMultiLayer_def Let_def isBgParticle_def inGroupB_def)

lemma kernelTarget_groupB:
  assumes "effPattern u i = (pid, org, sc)" "pid > 0"
    "inGroupB u i > 0.5 \<and> uGPUPatternIdB u > 0"
  shows "kernelTarget g u i tg =
           vadd (vscale (g (uGPUPatternIdB u) i (uTime u)
                           (vadd (vscale (g pid i (uTime u) tg) sc) org))
                   (uFlowScaleB u))
                (uFlowOriginB u)"
  using assms by (auto simp: kernelTarget_def Let_def)

text \<open>
  Claim C6, amended. Called with an empty list \<^verbatim>\<open>setFlowTargetsMultiLayer\<close> changes nothing.
  Called with exactly two layers it sets the layer count to 2 and the pattern ids of layers
  2 and 3 to 0; in general the count is the number of layers given, at most 4. The pattern
  id of a layer is the GPU id of its pattern name, and 1, the id of \<^verbatim>\<open>organic\<close>, when the
  name has no GPU id; its origin defaults to \<open>(0, 0, 0)\<close> and its scale to 1. When two or
  more layers are given, particle \<open>i\<close> takes the pattern id, origin and scale of layer
  \<open>i mod layerCount\<close>. Its target is then that pattern's point scaled and offset by them when
  the particle is neither a background particle nor in group B with a group B pattern set,
  none of which the call changes; a background particle takes the background pattern id
  with the layer's origin and scale, and for a particle of group B with a group B pattern
  set that pattern is evaluated on top of the layer's target and scaled and offset by group
  B's own scale and origin. With a single layer the kernel takes its single-layer path: the
  layer's pattern id with the global flow origin and scale, which the call does not set.
\<close>

theorem multiLayer_selection:
  "(let s' = setFlowTargetsMultiLayer layers s;
        u = uniforms s;
        u' = uniforms s';
        ly = layers ! (i mod min (length layers) 4);
        pid = (case GPU_PATTERN_IDS (l_pattern ly) of Some g \<Rightarrow> g | None \<Rightarrow> 1);
        org = (case l_origin ly of Some v \<Rightarrow> v | None \<Rightarrow> (0, 0, 0));
        sc = (case l_scale ly of Some v \<Rightarrow> v | None \<Rightarrow> 1);
        layerTarget = vadd (vscale (g pid i (uTime u) tg) sc) org
    in (layers = [] \<longrightarrow> s' = s)
     \<and> (length layers = 2 \<longrightarrow>
          uNumLayers u' = 2 \<and> uLayerPatternId2 u' = 0 \<and> uLayerPatternId3 u' = 0)
     \<and> (layers \<noteq> [] \<longrightarrow> uNumLayers u' = min (length layers) 4 \<and> uNumLayers u' \<le> 4)
     \<and> GPU_PATTERN_IDS ''organic'' = Some 1
     \<and> (2 \<le> length layers \<longrightarrow> resolveLayer u' i = (pid, org, sc))
     \<and> isBgParticle u' i = isBgParticle u i \<and> inGroupB u' i = inGroupB u i
     \<and> uBgPatternId u' = uBgPatternId u \<and> uGPUPatternIdB u' = uGPUPatternIdB u
     \<and> uFlowScaleB u' = uFlowScaleB u \<and> uFlowOriginB u' = uFlowOriginB u
     \<and> (2 \<le> length layers \<and> \<not> isBgParticle u i
          \<and> \<not> (inGroupB u i > 0.5 \<and> uGPUPatternIdB u > 0) \<longrightarrow>
          kernelTarget g u' i tg = layerTarget)
     \<and> (2 \<le> length layers \<and> isBgParticle u i \<longrightarrow>
          effPattern u' i = (uBgPatternId u, org, sc))
     \<and> (2 \<le> length layers \<and> \<not> isBgParticle u i
          \<and> inGroupB u i > 0.5 \<and> uGPUPatternIdB u > 0 \<longrightarrow>
          kernelTarget g u' i tg =
            vadd (vscale (g (uGPUPatternIdB u) i (uTime u) layerTarget) (uFlowScaleB u))
                 (uFlowOriginB u))
     \<and> (length layers = 1 \<longrightarrow>
          resolveLayer u' i = (pid, uFlowOrigin u, uFlowScale u)))"
proof -
  let ?u = "uniforms (setFlowTargetsMultiLayer layers s)"
  let ?ly = "layers ! (i mod min (length layers) 4)"
  let ?pid = "case GPU_PATTERN_IDS (l_pattern ?ly) of Some g \<Rightarrow> g | None \<Rightarrow> 1"
  let ?org = "case l_origin ?ly of Some v \<Rightarrow> v | None \<Rightarrow> (0, 0, 0)"
  let ?sc = "case l_scale ?ly of Some v \<Rightarrow> v | None \<Rightarrow> 1"
  let ?lt = "vadd (vscale (g ?pid i (uTime (uniforms s)) tg) ?sc) ?org"
  note o = multiLayer_others[of layers s]
  have e: "layers = [] \<longrightarrow> setFlowTargetsMultiLayer layers s = s"
    by (simp add: setFlowTargetsMultiLayer_def)
  have a: "length layers = 2 \<longrightarrow>
             uNumLayers ?u = 2 \<and> uLayerPatternId2 ?u = 0 \<and> uLayerPatternId3 ?u = 0"
  proof
    assume l: "length layers = 2"
    then have ne: "layers \<noteq> []" by auto
    show "uNumLayers ?u = 2 \<and> uLayerPatternId2 ?u = 0 \<and> uLayerPatternId3 ?u = 0"
      by (simp add: multiLayer_uniforms[OF ne] l)
  qed
  have b: "layers \<noteq> [] \<longrightarrow> uNumLayers ?u = min (length layers) 4 \<and> uNumLayers ?u \<le> 4"
    by (simp add: multiLayer_uniforms)
  have org: "GPU_PATTERN_IDS ''organic'' = Some 1"
    by (simp add: GPU_PATTERN_IDS_def)
  have pos: "?pid > 0"
    using gpuIdOrOrganic_pos[of "l_pattern ?ly"] by (simp add: gpuIdOrOrganic_explicit)
  have c: "resolveLayer ?u i = (?pid, ?org, ?sc)" if "2 \<le> length layers"
    using resolveLayer_after_multiLayer[OF that, of s i] by (simp add: layerTriple_explicit)
  have d: "2 \<le> length layers \<and> \<not> isBgParticle (uniforms s) i
          \<and> \<not> (inGroupB (uniforms s) i > 0.5 \<and> uGPUPatternIdB (uniforms s) > 0) \<longrightarrow>
          kernelTarget g ?u i tg = ?lt"
  proof (intro impI, elim conjE)
    assume h: "2 \<le> length layers" "\<not> isBgParticle (uniforms s) i"
      "\<not> (inGroupB (uniforms s) i > 0.5 \<and> uGPUPatternIdB (uniforms s) > 0)"
    have ep: "effPattern ?u i = (?pid, ?org, ?sc)"
      using h(2) c[OF h(1)] by (simp add: effPattern_def o)
    have nb: "\<not> (inGroupB ?u i > 0.5 \<and> uGPUPatternIdB ?u > 0)"
      using h(3) by (simp add: o)
    show "kernelTarget g ?u i tg = ?lt"
      using kernelTarget_layer[OF ep pos nb, of g tg] by (simp add: o)
  qed
  have bg: "2 \<le> length layers \<and> isBgParticle (uniforms s) i \<longrightarrow>
          effPattern ?u i = (uBgPatternId (uniforms s), ?org, ?sc)"
  proof (intro impI, elim conjE)
    assume h: "2 \<le> length layers" "isBgParticle (uniforms s) i"
    show "effPattern ?u i = (uBgPatternId (uniforms s), ?org, ?sc)"
      using h(2) c[OF h(1)] by (simp add: effPattern_def o)
  qed
  have gb: "2 \<le> length layers \<and> \<not> isBgParticle (uniforms s) i
          \<and> inGroupB (uniforms s) i > 0.5 \<and> uGPUPatternIdB (uniforms s) > 0 \<longrightarrow>
          kernelTarget g ?u i tg =
            vadd (vscale (g (uGPUPatternIdB (uniforms s)) i (uTime (uniforms s)) ?lt)
                    (uFlowScaleB (uniforms s)))
                 (uFlowOriginB (uniforms s))"
  proof (intro impI, elim conjE)
    assume h: "2 \<le> length layers" "\<not> isBgParticle (uniforms s) i"
      "inGroupB (uniforms s) i > 0.5" "uGPUPatternIdB (uniforms s) > 0"
    have ep: "effPattern ?u i = (?pid, ?org, ?sc)"
      using h(2) c[OF h(1)] by (simp add: effPattern_def o)
    have ib: "inGroupB ?u i > 0.5 \<and> uGPUPatternIdB ?u > 0"
      using h(3,4) by (simp add: o)
    show "kernelTarget g ?u i tg =
            vadd (vscale (g (uGPUPatternIdB (uniforms s)) i (uTime (uniforms s)) ?lt)
                    (uFlowScaleB (uniforms s)))
                 (uFlowOriginB (uniforms s))"
      using kernelTarget_groupB[OF ep pos ib, of g tg] by (simp add: o)
  qed
  have f: "length layers = 1 \<longrightarrow>
             resolveLayer ?u i = (?pid, uFlowOrigin (uniforms s), uFlowScale (uniforms s))"
  proof
    assume l: "length layers = 1"
    show "resolveLayer ?u i = (?pid, uFlowOrigin (uniforms s), uFlowScale (uniforms s))"
      using resolveLayer_single[OF l, of s i] by (simp add: l gpuIdOrOrganic_explicit)
  qed
  from e a b org c d bg gb f o(1-6)
  show ?thesis unfolding Let_def by blast
qed

lemma demo_engine_uniforms:
  "uniforms demo_engine = (initialUniforms 4 0.005 0.988 0.15 0.0003 1.0)\<lparr>uGPUPatternId := 1\<rparr>"
  by (simp add: demo_engine_def init_def setMode_def setFlowTargets_def constructed_def
      demo_params_def default_params_def Let_def nullish_def truthy_str_def GPU_PATTERN_IDS_def
      FLOW_PATTERN_GENERATOR_KEYS_def initialUniforms_def)

lemma c6_two_layers:
  "uniforms (setFlowTargetsMultiLayer [c6_layer, c6_layer2] demo_engine) =
     (initialUniforms 4 0.005 0.988 0.15 0.0003 1.0)
       \<lparr>uGPUPatternId := 7, uNumLayers := 2, uLayerPatternId0 := 7, uLayerOrigin0 := (1, 0, 0),
        uLayerScale0 := 2, uLayerPatternId1 := 8\<rparr>"
  by (simp add: setFlowTargetsMultiLayer_def demo_engine_uniforms Let_def layerSlot_def
      c6_layer_def c6_layer2_def gpuIdOrOrganic_def GPU_PATTERN_IDS_def nullish_def
      initialUniforms_def)

lemma c6_layers:
  "GPU_PATTERN_IDS (l_pattern c6_layer) = Some 7" "l_origin c6_layer = Some (1, 0, 0)"
  "l_scale c6_layer = Some 2"
  "GPU_PATTERN_IDS (l_pattern c6_layer2) = Some 8" "l_origin c6_layer2 = None"
  "l_scale c6_layer2 = None"
  "GPU_PATTERN_IDS (l_pattern c6_koch) = None" "l_origin c6_koch = Some (0, 1, 0)"
  "l_scale c6_koch = None"
  by (simp_all add: c6_layer_def c6_layer2_def c6_koch_def GPU_PATTERN_IDS_def)

theorem multiLayer_selection_witness:
  "uNumLayers (uniforms (setFlowTargetsMultiLayer [c6_layer, c6_layer2] demo_engine)) = 2
   \<and> uLayerPatternId2 (uniforms (setFlowTargetsMultiLayer [c6_layer, c6_layer2] demo_engine)) = 0
   \<and> uLayerPatternId3 (uniforms (setFlowTargetsMultiLayer [c6_layer, c6_layer2] demo_engine)) = 0
   \<and> resolveLayer (uniforms (setFlowTargetsMultiLayer [c6_layer, c6_layer2] demo_engine)) 3
       = (8, (0, 0, 0), 1)
   \<and> kernelTarget demo_pattern (uniforms (setFlowTargetsMultiLayer [c6_layer, c6_layer2] demo_engine))
       2 (0, 0, 0) = (15, 4, 0)
   \<and> l_pattern c6_koch = ''kochCurve''
   \<and> resolveLayer (uniforms (setFlowTargetsMultiLayer [c6_layer, c6_koch] demo_engine)) 1
       = (1, (0, 1, 0), 1)
   \<and> setFlowTargetsMultiLayer [] demo_engine = demo_engine"
proof -
  have bg: "\<not> isBgParticle (uniforms demo_engine) 2"
    "\<not> (inGroupB (uniforms demo_engine) 2 > 0.5 \<and> uGPUPatternIdB (uniforms demo_engine) > 0)"
    by (simp_all add: demo_engine_uniforms isBgParticle_def initialUniforms_def Let_def)
  have i3: "(3::nat) mod min (length [c6_layer, c6_layer2]) 4 = 1"
    and i2: "(2::nat) mod min (length [c6_layer, c6_layer2]) 4 = 0"
    and i1: "(1::nat) mod min (length [c6_layer, c6_koch]) 4 = 1"
    and i0: "(0::nat) mod min (length ([]::layer list)) 4 = 0"
    by code_simp+
  have time: "uTime (uniforms demo_engine) = 0"
    by (simp add: demo_engine_uniforms initialUniforms_def)
  have three: "uNumLayers (uniforms (setFlowTargetsMultiLayer [c6_layer, c6_layer2] demo_engine)) = 2"
    "uLayerPatternId2 (uniforms (setFlowTargetsMultiLayer [c6_layer, c6_layer2] demo_engine)) = 0"
    "uLayerPatternId3 (uniforms (setFlowTargetsMultiLayer [c6_layer, c6_layer2] demo_engine)) = 0"
    "resolveLayer (uniforms (setFlowTargetsMultiLayer [c6_layer, c6_layer2] demo_engine)) 3
       = (8, (0, 0, 0), 1)"
    using multiLayer_selection [where layers = "[c6_layer, c6_layer2]" and i = 3
         and s = demo_engine and g = demo_pattern and tg = "(0, 0, 0)", unfolded Let_def i3]
    by (simp_all add: c6_layers)
  have two: "kernelTarget demo_pattern
       (uniforms (setFlowTargetsMultiLayer [c6_layer, c6_layer2] demo_engine)) 2 (0, 0, 0)
       = (15, 4, 0)"
    using multiLayer_selection [where layers = "[c6_layer, c6_layer2]" and i = 2
         and s = demo_engine and g = demo_pattern and tg = "(0, 0, 0)", unfolded Let_def i2]
      bg
    by (simp add: c6_layers time demo_pattern_def vadd_def vscale_def)
  have koch: "resolveLayer (uniforms (setFlowTargetsMultiLayer [c6_layer, c6_koch] demo_engine)) 1
       = (1, (0, 1, 0), 1)"
    using multiLayer_selection [where layers = "[c6_layer, c6_koch]" and i = 1
         and s = demo_engine and g = demo_pattern and tg = "(0, 0, 0)", unfolded Let_def i1]
    by (simp add: c6_layers)
  have empty: "setFlowTargetsMultiLayer [] demo_engine = demo_engine"
    using multiLayer_selection [where layers = "[]" and i = 0
         and s = demo_engine and g = demo_pattern and tg = "(0, 0, 0)", unfolded Let_def i0]
    by simp
  have name: "l_pattern c6_koch = ''kochCurve''" by (simp add: c6_koch_def)
  from three two koch empty name show ?thesis by simp
qed

text \<open>
  The claim as stated fails for a single layer: the one layer asks for origin \<open>(1, 0, 0)\<close>
  and scale 2, every particle selects layer \<open>i mod 1 = 0\<close>, and the kernel applies origin
  \<open>(0, 0, 0)\<close> and scale 1.
\<close>

theorem multiLayer_single_layer_counterexample:
  "uNumLayers (uniforms (setFlowTargetsMultiLayer [c6_layer] demo_engine)) = 1
   \<and> layerTriple ([c6_layer] ! (0 mod 1)) = (7, (1, 0, 0), 2)
   \<and> effPattern (uniforms (setFlowTargetsMultiLayer [c6_layer] demo_engine)) 0 = (7, (0, 0, 0), 1)
   \<and> effPattern (uniforms (setFlowTargetsMultiLayer [c6_layer] demo_engine)) 0
       \<noteq> layerTriple ([c6_layer] ! (0 mod 1))"
  by (simp add: setFlowTargetsMultiLayer_def demo_engine_uniforms Let_def layerSlot_def
      c6_layer_def gpuIdOrOrganic_def GPU_PATTERN_IDS_def nullish_def initialUniforms_def
      layerTriple_def effPattern_def resolveLayer_def isBgParticle_def)

subsection \<open>Life and respawn\<close>

lemma vlength_vscale: "vlength (vscale v k) = \<bar>k\<bar> * vlength v"
proof -
  obtain x y z where v: "v = (x, y, z)" by (cases v) auto
  have "x * k * (x * k) + y * k * (y * k) + z * k * (z * k) = (k * k) * (x * x + y * y + z * z)"
    by (simp add: algebra_simps)
  then show ?thesis
    by (simp add: v vlength_def vscale_def real_sqrt_mult)
qed

lemma vlength_nonneg: "0 \<le> vlength v"
  by (simp add: vlength_def)

lemma vlength_axis: "vlength (x, 0, 0) = \<bar>x\<bar>"
  by (simp add: vlength_def)

lemma shellPos_radius:
  assumes "0.001 \<le> vlength (rawDir h2 i t)"
  shows "vlength (shellPos h2 i t) = \<bar>2.5 + h2 (real i + 3500, t) * 2\<bar>"
proof -
  let ?r = "vlength (rawDir h2 i t)"
  have pos: "0 < ?r" using assms by simp
  have m: "max ?r 0.001 = ?r" using assms by simp
  have "shellPos h2 i t =
          vscale (vscale (rawDir h2 i t) (1 / ?r)) (2.5 + h2 (real i + 3500.0, t) * 2.0)"
    by (simp only: shellPos_def Let_def m)
  then have "vlength (shellPos h2 i t) =
          \<bar>2.5 + h2 (real i + 3500.0, t) * 2.0\<bar> * (\<bar>1 / ?r\<bar> * ?r)"
    by (simp only: vlength_vscale)
  also have "\<bar>1 / ?r\<bar> * ?r = 1" using pos by simp
  finally show ?thesis by simp
qed

lemma resetPos_blend:
  "resetPos h2 i t a tg =
     vadd (shellPos h2 i t)
       (vscale (vsub (vadd tg (vscale (rawDir h2 i t) (0.02 * max (1 - a) 0.05))) (shellPos h2 i t))
          (blendWeight a))"
  by (simp add: resetPos_def Let_def blendWeight_def vscale_def)

lemma resetPos_zero: "resetPos h2 i t 0 tg = shellPos h2 i t"
  by (cases "shellPos h2 i t") (simp add: resetPos_def Let_def vadd_def vscale_def vsub_def)

lemma resetPos_one: "resetPos h2 i t 1 tg = vadd tg (vscale (rawDir h2 i t) 0.001)"
  by (cases "shellPos h2 i t"; cases tg; cases "rawDir h2 i t")
     (simp add: resetPos_def Let_def vadd_def vscale_def vsub_def)

lemma blendWeight_mono: "0 \<le> a \<Longrightarrow> a \<le> b \<Longrightarrow> blendWeight a \<le> blendWeight b"
proof -
  assume "0 \<le> a" "a \<le> b"
  then have "a * a \<le> b * b" by (simp add: mult_mono)
  with \<open>a \<le> b\<close> show ?thesis by (simp add: blendWeight_def)
qed

lemma kernelLife_cases:
  "kernelLife h2 u i a tg pos life =
     (if fst life - uDeltaTime u < 0
      then (resetPos h2 i (uTime u) a tg, fst life - uDeltaTime u + snd life, snd life)
      else (pos, fst life - uDeltaTime u, snd life))"
  by (cases pos; cases "resetPos h2 i (uTime u) a tg")
     (simp add: kernelLife_def lifeReset_def lifeTick_def Let_def vadd_def vscale_def vsub_def)

lemma shellPos_formula:
  "shellPos h2 i t =
     vscale (rawDir h2 i t)
       ((2.5 + h2 (real i + 3500, t) * 2) / max (vlength (rawDir h2 i t)) 0.001)"
  by (cases "rawDir h2 i t") (simp add: shellPos_def Let_def vscale_def)

lemma shellPos_length:
  "vlength (shellPos h2 i t) =
     \<bar>2.5 + h2 (real i + 3500, t) * 2\<bar> * vlength (rawDir h2 i t)
       / max (vlength (rawDir h2 i t)) 0.001"
proof -
  have m: "0 < max (vlength (rawDir h2 i t)) 0.001" by simp
  show ?thesis
    unfolding shellPos_formula vlength_vscale using m by (simp add: abs_divide)
qed

lemma shellPos_short:
  assumes "vlength (rawDir h2 i t) < 0.001"
  shows "vlength (shellPos h2 i t) =
           \<bar>2.5 + h2 (real i + 3500, t) * 2\<bar> * vlength (rawDir h2 i t) * 1000"
proof -
  have m: "max (vlength (rawDir h2 i t)) 0.001 = 0.001" using assms by simp
  show ?thesis unfolding shellPos_length m by simp
qed

lemma shellPos_origin:
  assumes "rawDir h2 i t = (0, 0, 0)"
  shows "shellPos h2 i t = (0, 0, 0)"
  unfolding shellPos_formula assms by (simp add: vscale_def)

lemma resetPos_one_distance:
  "vlength (vsub (resetPos h2 i t 1 tg) tg) = 0.001 * vlength (rawDir h2 i t)"
proof -
  have "vsub (vadd tg (vscale (rawDir h2 i t) 0.001)) tg = vscale (rawDir h2 i t) 0.001"
    by (cases tg; cases "rawDir h2 i t") (simp add: vsub_def vadd_def vscale_def)
  then show ?thesis by (simp add: resetPos_one vlength_vscale)
qed

lemma square_le_quarter:
  fixes x :: real
  assumes "0 \<le> x" "x \<le> 1"
  shows "(x - 0.5) * (x - 0.5) \<le> 1 / 4"
proof -
  have "(x - 0.5) * (x - 0.5) = 1 / 4 - x * (1 - x)" by (simp add: algebra_simps)
  moreover have "0 \<le> x * (1 - x)" using assms by simp
  ultimately show ?thesis by simp
qed

lemma rawDir_length:
  assumes "0 \<le> h2 (real i + 500, t)" "h2 (real i + 500, t) \<le> 1"
    "0 \<le> h2 (real i + 1500, t)" "h2 (real i + 1500, t) \<le> 1"
    "0 \<le> h2 (real i + 2500, t)" "h2 (real i + 2500, t) \<le> 1"
  shows "vlength (rawDir h2 i t) \<le> 1"
proof -
  note q = square_le_quarter[OF assms(1,2)] square_le_quarter[OF assms(3,4)]
    square_le_quarter[OF assms(5,6)]
  then have "(h2 (real i + 500, t) - 0.5) * (h2 (real i + 500, t) - 0.5)
      + (h2 (real i + 1500, t) - 0.5) * (h2 (real i + 1500, t) - 0.5)
      + (h2 (real i + 2500, t) - 0.5) * (h2 (real i + 2500, t) - 0.5) \<le> 1"
    by linarith
  then show ?thesis
    by (simp add: vlength_def rawDir_def)
qed

text \<open>
  Claim C4, amended. Each tick the kernel takes the capped time step off a particle's
  remaining life. When the result is below 0 the particle's position becomes
  \<open>shell + (target + jitter - shell) * w\<close> and the total life is added back onto the
  remaining life; otherwise the position is kept. Here \<open>shell\<close> is the raw direction scaled by
  \<open>farR / max \<bar>raw\<bar> 0.001\<close> with \<open>farR = 2.5 + 2 * hash\<close>: a point relative to the world
  origin, not to the target. Its distance from the origin is \<open>farR\<close>, between 2.5 and 4.5 for
  a hash value in \<open>[0, 1]\<close>, when the raw direction is at least 0.001 long; for a shorter raw
  direction it is \<open>farR * \<bar>raw\<bar> * 1000\<close>, and the origin itself when the raw direction is
  zero. \<open>jitter\<close> is the raw direction times \<open>0.02 * max (1 - a) 0.05\<close>, and the weight
  \<open>w = 0.8 a\<^sup>2 + 0.2 a\<close> grows with the effective attraction \<open>a\<close> from 0 (the respawn point is
  the shell point) to 1 (the respawn point is the target plus 0.001 times the raw
  direction: at distance \<open>0.001 * \<bar>raw\<bar>\<close> from the target, which is at most 0.001 when the
  three direction hashes lie in \<open>[0, 1]\<close>, and the target itself when the raw direction is
  zero).
\<close>

theorem respawn_rule:
  "(let t = uTime u;
        remaining = fst life - uDeltaTime u;
        r = kernelLife h2 u i a tg pos life;
        raw = rawDir h2 i t;
        farR = 2.5 + h2 (real i + 3500, t) * 2;
        shell = shellPos h2 i t
    in (remaining < 0 \<longrightarrow> fst r = resetPos h2 i t a tg \<and> fst (snd r) = remaining + snd life)
     \<and> (\<not> remaining < 0 \<longrightarrow> fst r = pos \<and> fst (snd r) = remaining)
     \<and> snd (snd r) = snd life
     \<and> resetPos h2 i t a tg =
         vadd shell
           (vscale (vsub (vadd tg (vscale raw (0.02 * max (1 - a) 0.05))) shell) (blendWeight a))
     \<and> blendWeight a = 0.8 * (a * a) + 0.2 * a
     \<and> shell = vscale raw (farR / max (vlength raw) 0.001)
     \<and> (0.001 \<le> vlength raw \<longrightarrow> vlength shell = \<bar>farR\<bar>)
     \<and> (vlength raw < 0.001 \<longrightarrow> vlength shell = \<bar>farR\<bar> * vlength raw * 1000)
     \<and> (raw = (0, 0, 0) \<longrightarrow> shell = (0, 0, 0))
     \<and> (0 \<le> h2 (real i + 3500, t) \<and> h2 (real i + 3500, t) \<le> 1
          \<longrightarrow> 2.5 \<le> farR \<and> farR \<le> 4.5)
     \<and> (0.001 \<le> vlength raw \<and> 0 \<le> h2 (real i + 3500, t) \<and> h2 (real i + 3500, t) \<le> 1
          \<longrightarrow> 2.5 \<le> vlength shell \<and> vlength shell \<le> 4.5)
     \<and> resetPos h2 i t 0 tg = shell
     \<and> resetPos h2 i t 1 tg = vadd tg (vscale raw 0.001)
     \<and> vlength (vsub (resetPos h2 i t 1 tg) tg) = 0.001 * vlength raw
     \<and> (0 \<le> h2 (real i + 500, t) \<and> h2 (real i + 500, t) \<le> 1
          \<and> 0 \<le> h2 (real i + 1500, t) \<and> h2 (real i + 1500, t) \<le> 1
          \<and> 0 \<le> h2 (real i + 2500, t) \<and> h2 (real i + 2500, t) \<le> 1
          \<longrightarrow> vlength (vsub (resetPos h2 i t 1 tg) tg) \<le> 0.001)
     \<and> (raw = (0, 0, 0) \<longrightarrow> resetPos h2 i t 1 tg = tg)
     \<and> blendWeight 0 = 0 \<and> blendWeight 1 = 1
     \<and> (0 \<le> a \<and> a \<le> a' \<longrightarrow> blendWeight a \<le> blendWeight a'))"
proof -
  let ?t = "uTime u"
  let ?r = "kernelLife h2 u i a tg pos life"
  let ?raw = "rawDir h2 i ?t"
  let ?far = "2.5 + h2 (real i + 3500, ?t) * 2"
  have dead: "fst life - uDeltaTime u < 0 \<longrightarrow>
      fst ?r = resetPos h2 i ?t a tg \<and> fst (snd ?r) = fst life - uDeltaTime u + snd life"
    by (simp add: kernelLife_cases)
  have alive: "\<not> fst life - uDeltaTime u < 0 \<longrightarrow>
      fst ?r = pos \<and> fst (snd ?r) = fst life - uDeltaTime u"
    by (simp add: kernelLife_cases)
  have total: "snd (snd ?r) = snd life"
    by (simp add: kernelLife_cases)
  have bw: "blendWeight a = 0.8 * (a * a) + 0.2 * a"
    by (simp add: blendWeight_def)
  have long: "0.001 \<le> vlength ?raw \<longrightarrow> vlength (shellPos h2 i ?t) = \<bar>?far\<bar>"
    using shellPos_radius[of h2 i ?t] by simp
  have short: "vlength ?raw < 0.001 \<longrightarrow>
      vlength (shellPos h2 i ?t) = \<bar>?far\<bar> * vlength ?raw * 1000"
    using shellPos_short[of h2 i ?t] by simp
  have zero: "?raw = (0, 0, 0) \<longrightarrow> shellPos h2 i ?t = (0, 0, 0)"
    using shellPos_origin[of h2 i ?t] by simp
  have far: "0 \<le> h2 (real i + 3500, ?t) \<and> h2 (real i + 3500, ?t) \<le> 1
      \<longrightarrow> 2.5 \<le> ?far \<and> ?far \<le> 4.5"
    by simp
  have radius: "0.001 \<le> vlength ?raw \<and> 0 \<le> h2 (real i + 3500, ?t)
      \<and> h2 (real i + 3500, ?t) \<le> 1
      \<longrightarrow> 2.5 \<le> vlength (shellPos h2 i ?t) \<and> vlength (shellPos h2 i ?t) \<le> 4.5"
  proof (intro impI, elim conjE)
    assume a: "0.001 \<le> vlength ?raw" "0 \<le> h2 (real i + 3500, ?t)"
      "h2 (real i + 3500, ?t) \<le> 1"
    from shellPos_radius[OF a(1)] a(2,3)
    show "2.5 \<le> vlength (shellPos h2 i ?t) \<and> vlength (shellPos h2 i ?t) \<le> 4.5" by simp
  qed
  have near: "0 \<le> h2 (real i + 500, ?t) \<and> h2 (real i + 500, ?t) \<le> 1
          \<and> 0 \<le> h2 (real i + 1500, ?t) \<and> h2 (real i + 1500, ?t) \<le> 1
          \<and> 0 \<le> h2 (real i + 2500, ?t) \<and> h2 (real i + 2500, ?t) \<le> 1
          \<longrightarrow> vlength (vsub (resetPos h2 i ?t 1 tg) tg) \<le> 0.001"
  proof (intro impI, elim conjE)
    assume "0 \<le> h2 (real i + 500, ?t)" "h2 (real i + 500, ?t) \<le> 1"
      "0 \<le> h2 (real i + 1500, ?t)" "h2 (real i + 1500, ?t) \<le> 1"
      "0 \<le> h2 (real i + 2500, ?t)" "h2 (real i + 2500, ?t) \<le> 1"
    then have "vlength ?raw \<le> 1" by (rule rawDir_length)
    then show "vlength (vsub (resetPos h2 i ?t 1 tg) tg) \<le> 0.001"
      unfolding resetPos_one_distance by simp
  qed
  have exact: "?raw = (0, 0, 0) \<longrightarrow> resetPos h2 i ?t 1 tg = tg"
  proof
    assume z: "?raw = (0, 0, 0)"
    show "resetPos h2 i ?t 1 tg = tg"
      unfolding resetPos_one z by (cases tg) (simp add: vadd_def vscale_def)
  qed
  have w: "blendWeight 0 = 0" "blendWeight 1 = 1"
    by (simp_all add: blendWeight_def)
  have mono: "0 \<le> a \<and> a \<le> a' \<longrightarrow> blendWeight a \<le> blendWeight a'"
    using blendWeight_mono by blast
  from dead alive total resetPos_blend[of h2 i ?t a tg] bw shellPos_formula[of h2 i ?t]
    long short zero far radius resetPos_zero[of h2 i ?t tg] resetPos_one[of h2 i ?t tg]
    resetPos_one_distance[of h2 i ?t tg] near exact w mono
  show ?thesis unfolding Let_def by blast
qed

lemma c4_raw: "rawDir c4_hash2 0 0 = (- (1 / 2), 0, 0)"
  by (simp add: rawDir_def c4_hash2_def)

lemma c4_shell: "shellPos c4_hash2 0 0 = (- (7 / 2), 0, 0)"
  by (simp add: shellPos_def Let_def c4_raw vlength_axis)
     (simp add: c4_hash2_def vscale_def)

lemma c4_clock: "uTime c5_uniforms = 0" "uDeltaTime c5_uniforms = 0.016"
  by (simp_all add: c5_uniforms_def initialUniforms_def)

lemma c4_half_raw: "rawDir c4_hash_half 0 0 = (0, 0, 0)"
  by (simp add: rawDir_def c4_hash_half_def)

theorem respawn_rule_witness:
  "fst (kernelLife c4_hash2 c5_uniforms 0 1 (100, 0, 0) (0, 0, 0) (0.01, 5)) = (99.9995, 0, 0)
   \<and> fst (snd (kernelLife c4_hash2 c5_uniforms 0 1 (100, 0, 0) (0, 0, 0) (0.01, 5))) = 4.994
   \<and> 2.5 \<le> vlength (shellPos c4_hash2 0 0) \<and> vlength (shellPos c4_hash2 0 0) \<le> 4.5
   \<and> vlength (vsub (resetPos c4_hash2 0 0 1 (100, 0, 0)) (100, 0, 0)) \<le> 0.001
   \<and> blendWeight 0.5 \<le> blendWeight 1
   \<and> shellPos c4_hash_half 0 0 = (0, 0, 0)
   \<and> resetPos c4_hash_half 0 0 1 (100, 0, 0) = (100, 0, 0)"
proof -
  have len: "0.001 \<le> vlength (rawDir c4_hash2 0 0)"
    by (simp add: c4_raw vlength_axis)
  have h: "0 \<le> c4_hash2 (real 0 + 3500, 0)" "c4_hash2 (real 0 + 3500, 0) \<le> 1"
    "0 \<le> c4_hash2 (real 0 + 500, 0)" "c4_hash2 (real 0 + 500, 0) \<le> 1"
    "0 \<le> c4_hash2 (real 0 + 1500, 0)" "c4_hash2 (real 0 + 1500, 0) \<le> 1"
    "0 \<le> c4_hash2 (real 0 + 2500, 0)" "c4_hash2 (real 0 + 2500, 0) \<le> 1"
    by (simp_all add: c4_hash2_def)
  from respawn_rule [where u = c5_uniforms and life = "(0.01, 5)" and ?h2.0 = c4_hash2 and i = 0
         and a = 1 and tg = "(100, 0, 0)" and pos = "(0, 0, 0)" and a' = 1]
       len h
  have one: "fst (kernelLife c4_hash2 c5_uniforms 0 1 (100, 0, 0) (0, 0, 0) (0.01, 5))
        = (99.9995, 0, 0)"
    "fst (snd (kernelLife c4_hash2 c5_uniforms 0 1 (100, 0, 0) (0, 0, 0) (0.01, 5))) = 4.994"
    "2.5 \<le> vlength (shellPos c4_hash2 0 0)" "vlength (shellPos c4_hash2 0 0) \<le> 4.5"
    "vlength (vsub (resetPos c4_hash2 0 0 1 (100, 0, 0)) (100, 0, 0)) \<le> 0.001"
    by (simp_all add: Let_def c4_clock c4_raw c4_shell vlength_axis vadd_def vscale_def vsub_def
        c4_hash2_def)
  from respawn_rule [where u = c5_uniforms and life = "(0.01, 5)" and ?h2.0 = c4_hash2 and i = 0
         and a = "0.5" and tg = "(100, 0, 0)" and pos = "(0, 0, 0)" and a' = 1]
  have mono: "blendWeight 0.5 \<le> blendWeight 1"
    by (simp add: Let_def)
  from respawn_rule [where u = c5_uniforms and life = "(0.01, 5)" and ?h2.0 = c4_hash_half
         and i = 0 and a = 1 and tg = "(100, 0, 0)" and pos = "(0, 0, 0)" and a' = 1]
  have half: "shellPos c4_hash_half 0 0 = (0, 0, 0)"
    "resetPos c4_hash_half 0 0 1 (100, 0, 0) = (100, 0, 0)"
    by (simp_all add: Let_def c4_clock c4_half_raw vscale_def vadd_def vsub_def)
  from one mono half show ?thesis by simp
qed

text \<open>
  The claim as stated fails: with no attraction and the target at \<open>(100, 0, 0)\<close> a dead
  particle respawns at \<open>(-3.5, 0, 0)\<close>, on the shell around the origin and 103.5 units from
  its target.
\<close>

theorem respawn_shell_counterexample:
  "fst (kernelLife c4_hash2 c5_uniforms 0 0 (100, 0, 0) (0, 0, 0) (0.01, 5)) = (- 3.5, 0, 0)
   \<and> vlength (vsub (fst (kernelLife c4_hash2 c5_uniforms 0 0 (100, 0, 0) (0, 0, 0) (0.01, 5)))
        (100, 0, 0)) = 103.5
   \<and> \<not> vlength (vsub (fst (kernelLife c4_hash2 c5_uniforms 0 0 (100, 0, 0) (0, 0, 0) (0.01, 5)))
        (100, 0, 0)) \<le> 4.5"
  by (simp add: kernelLife_cases c4_clock resetPos_zero c4_shell vsub_def vlength_axis)

subsection \<open>Evaluating concrete states\<close>

lemma demo_engine_eq:
  "demo_engine = (constructed demo_env demo_params)
     \<lparr>uniforms := (initialUniforms 4 0.005 0.988 0.15 0.0003 1.0)\<lparr>uGPUPatternId := 1\<rparr>,
      targetConvergence := 0.10, flowPatternIdx := 1, targetWorldQuat := Some QuatIdentity\<rparr>"
  by (simp add: demo_engine_def init_def setMode_def setFlowTargets_def constructed_def
      demo_params_def default_params_def Let_def nullish_def truthy_str_def GPU_PATTERN_IDS_def
      FLOW_PATTERN_GENERATOR_KEYS_def initialUniforms_def no_options_def extractPhysicsOverrides_def
      slotB_init_def)

lemmas eval_defs = setText_def setTextTarget_def splitForGroup_def backgroundForGroup_def
  writeMainSlot_def writeMainTargets_def writeSlotB_def groupBAnimation_def resetToSingleLayer_def
  sampleTextPositionsPerChar_def assignSlices_def applyAllCharTargets_def writeChar_def
  charTarget_def hasDepthChar_def getDefaultAnimation_def isAnamorphicDir_def
  extractPhysicsOverrides_def no_options_def nullish_def truthy_str_def or_str_def or_num_def
  sweepDirs_def TEXT_ANIMATIONS_def demo_env_def constructed_def demo_params_def default_params_def
  initialUniforms_def slotB_init_def Let_def

subsection \<open>The convergence of a tick\<close>

lemma update_split:
  "update e tc s =
     release_step e (hold_step tc (text_time_step tc (animated_flow_step e tc
       (formation_step e tc (early_steps tc s)))))"
  by (simp add: update_def early_steps_def)

lemma early_steps_frame:
  "phase (early_steps tc s) = phase s"
  "targetConvergence (early_steps tc s) = targetConvergence s"
  "maxConvergence (early_steps tc s) = maxConvergence s"
  "holdDurationOverride (early_steps tc s) = holdDurationOverride s"
  "releaseSpeed (early_steps tc s) = releaseSpeed s"
  "dissolveMode (early_steps tc s) = dissolveMode s"
  "physicsOverrides (early_steps tc s) = physicsOverrides s"
  "textHoldDuration (early_steps tc s) = textHoldDuration s"
  "convUpScale (early_steps tc s) = convUpScale s"
  "convDnScale (early_steps tc s) = convDnScale s"
  "lastTextTime (early_steps tc s) = lastTextTime s"
  "formationPending (early_steps tc s) = formationPending s"
  "charData (early_steps tc s) = charData s"
  "pendingFlowPattern (early_steps tc s) = pendingFlowPattern s"
  "pendingFlowOptions (early_steps tc s) = pendingFlowOptions s"
  "currentFlowPattern (early_steps tc s) = currentFlowPattern s"
  "targetBuffer (early_steps tc s) = targetBuffer s"
  "count (early_steps tc s) = count s"
  "uGPUPatternId (uniforms (early_steps tc s)) = uGPUPatternId (uniforms s)"
  by (simp_all add: early_steps_def frame)

lemma early_steps_convergence:
  "convergence (early_steps tc s) =
     converge (convergence s) (targetConvergence s)
       (m_convUp (easeMacro (physicsOverrides s) (activePhase (macroTime tc)) (macro s))
          * convUpScale s)
       (m_convDn (easeMacro (physicsOverrides s) (activePhase (macroTime tc)) (macro s))
          * convDnScale s * releaseSpeed s)
       (maxConvergence s)"
  by (simp add: early_steps_def frame convergence_step_value macro_dissolve_boost_step
      macro_macro_step clock_step_macro)

lemma convergence_update:
  "convergence (update e tc s) =
     converge (convergence s) (targetConvergence s)
       (m_convUp (macro (update e tc s)) * convUpScale s)
       (m_convDn (macro (update e tc s)) * convDnScale s * releaseSpeed s)
       (maxConvergence s)"
  unfolding macro_update
  by (simp add: update_split frame early_steps_convergence)


lemma converge_ceiling: "maxc < 1 \<Longrightarrow> converge c t up down maxc \<le> maxc"
  by (simp add: converge_def Let_def)










subsection \<open>The phase blocks of a tick\<close>

lemma formation_step_frame [frame]:
  "maxConvergence (formation_step e tc s) = maxConvergence s"
  "holdDurationOverride (formation_step e tc s) = holdDurationOverride s"
  "releaseSpeed (formation_step e tc s) = releaseSpeed s"
  "dissolveMode (formation_step e tc s) = dissolveMode s"
  "physicsOverrides (formation_step e tc s) = physicsOverrides s"
  "textHoldDuration (formation_step e tc s) = textHoldDuration s"
  "convUpScale (formation_step e tc s) = convUpScale s"
  "convDnScale (formation_step e tc s) = convDnScale s"
  "pendingFlowPattern (formation_step e tc s) = pendingFlowPattern s"
  "pendingFlowOptions (formation_step e tc s) = pendingFlowOptions s"
  "currentFlowPattern (formation_step e tc s) = currentFlowPattern s"
  "count (formation_step e tc s) = count s"
  "slotB (formation_step e tc s) = slotB s"
  "splitPoint (formation_step e tc s) = splitPoint s"
  "targetConvergence (formation_step e tc s) = targetConvergence s"
  "lastTextTime (formation_step e tc s) = lastTextTime s"
  by (simp_all add: formation_step_def Let_def split: option.splits)

lemma animated_flow_step_frame [frame]:
  "maxConvergence (animated_flow_step e tc s) = maxConvergence s"
  "holdDurationOverride (animated_flow_step e tc s) = holdDurationOverride s"
  "releaseSpeed (animated_flow_step e tc s) = releaseSpeed s"
  "dissolveMode (animated_flow_step e tc s) = dissolveMode s"
  "physicsOverrides (animated_flow_step e tc s) = physicsOverrides s"
  "textHoldDuration (animated_flow_step e tc s) = textHoldDuration s"
  "convUpScale (animated_flow_step e tc s) = convUpScale s"
  "convDnScale (animated_flow_step e tc s) = convDnScale s"
  "pendingFlowPattern (animated_flow_step e tc s) = pendingFlowPattern s"
  "pendingFlowOptions (animated_flow_step e tc s) = pendingFlowOptions s"
  "currentFlowPattern (animated_flow_step e tc s) = currentFlowPattern s"
  "count (animated_flow_step e tc s) = count s"
  "slotB (animated_flow_step e tc s) = slotB s"
  "splitPoint (animated_flow_step e tc s) = splitPoint s"
  "targetConvergence (animated_flow_step e tc s) = targetConvergence s"
  "lastTextTime (animated_flow_step e tc s) = lastTextTime s"
  "phase (animated_flow_step e tc s) = phase s"
  "formationPending (animated_flow_step e tc s) = formationPending s"
  "charData (animated_flow_step e tc s) = charData s"
  by (simp_all add: animated_flow_step_def)

lemma text_time_step_frame [frame]:
  "maxConvergence (text_time_step tc s) = maxConvergence s"
  "holdDurationOverride (text_time_step tc s) = holdDurationOverride s"
  "releaseSpeed (text_time_step tc s) = releaseSpeed s"
  "dissolveMode (text_time_step tc s) = dissolveMode s"
  "physicsOverrides (text_time_step tc s) = physicsOverrides s"
  "textHoldDuration (text_time_step tc s) = textHoldDuration s"
  "convUpScale (text_time_step tc s) = convUpScale s"
  "convDnScale (text_time_step tc s) = convDnScale s"
  "pendingFlowPattern (text_time_step tc s) = pendingFlowPattern s"
  "pendingFlowOptions (text_time_step tc s) = pendingFlowOptions s"
  "currentFlowPattern (text_time_step tc s) = currentFlowPattern s"
  "count (text_time_step tc s) = count s"
  "slotB (text_time_step tc s) = slotB s"
  "splitPoint (text_time_step tc s) = splitPoint s"
  "targetConvergence (text_time_step tc s) = targetConvergence s"
  "phase (text_time_step tc s) = phase s"
  "formationPending (text_time_step tc s) = formationPending s"
  "charData (text_time_step tc s) = charData s"
  "targetBuffer (text_time_step tc s) = targetBuffer s"
  by (simp_all add: text_time_step_def)

lemma hold_step_frame [frame]:
  "maxConvergence (hold_step tc s) = maxConvergence s"
  "holdDurationOverride (hold_step tc s) = holdDurationOverride s"
  "releaseSpeed (hold_step tc s) = releaseSpeed s"
  "dissolveMode (hold_step tc s) = dissolveMode s"
  "physicsOverrides (hold_step tc s) = physicsOverrides s"
  "textHoldDuration (hold_step tc s) = textHoldDuration s"
  "convUpScale (hold_step tc s) = convUpScale s"
  "convDnScale (hold_step tc s) = convDnScale s"
  "pendingFlowPattern (hold_step tc s) = pendingFlowPattern s"
  "pendingFlowOptions (hold_step tc s) = pendingFlowOptions s"
  "currentFlowPattern (hold_step tc s) = currentFlowPattern s"
  "count (hold_step tc s) = count s"
  "slotB (hold_step tc s) = slotB s"
  "splitPoint (hold_step tc s) = splitPoint s"
  "lastTextTime (hold_step tc s) = lastTextTime s"
  "formationPending (hold_step tc s) = formationPending s"
  "charData (hold_step tc s) = charData s"
  "targetBuffer (hold_step tc s) = targetBuffer s"
  by (simp_all add: hold_step_def)


lemma slotB_step_split [frame]:
  "macro (slotB_step tc s) = macro s"
  by (simp add: slotB_step_def Let_def)

lemma update_before_release: "update e tc s = release_step e (before_release e tc s)"
  by (simp add: update_split before_release_def)

lemma before_release_frame:
  "maxConvergence (before_release e tc s) = maxConvergence s"
  "holdDurationOverride (before_release e tc s) = holdDurationOverride s"
  "releaseSpeed (before_release e tc s) = releaseSpeed s"
  "dissolveMode (before_release e tc s) = dissolveMode s"
  "physicsOverrides (before_release e tc s) = physicsOverrides s"
  "textHoldDuration (before_release e tc s) = textHoldDuration s"
  "convUpScale (before_release e tc s) = convUpScale s"
  "convDnScale (before_release e tc s) = convDnScale s"
  "pendingFlowPattern (before_release e tc s) = pendingFlowPattern s"
  "pendingFlowOptions (before_release e tc s) = pendingFlowOptions s"
  "currentFlowPattern (before_release e tc s) = currentFlowPattern s"
  "count (before_release e tc s) = count s"
  "uGPUPatternId (uniforms (before_release e tc s)) = uGPUPatternId (uniforms s)"
  "convergence (before_release e tc s) = convergence (update e tc s)"
  by (simp_all add: before_release_def frame early_steps_frame update_split)

lemma formation_step_idle: "\<not> formationPending s \<Longrightarrow> formation_step e tc s = s"
  by (simp add: formation_step_def split: option.splits)

lemma formation_step_text: "phase s = Text \<Longrightarrow> phase (formation_step e tc s) = Text"
  by (simp add: formation_step_def Let_def split: option.splits)

lemma animated_flow_step_idle: "phase s \<noteq> Flow \<Longrightarrow> animated_flow_step e tc s = s"
  by (simp add: animated_flow_step_def)

lemma text_time_step_idle: "phase s \<noteq> Text \<Longrightarrow> text_time_step tc s = s"
  by (simp add: text_time_step_def)

lemma hold_step_idle: "phase s \<noteq> Text \<Longrightarrow> hold_step tc s = s"
  by (simp add: hold_step_def)

lemma release_step_idle:
  assumes "\<not> (phase s = Releasing \<and> convergence s < 0.02)"
  shows "release_step e s = s"
  unfolding release_step_def by (rule if_not_P[OF assms])

text \<open>The hold of a text, up to the last block.\<close>

lemma before_release_text:
  assumes "phase s = Text"
  shows "phase (before_release e tc s) = (if holdExpired tc s then Releasing else Text)"
    and "targetConvergence (before_release e tc s) =
           (if holdExpired tc s then 0 else targetConvergence s)"
    and "lastTextTime (before_release e tc s) = recordedTextTime tc s"
proof -
  let ?p = "formation_step e tc (early_steps tc s)"
  have p: "phase ?p = Text" "lastTextTime ?p = lastTextTime s"
    "targetConvergence ?p = targetConvergence s"
    "holdDurationOverride ?p = holdDurationOverride s" "textHoldDuration ?p = textHoldDuration s"
    by (simp_all add: formation_step_text early_steps_frame assms frame)
  have a: "animated_flow_step e tc ?p = ?p"
    by (rule animated_flow_step_idle) (simp add: p)
  have b: "before_release e tc s = hold_step tc (text_time_step tc ?p)"
    by (simp add: before_release_def a)
  show "phase (before_release e tc s) = (if holdExpired tc s then Releasing else Text)"
    and "targetConvergence (before_release e tc s) =
           (if holdExpired tc s then 0 else targetConvergence s)"
    and "lastTextTime (before_release e tc s) = recordedTextTime tc s"
    by (auto simp: b hold_step_def text_time_step_def p holdDur_def holdExpired_def
        recordedTextTime_def)
qed

text \<open>A releasing group with no formation under way passes the middle blocks unchanged.\<close>

lemma before_release_releasing:
  assumes "phase s = Releasing" "\<not> formationPending s"
  shows "before_release e tc s = early_steps tc s"
proof -
  have f: "formation_step e tc (early_steps tc s) = early_steps tc s"
    by (rule formation_step_idle) (simp add: early_steps_frame assms)
  have ph: "phase (early_steps tc s) = Releasing" by (simp add: early_steps_frame assms)
  show ?thesis
    by (simp add: before_release_def f animated_flow_step_idle text_time_step_idle
        hold_step_idle ph)
qed

text \<open>The return to flow, field by field.\<close>

lemma release_step_fields:
  assumes "phase s = Releasing" "convergence s < 0.02"
  shows "phase (release_step e s) = Flow"
    and "targetConvergence (release_step e s) = 0.10"
    and "maxConvergence (release_step e s) = 1"
    and "holdDurationOverride (release_step e s) = None"
    and "releaseSpeed (release_step e s) = 1"
    and "dissolveMode (release_step e s) = None"
    and "physicsOverrides (release_step e s) = extractPhysicsOverrides (pendingFlowOptions s)"
    and "currentFlowPattern (release_step e s) = or_str (pendingFlowPattern s) ''organic''"
    and "uGPUPatternId (uniforms (release_step e s)) =
           nullish (GPU_PATTERN_IDS (or_str (pendingFlowPattern s) ''organic'')) 0"
    and "targetBuffer (release_step e s) =
           (if nullish (GPU_PATTERN_IDS (or_str (pendingFlowPattern s) ''organic'')) 0 \<noteq> 0
            then targetBuffer s
            else cpuGenerate e (or_str (pendingFlowPattern s) ''organic'') (targetBuffer s) (count s))"
    and "pendingFlowPattern (release_step e s) = None"
    and "pendingFlowOptions (release_step e s) = no_options"
    and "lastTextTime (release_step e s) = 0"
  using assms
  by (simp_all add: release_step_def setFlowTargets_def resetToSingleLayer_def Let_def)

lemma update_text:
  assumes "phase s = Text"
  shows "holdExpired tc s \<Longrightarrow> \<not> convergence (update e tc s) < 0.02 \<Longrightarrow>
           phase (update e tc s) = Releasing \<and> targetConvergence (update e tc s) = 0"
    and "holdExpired tc s \<Longrightarrow> convergence (update e tc s) < 0.02 \<Longrightarrow>
           phase (update e tc s) = Flow \<and> targetConvergence (update e tc s) = 0.10"
    and "\<not> holdExpired tc s \<Longrightarrow> update e tc s = before_release e tc s"
proof -
  let ?p = "before_release e tc s"
  have c: "convergence ?p = convergence (update e tc s)"
    by (rule before_release_frame)
  {
    assume x: "holdExpired tc s" and n: "\<not> convergence (update e tc s) < 0.02"
    have "\<not> (phase ?p = Releasing \<and> convergence ?p < 0.02)" using n c by simp
    then have "update e tc s = ?p"
      unfolding update_before_release by (rule release_step_idle)
    then show "phase (update e tc s) = Releasing \<and> targetConvergence (update e tc s) = 0"
      using before_release_text[OF assms, of e tc] x by simp
  }
  {
    assume x: "holdExpired tc s" and n: "convergence (update e tc s) < 0.02"
    have ph: "phase ?p = Releasing" using before_release_text(1)[OF assms, of e tc] x by simp
    have cv: "convergence ?p < 0.02" using n c by simp
    show "phase (update e tc s) = Flow \<and> targetConvergence (update e tc s) = 0.10"
      unfolding update_before_release using release_step_fields(1,2)[OF ph cv] by simp
  }
  {
    assume x: "\<not> holdExpired tc s"
    have "phase ?p = Text" using before_release_text(1)[OF assms, of e tc] x by simp
    then have "\<not> (phase ?p = Releasing \<and> convergence ?p < 0.02)" by simp
    then show "update e tc s = ?p"
      unfolding update_before_release by (rule release_step_idle)
  }
qed

lemma update_releasing:
  assumes "phase s = Releasing" "\<not> formationPending s" "convergence (update e tc s) < 0.02"
  shows "phase (update e tc s) = Flow"
    and "targetConvergence (update e tc s) = 0.10"
    and "maxConvergence (update e tc s) = 1"
    and "holdDurationOverride (update e tc s) = None"
    and "releaseSpeed (update e tc s) = 1"
    and "dissolveMode (update e tc s) = None"
    and "physicsOverrides (update e tc s) = extractPhysicsOverrides (pendingFlowOptions s)"
    and "currentFlowPattern (update e tc s) = or_str (pendingFlowPattern s) ''organic''"
    and "uGPUPatternId (uniforms (update e tc s)) =
           nullish (GPU_PATTERN_IDS (or_str (pendingFlowPattern s) ''organic'')) 0"
    and "targetBuffer (update e tc s) =
           (if nullish (GPU_PATTERN_IDS (or_str (pendingFlowPattern s) ''organic'')) 0 \<noteq> 0
            then targetBuffer s
            else cpuGenerate e (or_str (pendingFlowPattern s) ''organic'') (targetBuffer s) (count s))"
    and "pendingFlowPattern (update e tc s) = None"
    and "pendingFlowOptions (update e tc s) = no_options"
proof -
  let ?p = "before_release e tc s"
  have eq: "?p = early_steps tc s" by (rule before_release_releasing[OF assms(1,2)])
  have ph: "phase ?p = Releasing" by (simp add: eq early_steps_frame assms(1))
  have cv: "convergence ?p < 0.02" using assms(3) by (simp add: before_release_frame)
  note f = release_step_fields[OF ph cv, of e, folded update_before_release]
  show "phase (update e tc s) = Flow"
    and "targetConvergence (update e tc s) = 0.10"
    and "maxConvergence (update e tc s) = 1"
    and "holdDurationOverride (update e tc s) = None"
    and "releaseSpeed (update e tc s) = 1"
    and "dissolveMode (update e tc s) = None"
    and "physicsOverrides (update e tc s) = extractPhysicsOverrides (pendingFlowOptions s)"
    and "currentFlowPattern (update e tc s) = or_str (pendingFlowPattern s) ''organic''"
    and "uGPUPatternId (uniforms (update e tc s)) =
           nullish (GPU_PATTERN_IDS (or_str (pendingFlowPattern s) ''organic'')) 0"
    and "targetBuffer (update e tc s) =
           (if nullish (GPU_PATTERN_IDS (or_str (pendingFlowPattern s) ''organic'')) 0 \<noteq> 0
            then targetBuffer s
            else cpuGenerate e (or_str (pendingFlowPattern s) ''organic'') (targetBuffer s) (count s))"
    and "pendingFlowPattern (update e tc s) = None"
    and "pendingFlowOptions (update e tc s) = no_options"
    using f by (simp_all add: eq early_steps_frame)
qed

lemma formationPending_update:
  assumes "\<not> formationPending s"
  shows "\<not> formationPending (update e tc s)"
proof -
  have f: "formation_step e tc (early_steps tc s) = early_steps tc s"
    by (rule formation_step_idle) (simp add: early_steps_frame assms)
  have "\<not> formationPending (before_release e tc s)"
    by (simp add: before_release_def f frame early_steps_frame assms)
  moreover have "formationPending (release_step e p) = formationPending p" for p
    by (simp add: release_step_def setFlowTargets_def resetToSingleLayer_def Let_def)
  ultimately show ?thesis by (simp add: update_before_release)
qed

subsection \<open>The hold of a text\<close>

lemma update_hold_start:
  assumes "phase s = Text" "lastTextTime s = 0" "0 < elapsedTime tc" "0 \<le> holdDur s"
  shows "phase (update e tc s) = Text"
    and "lastTextTime (update e tc s) = elapsedTime tc"
    and "targetConvergence (update e tc s) = targetConvergence s"
    and "maxConvergence (update e tc s) = maxConvergence s"
    and "holdDurationOverride (update e tc s) = holdDurationOverride s"
    and "textHoldDuration (update e tc s) = textHoldDuration s"
    and "releaseSpeed (update e tc s) = releaseSpeed s"
    and "physicsOverrides (update e tc s) = physicsOverrides s"
    and "convUpScale (update e tc s) = convUpScale s"
    and "convDnScale (update e tc s) = convDnScale s"
    and "pendingFlowPattern (update e tc s) = pendingFlowPattern s"
    and "pendingFlowOptions (update e tc s) = pendingFlowOptions s"
proof -
  have n: "\<not> holdExpired tc s"
    using assms(2,3,4) by (simp add: holdExpired_def recordedTextTime_def)
  have u: "update e tc s = before_release e tc s" by (rule update_text(3)[OF assms(1) n])
  show "phase (update e tc s) = Text"
    and "lastTextTime (update e tc s) = elapsedTime tc"
    and "targetConvergence (update e tc s) = targetConvergence s"
    using before_release_text[OF assms(1), of e tc] n assms(2)
    by (simp_all add: u recordedTextTime_def)
  show "maxConvergence (update e tc s) = maxConvergence s"
    and "holdDurationOverride (update e tc s) = holdDurationOverride s"
    and "textHoldDuration (update e tc s) = textHoldDuration s"
    and "releaseSpeed (update e tc s) = releaseSpeed s"
    and "physicsOverrides (update e tc s) = physicsOverrides s"
    and "convUpScale (update e tc s) = convUpScale s"
    and "convDnScale (update e tc s) = convDnScale s"
    and "pendingFlowPattern (update e tc s) = pendingFlowPattern s"
    and "pendingFlowOptions (update e tc s) = pendingFlowOptions s"
    unfolding u by (rule before_release_frame)+
qed

lemma init_textHoldDuration: "textHoldDuration (init e default_params) = 2.5"
  by (simp add: init_def setMode_def setFlowTargets_def constructed_def default_params_def
      Let_def nullish_def)

text \<open>
  Claim C2, amended. For group A in phase \<^verbatim>\<open>text\<close>, on a tick where the elapsed time minus
  the recorded text time strictly exceeds the hold duration (the per-command override if
  one was given, otherwise the constructor's hold duration, 2.5 seconds by default),
  \<^verbatim>\<open>update\<close> changes the phase to \<^verbatim>\<open>releasing\<close> and sets the target convergence to 0,
  unless the convergence of that tick is already below 0.02: then the same call goes on
  to the return to flow and ends in phase \<^verbatim>\<open>flow\<close> with target convergence 0.10. On a
  tick where the hold has not run out the phase stays \<^verbatim>\<open>text\<close>.
\<close>

theorem hold_expiry:
  "(phase s = Text \<longrightarrow>
     (let s' = update e tc s
      in (holdExpired tc s \<and> \<not> convergence s' < 0.02 \<longrightarrow>
            phase s' = Releasing \<and> targetConvergence s' = 0)
       \<and> (holdExpired tc s \<and> convergence s' < 0.02 \<longrightarrow>
            phase s' = Flow \<and> targetConvergence s' = 0.10)
       \<and> (\<not> holdExpired tc s \<longrightarrow>
            phase s' = Text \<and> targetConvergence s' = targetConvergence s
            \<and> lastTextTime s' = recordedTextTime tc s)))
   \<and> holdExpired tc s =
       (recordedTextTime tc s > 0 \<and> elapsedTime tc - recordedTextTime tc s > holdDur s)
   \<and> holdDur s = (case holdDurationOverride s of Some h \<Rightarrow> h | None \<Rightarrow> textHoldDuration s)
   \<and> textHoldDuration (init e default_params) = 2.5"
proof -
  have keep: "phase (update e tc s) = Text \<and> targetConvergence (update e tc s) = targetConvergence s
      \<and> lastTextTime (update e tc s) = recordedTextTime tc s"
    if "phase s = Text" "\<not> holdExpired tc s"
    using update_text(3)[OF that] before_release_text[OF that(1), of e tc] that(2) by simp
  have d: "holdDur s = (case holdDurationOverride s of Some h \<Rightarrow> h | None \<Rightarrow> textHoldDuration s)"
    by (simp add: holdDur_def nullish_def)
  show ?thesis
    unfolding Let_def
    using update_text(1,2)[of s tc e] keep d init_textHoldDuration[of e]
    by (auto simp: holdExpired_def)
qed

lemma c2_text_fields:
  "phase c2_text = Text" "lastTextTime c2_text = 0" "maxConvergence c2_text = 0.01"
  "holdDurationOverride c2_text = None" "textHoldDuration c2_text = 2.5"
  by (simp_all add: c2_text_def demo_engine_eq c2_opts_def eval_defs)

lemma c2_held_fields:
  "phase c2_held = Text" "lastTextTime c2_held = 1" "maxConvergence c2_held = 0.01"
  "holdDur c2_held = 2.5"
proof -
  have h: "0 \<le> holdDur c2_text" by (simp add: holdDur_def c2_text_fields nullish_def)
  have t: "0 < elapsedTime (tick_at 1)" "elapsedTime (tick_at 1) = 1" by (simp_all add: tick_at_def)
  note f = update_hold_start[OF c2_text_fields(1,2) t(1) h, of demo_env]
  show "phase c2_held = Text" "lastTextTime c2_held = 1" "maxConvergence c2_held = 0.01"
    "holdDur c2_held = 2.5"
    using f by (simp_all add: c2_held_def t(2) c2_text_fields holdDur_def nullish_def)
qed

lemma c2_low_convergence: "convergence (update demo_env (tick_at 4) c2_held) < 0.02"
proof -
  have "convergence (update demo_env (tick_at 4) c2_held) \<le> maxConvergence c2_held"
    unfolding convergence_update by (rule converge_ceiling) (simp add: c2_held_fields)
  then show ?thesis by (simp add: c2_held_fields)
qed

lemma c2_expired: "holdExpired (tick_at 4) c2_held"
  by (simp add: holdExpired_def recordedTextTime_def c2_held_fields tick_at_def)

text \<open>
  The claim as stated fails: after \<^verbatim>\<open>setText('A', {animation: 'directSnap', maxConvergence:
  0.01})\<close> and a tick at second 1, the tick at second 4 finds the hold of 2.5 seconds over,
  and \<^verbatim>\<open>update\<close> returns with phase \<^verbatim>\<open>flow\<close> and target convergence 0.10.
\<close>

theorem hold_expiry_counterexample:
  "phase c2_held = Text \<and> lastTextTime c2_held = 1 \<and> holdDur c2_held = 2.5
   \<and> elapsedTime (tick_at 4) - lastTextTime c2_held > holdDur c2_held
   \<and> phase (update demo_env (tick_at 4) c2_held) = Flow
   \<and> targetConvergence (update demo_env (tick_at 4) c2_held) = 0.10
   \<and> phase (update demo_env (tick_at 4) c2_held) \<noteq> Releasing"
  using update_text(2)[OF c2_held_fields(1) c2_expired c2_low_convergence]
  by (simp add: c2_held_fields tick_at_def)

lemma c2w_text_fields:
  "phase c2w_text = Text" "lastTextTime c2w_text = 0" "maxConvergence c2w_text = 1"
  "holdDurationOverride c2w_text = None" "textHoldDuration c2w_text = 2.5"
  "convergence c2w_text = 1" "targetConvergence c2w_text = 1"
  by (simp_all add: c2w_text_def demo_engine_eq c2w_opts_def eval_defs snapToTargets_def)

lemma c2w_held_fields:
  "phase c2w_held = Text" "lastTextTime c2w_held = 1" "maxConvergence c2w_held = 1"
  "holdDur c2w_held = 2.5" "targetConvergence c2w_held = 1" "convergence c2w_held = 1"
proof -
  have h: "0 \<le> holdDur c2w_text" by (simp add: holdDur_def c2w_text_fields nullish_def)
  have t: "0 < elapsedTime (tick_at 1)" "elapsedTime (tick_at 1) = 1" by (simp_all add: tick_at_def)
  note f = update_hold_start[OF c2w_text_fields(1,2) t(1) h, of demo_env]
  show "phase c2w_held = Text" "lastTextTime c2w_held = 1" "maxConvergence c2w_held = 1"
    "holdDur c2w_held = 2.5" "targetConvergence c2w_held = 1"
    using f by (simp_all add: c2w_held_def t(2) c2w_text_fields holdDur_def nullish_def)
  show "convergence c2w_held = 1"
    by (simp add: c2w_held_def convergence_update c2w_text_fields converge_def Let_def)
qed

theorem hold_expiry_witness:
  "phase c2w_held = Text \<and> lastTextTime c2w_held = 1 \<and> holdDur c2w_held = 2.5
   \<and> phase (update demo_env (tick_at 4) c2w_held) = Releasing
   \<and> targetConvergence (update demo_env (tick_at 4) c2w_held) = 0
   \<and> phase (update demo_env (tick_at 3) c2w_held) = Text
   \<and> phase (update demo_env (tick_at 4) c2_held) = Flow"
proof -
  have c4: "convergence (update demo_env (tick_at 4) c2w_held) = 1"
    by (simp add: convergence_update c2w_held_fields converge_def Let_def)
  have x4: "holdExpired (tick_at 4) c2w_held" and x3: "\<not> holdExpired (tick_at 3) c2w_held"
    by (simp_all add: holdExpired_def recordedTextTime_def c2w_held_fields tick_at_def)
  from hold_expiry [of c2w_held demo_env "tick_at 4"] hold_expiry [of c2w_held demo_env "tick_at 3"]
       hold_expiry [of c2_held demo_env "tick_at 4"]
       c4 x4 x3 c2_expired c2_low_convergence
  show ?thesis
    by (simp add: Let_def c2w_held_fields c2_held_fields)
qed

subsection \<open>Pending formations\<close>

lemma formation_in_phase_same:
  "phase s' = phase s \<Longrightarrow> formationPending s' = formationPending s \<Longrightarrow>
   formation_in_phase s \<Longrightarrow> formation_in_phase s'"
  by (simp add: formation_in_phase_def)

lemma setFlowTargets_formation:
  "phase (setFlowTargets e p opts s) = phase s"
  "formationPending (setFlowTargets e p opts s) = formationPending s"
  by (simp_all add: setFlowTargets_def Let_def)

lemma setMode_formation:
  "phase (setMode e mode pattern opts s) = phase s"
  "formationPending (setMode e mode pattern opts s) = formationPending s"
  by (simp_all add: setMode_def Let_def setFlowTargets_formation resetToSingleLayer_def)

lemma writeMainSlot_formation: "formation_in_phase (writeMainSlot e an sw opts cds x)"
proof -
  have "phase (groupBAnimation opts y) = phase y"
    "formationPending (groupBAnimation opts y) = formationPending y" for y
    by (simp_all add: groupBAnimation_def Let_def)
  moreover have "formation_in_phase (writeMainTargets e an sw opts cds x)"
    by (simp add: formation_in_phase_def writeMainTargets_def Let_def)
  ultimately show ?thesis
    unfolding writeMainSlot_def by (simp add: formation_in_phase_def)
qed

lemma setTextTarget_formation:
  assumes "formation_in_phase s"
  shows "formation_in_phase (setTextTarget e text opts s)"
proof (cases "text = []")
  case True
  with assms show ?thesis by (simp add: setTextTarget_def)
next
  case False
  show ?thesis
  proof (cases "nullish (particleGroup opts) 0 = 1")
    case True
    have "phase (setTextTarget e text opts s) = phase s"
      "formationPending (setTextTarget e text opts s) = formationPending s"
      using False True
      by (simp_all add: setTextTarget_def Let_def splitForGroup_def backgroundForGroup_def
          writeSlotB_def resetToSingleLayer_def)
    then show ?thesis using assms by (rule formation_in_phase_same)
  next
    case pg: False
    show ?thesis
      apply (simp only: setTextTarget_def Let_def False pg if_False)
      apply (rule writeMainSlot_formation)
      done
  qed
qed

lemma formation_step_formation:
  assumes "formation_in_phase s"
  shows "formation_in_phase (formation_step e tc s)"
  using assms
  by (auto simp: formation_in_phase_def formation_step_def Let_def split: option.splits)

lemma hold_step_formation:
  assumes "formation_in_phase s"
  shows "formation_in_phase (hold_step tc s)"
  using assms by (auto simp: formation_in_phase_def hold_step_def)

lemma release_step_formation:
  assumes "formation_in_phase s"
  shows "formation_in_phase (release_step e s)"
proof (cases "phase s = Releasing \<and> convergence s < 0.02")
  case True
  then have "\<not> formationPending s" using assms by (auto simp: formation_in_phase_def)
  moreover have "formationPending (release_step e s) = formationPending s"
    by (simp add: release_step_def setFlowTargets_def resetToSingleLayer_def Let_def)
  ultimately show ?thesis by (simp add: formation_in_phase_def)
next
  case False
  then show ?thesis using assms by (simp add: release_step_idle)
qed

lemma update_formation:
  assumes "formation_in_phase s"
  shows "formation_in_phase (update e tc s)"
proof -
  have "formation_in_phase (early_steps tc s)"
    using assms by (simp add: formation_in_phase_def early_steps_frame)
  then have "formation_in_phase (formation_step e tc (early_steps tc s))"
    by (rule formation_step_formation)
  then have "formation_in_phase
      (text_time_step tc (animated_flow_step e tc (formation_step e tc (early_steps tc s))))"
    by (simp add: formation_in_phase_def frame)
  then have "formation_in_phase (before_release e tc s)"
    unfolding before_release_def by (rule hold_step_formation)
  then show ?thesis
    unfolding update_before_release by (rule release_step_formation)
qed

lemma exec_formation:
  assumes "formation_in_phase s"
  shows "formation_in_phase (exec e c s)"
proof (cases c)
  case (SetText str opts)
  then show ?thesis using setTextTarget_formation[OF assms] by (simp add: setText_def)
next
  case (SetShadowSculptureTarget textA textB opts)
  then show ?thesis using assms
    by (simp add: formation_in_phase_def setShadowSculptureTarget_def Let_def)
next
  case (SetFlowTargets pattern opts)
  then show ?thesis using assms by (simp add: formation_in_phase_def setFlowTargets_formation)
next
  case (SetFlowOrigin x y z)
  then show ?thesis using assms by (simp add: formation_in_phase_def setFlowOrigin_def)
next
  case (SetFlowScale scale)
  then show ?thesis using assms by (simp add: formation_in_phase_def setFlowScale_def)
next
  case (SetFlowTargetsMultiLayer layers)
  then show ?thesis using assms
    by (simp add: formation_in_phase_def setFlowTargetsMultiLayer_def Let_def)
next
  case SnapToTargets
  then show ?thesis using assms by (simp add: formation_in_phase_def snapToTargets_def)
next
  case (SetMode mode pattern opts)
  then show ?thesis using assms by (simp add: formation_in_phase_def setMode_formation)
next
  case (Update tc)
  then show ?thesis using update_formation[OF assms] by simp
next
  case (SetParams pa)
  then show ?thesis using assms
    by (simp add: formation_in_phase_def setParams_def Let_def setMode_formation
        split: option.splits)
next
  case (OnProjectionChange isOrtho)
  then show ?thesis using assms by (simp add: formation_in_phase_def onProjectionChange_def)
qed

lemma run_formation: "formation_in_phase s \<Longrightarrow> formation_in_phase (run cs s)"
  by (induction cs arbitrary: s) (simp_all add: exec_formation)

lemma init_formation: "formation_in_phase (init e cp)"
  by (simp add: formation_in_phase_def init_def setMode_formation constructed_def Let_def)

lemma reachable_releasing:
  "phase (run cs (init e cp)) = Releasing \<Longrightarrow> \<not> formationPending (run cs (init e cp))"
  using run_formation[OF init_formation, of cs e cp] by (auto simp: formation_in_phase_def)

subsection \<open>The return to flow\<close>

text \<open>
  Claim C1, amended. For group A, on a tick that starts in phase \<^verbatim>\<open>releasing\<close> with no
  formation pending (as in every state reached from \<^verbatim>\<open>init\<close> through the commands) and on
  which the convergence has fallen below 0.02, \<^verbatim>\<open>update\<close> sets the phase to \<^verbatim>\<open>flow\<close> and the
  target convergence to 0.10, resets the ceiling to 1, the hold override to none, the
  release speed to 1 and the dissolve mode to none, and applies the flow pattern queued by
  \<^verbatim>\<open>setMode('flow', ...)\<close> during the hold, or \<^verbatim>\<open>organic\<close> if none was queued, through
  \<^verbatim>\<open>setFlowTargets\<close>. The physics overrides are cleared and then set again from the options
  queued with the pattern: they end as none exactly when those options carry no physics key,
  as when nothing was queued.
\<close>

theorem release_to_flow:
  "(phase (run cs (init ei cp)) = Releasing \<longrightarrow> \<not> formationPending (run cs (init ei cp)))
   \<and> (phase s = Releasing \<and> \<not> formationPending s \<and> convergence (update e tc s) < 0.02 \<longrightarrow>
     (let s' = update e tc s;
          nextPattern = or_str (pendingFlowPattern s) ''organic'';
          gpuId = nullish (GPU_PATTERN_IDS nextPattern) 0
      in phase s' = Flow \<and> targetConvergence s' = 0.10 \<and> maxConvergence s' = 1
       \<and> holdDurationOverride s' = None \<and> releaseSpeed s' = 1 \<and> dissolveMode s' = None
       \<and> physicsOverrides s' = extractPhysicsOverrides (pendingFlowOptions s)
       \<and> (pendingFlowOptions s = no_options \<longrightarrow> physicsOverrides s' = None)
       \<and> currentFlowPattern s' = nextPattern
       \<and> (pendingFlowPattern s = None \<longrightarrow> currentFlowPattern s' = ''organic'')
       \<and> uGPUPatternId (uniforms s') = gpuId
       \<and> targetBuffer s' =
           (if gpuId \<noteq> 0 then targetBuffer s
            else cpuGenerate e nextPattern (targetBuffer s) (count s))
       \<and> pendingFlowPattern s' = None \<and> pendingFlowOptions s' = no_options))"
proof (intro conjI impI, goal_cases)
  case 1
  then show ?case by (rule reachable_releasing)
next
  case 2
  then have a: "phase s = Releasing" "\<not> formationPending s" "convergence (update e tc s) < 0.02"
    by simp_all
  note f = update_releasing[OF a]
  have none: "extractPhysicsOverrides no_options = None"
    by (simp add: extractPhysicsOverrides_def no_options_def)
  have org: "or_str None ''organic'' = ''organic''" by (simp add: or_str_def)
  show ?case
    unfolding Let_def
    by (intro conjI impI) (simp_all only: f none org)
qed

lemma update_rates:
  "m_convUp (macro (update e tc s)) =
     ease (m_convUp (macro s)) (ovGet (physicsOverrides s) ov_convUp)
       (p_convUp (activePhase (macroTime tc)))
       (nullish (ovGet (physicsOverrides s) ov_lerpRate) 0.005) 0.005"
  "m_convDn (macro (update e tc s)) =
     ease (m_convDn (macro s)) (ovGet (physicsOverrides s) ov_convDn)
       (p_convDn (activePhase (macroTime tc)))
       (nullish (ovGet (physicsOverrides s) ov_lerpRate) 0.005) 0.005"
  by (simp_all add: macro_update easeMacro_def Let_def)

lemma early_row: "t < 11 \<Longrightarrow> p_convDn (activePhase t) = 0.004"
  by (simp add: activePhase_def MACRO_PHASES_def mk_phase_def nullish_def)

lemma tick_at_fields: "elapsedTime (tick_at t) = t" "macroTime (tick_at t) = t"
  by (simp_all add: tick_at_def macroTime_def or_num_def)

lemma convDn_steady:
  assumes "m_convDn (macro s) = 0.004" "physicsOverrides s = None" "t < 11"
  shows "m_convDn (macro (update e (tick_at t) s)) = 0.004"
  using assms by (simp add: update_rates ease_def ovGet_def nullish_def tick_at_fields early_row)

lemma update_unreleased:
  assumes "\<not> convergence (update e tc s) < 0.02"
  shows "update e tc s = before_release e tc s"
proof -
  have "\<not> (phase (before_release e tc s) = Releasing \<and> convergence (before_release e tc s) < 0.02)"
    using assms by (simp add: before_release_frame)
  then show ?thesis unfolding update_before_release by (rule release_step_idle)
qed

lemma c1_text_fields:
  "phase (c1_text fo) = Text" "lastTextTime (c1_text fo) = 0"
  "convergence (c1_text fo) = 1" "targetConvergence (c1_text fo) = 1"
  "maxConvergence (c1_text fo) = 1" "holdDurationOverride (c1_text fo) = Some 1"
  "releaseSpeed (c1_text fo) = 250" "physicsOverrides (c1_text fo) = None"
  "convDnScale (c1_text fo) = 1" "\<not> formationPending (c1_text fo)"
  "pendingFlowPattern (c1_text fo) = Some ''galaxySpin''" "pendingFlowOptions (c1_text fo) = fo"
  "m_convDn (macro (c1_text fo)) = 0.004"
  by (simp_all add: c1_text_def demo_engine_eq c1_opts_def eval_defs snapToTargets_def setMode_def)

lemma c1_held_fields:
  "phase (c1_held fo) = Text" "lastTextTime (c1_held fo) = 1"
  "convergence (c1_held fo) = 1" "targetConvergence (c1_held fo) = 1"
  "maxConvergence (c1_held fo) = 1" "holdDurationOverride (c1_held fo) = Some 1"
  "releaseSpeed (c1_held fo) = 250" "physicsOverrides (c1_held fo) = None"
  "convDnScale (c1_held fo) = 1" "\<not> formationPending (c1_held fo)"
  "pendingFlowPattern (c1_held fo) = Some ''galaxySpin''" "pendingFlowOptions (c1_held fo) = fo"
  "m_convDn (macro (c1_held fo)) = 0.004"
proof -
  have h: "0 \<le> holdDur (c1_text fo)" by (simp add: holdDur_def c1_text_fields nullish_def)
  have t: "0 < elapsedTime (tick_at 1)" by (simp add: tick_at_def)
  note f = update_hold_start[OF c1_text_fields(1,2) t h, of demo_env]
  show "phase (c1_held fo) = Text" "lastTextTime (c1_held fo) = 1"
    "targetConvergence (c1_held fo) = 1"
    "maxConvergence (c1_held fo) = 1" "holdDurationOverride (c1_held fo) = Some 1"
    "releaseSpeed (c1_held fo) = 250" "physicsOverrides (c1_held fo) = None"
    "convDnScale (c1_held fo) = 1"
    "pendingFlowPattern (c1_held fo) = Some ''galaxySpin''" "pendingFlowOptions (c1_held fo) = fo"
    using f by (simp_all add: c1_held_def c1_text_fields tick_at_fields)
  show "convergence (c1_held fo) = 1"
    by (simp add: c1_held_def convergence_update c1_text_fields converge_def Let_def)
  show "\<not> formationPending (c1_held fo)"
    unfolding c1_held_def exec.simps by (rule formationPending_update) (rule c1_text_fields)
  show "m_convDn (macro (c1_held fo)) = 0.004"
    unfolding c1_held_def exec.simps by (rule convDn_steady) (simp_all add: c1_text_fields)
qed

lemma c1_releasing_fields:
  "phase (c1_releasing fo) = Releasing"
  "convergence (c1_releasing fo) = 1" "targetConvergence (c1_releasing fo) = 0"
  "maxConvergence (c1_releasing fo) = 1"
  "releaseSpeed (c1_releasing fo) = 250" "physicsOverrides (c1_releasing fo) = None"
  "convDnScale (c1_releasing fo) = 1" "\<not> formationPending (c1_releasing fo)"
  "pendingFlowPattern (c1_releasing fo) = Some ''galaxySpin''"
  "pendingFlowOptions (c1_releasing fo) = fo"
  "m_convDn (macro (c1_releasing fo)) = 0.004"
proof -
  let ?u = "update demo_env (tick_at 3) (c1_held fo)"
  have c: "convergence ?u = 1"
    by (simp add: convergence_update c1_held_fields converge_def Let_def)
  then have n: "\<not> convergence ?u < 0.02" by simp
  have x: "holdExpired (tick_at 3) (c1_held fo)"
    by (simp add: holdExpired_def recordedTextTime_def holdDur_def nullish_def c1_held_fields
        tick_at_fields)
  have u: "?u = before_release demo_env (tick_at 3) (c1_held fo)" by (rule update_unreleased[OF n])
  show "phase (c1_releasing fo) = Releasing" "targetConvergence (c1_releasing fo) = 0"
    using update_text(1)[OF c1_held_fields(1) x n] by (simp_all add: c1_releasing_def)
  show "convergence (c1_releasing fo) = 1" by (simp add: c1_releasing_def c)
  show "maxConvergence (c1_releasing fo) = 1"
    "releaseSpeed (c1_releasing fo) = 250" "physicsOverrides (c1_releasing fo) = None"
    "convDnScale (c1_releasing fo) = 1"
    "pendingFlowPattern (c1_releasing fo) = Some ''galaxySpin''"
    "pendingFlowOptions (c1_releasing fo) = fo"
    by (simp_all add: c1_releasing_def u before_release_frame(1-13) c1_held_fields)
  show "\<not> formationPending (c1_releasing fo)"
    unfolding c1_releasing_def exec.simps by (rule formationPending_update) (rule c1_held_fields)
  show "m_convDn (macro (c1_releasing fo)) = 0.004"
    unfolding c1_releasing_def exec.simps by (rule convDn_steady) (simp_all add: c1_held_fields)
qed

lemma c1_released: "convergence (update demo_env (tick_at 3.1) (c1_releasing fo)) < 0.02"
proof -
  have "m_convDn (macro (update demo_env (tick_at 3.1) (c1_releasing fo))) = 0.004"
    by (rule convDn_steady) (simp_all add: c1_releasing_fields)
  then show ?thesis
    by (simp add: convergence_update c1_releasing_fields converge_def Let_def)
qed

theorem release_to_flow_witness:
  "phase (c1_releasing no_options) = Releasing
   \<and> phase (update demo_env (tick_at 3.1) (c1_releasing no_options)) = Flow
   \<and> targetConvergence (update demo_env (tick_at 3.1) (c1_releasing no_options)) = 0.10
   \<and> physicsOverrides (update demo_env (tick_at 3.1) (c1_releasing no_options)) = None
   \<and> currentFlowPattern (update demo_env (tick_at 3.1) (c1_releasing no_options)) = ''galaxySpin''
   \<and> uGPUPatternId (uniforms (update demo_env (tick_at 3.1) (c1_releasing no_options))) = 7"
  using release_to_flow [where s = "c1_releasing no_options" and e = demo_env
      and tc = "tick_at 3.1", THEN conjunct2]
    c1_released [of no_options]
  by (simp add: Let_def c1_releasing_fields or_str_def GPU_PATTERN_IDS_def nullish_def
      extractPhysicsOverrides_def no_options_def)

text \<open>
  The claim as stated fails: the flow pattern was queued with a spring override, and after
  the release tick the physics overrides are that override, not none.
\<close>

theorem release_overrides_counterexample:
  "phase (c1_releasing c1_flow_opts) = Releasing
   \<and> convergence (update demo_env (tick_at 3.1) (c1_releasing c1_flow_opts)) < 0.02
   \<and> phase (update demo_env (tick_at 3.1) (c1_releasing c1_flow_opts)) = Flow
   \<and> physicsOverrides (update demo_env (tick_at 3.1) (c1_releasing c1_flow_opts)) \<noteq> None
   \<and> ovGet (physicsOverrides (update demo_env (tick_at 3.1) (c1_releasing c1_flow_opts))) ov_spring
       = Some 0.1"
  using update_releasing(1,7)[OF c1_releasing_fields(1,8) c1_released, of c1_flow_opts]
    c1_released [of c1_flow_opts]
  by (simp add: c1_releasing_fields extractPhysicsOverrides_def c1_flow_opts_def no_options_def
      ovGet_def)

subsection \<open>Flow requests\<close>

lemma setFlowTargets_fields:
  "currentFlowPattern (setFlowTargets e p opts s) = p"
  "uGPUPatternId (uniforms (setFlowTargets e p opts s)) = nullish (GPU_PATTERN_IDS p) 0"
  "targetBuffer (setFlowTargets e p opts s) =
     (if nullish (GPU_PATTERN_IDS p) 0 \<noteq> 0 then targetBuffer s
      else cpuGenerate e p (targetBuffer s) (count s))"
  "pendingFlowPattern (setFlowTargets e p opts s) = pendingFlowPattern s"
  "phase (setFlowTargets e p opts s) = phase s"
  "slotB (setFlowTargets e p opts s) = slotB_init"
  by (simp_all add: setFlowTargets_def Let_def)

lemma setMode_flow_deferred:
  assumes "phase s = Text \<or> phase s = Forming"
  shows "setMode e ''flow'' pattern opts s =
           s\<lparr>sweepDir := (0, 0, 0),
             pendingFlowPattern := (if truthy_str pattern then pattern else None),
             pendingFlowOptions := opts, currentText := []\<rparr>"
  using assms by (auto simp: setMode_def Let_def)

lemma setMode_flow_applied:
  assumes "phase s \<noteq> Text" "phase s \<noteq> Forming"
  shows "setMode e ''flow'' pattern opts s =
           (if truthy_str pattern
            then (setFlowTargets e (nullish pattern []) opts
                    (s\<lparr>sweepDir := (0, 0, 0), targetConvergence := 0.10\<rparr>))\<lparr>currentText := []\<rparr>
            else (setFlowTargets e
                    (FLOW_PATTERN_GENERATOR_KEYS !
                       (flowPatternIdx s mod length FLOW_PATTERN_GENERATOR_KEYS))
                    opts (s\<lparr>sweepDir := (0, 0, 0), targetConvergence := 0.10\<rparr>))
                 \<lparr>flowPatternIdx := flowPatternIdx s + 1, currentText := []\<rparr>)"
  using assms by (simp add: setMode_def Let_def)

text \<open>What the kernel reads after \<^verbatim>\<open>setFlowTargets\<close>: the layer count is left alone.\<close>

lemma setFlowTargets_layers:
  "uNumLayers (uniforms (setFlowTargets e p opts s)) = uNumLayers (uniforms s)"
  "uTime (uniforms (setFlowTargets e p opts s)) = uTime (uniforms s)"
  "uBgPatternId (uniforms (setFlowTargets e p opts s)) = 0"
  "uGPUPatternIdB (uniforms (setFlowTargets e p opts s)) = 0"
  "uFlowOrigin (uniforms (setFlowTargets e p opts s)) = uFlowOrigin (uniforms s)"
  "uFlowScale (uniforms (setFlowTargets e p opts s)) = uFlowScale (uniforms s)"
  by (simp_all add: setFlowTargets_def Let_def)

lemma setFlowTargets_resolveLayer:
  "resolveLayer (uniforms (setFlowTargets e p opts s)) i =
     (if 1 < uNumLayers (uniforms s) then resolveLayer (uniforms s) i
      else (nullish (GPU_PATTERN_IDS p) 0, uFlowOrigin (uniforms s), uFlowScale (uniforms s)))"
  by (simp add: resolveLayer_def setFlowTargets_def Let_def)

lemma kernelTarget_plain:
  assumes "uBgPatternId u = 0" "uGPUPatternIdB u = 0"
  shows "kernelTarget g u i tg =
           (if fst (resolveLayer u i) > 0
            then vadd (vscale (g (fst (resolveLayer u i)) i (uTime u) tg)
                         (snd (snd (resolveLayer u i))))
                      (fst (snd (resolveLayer u i)))
            else tg)"
  using assms by (simp add: kernelTarget_def effPattern_def isBgParticle_def Let_def)

lemma setFlowTargets_kernel_single:
  assumes "\<not> 1 < uNumLayers (uniforms s)"
  shows "kernelTarget g (uniforms (setFlowTargets e p opts s)) i tg =
           (if nullish (GPU_PATTERN_IDS p) 0 > 0
            then vadd (vscale (g (nullish (GPU_PATTERN_IDS p) 0) i (uTime (uniforms s)) tg)
                         (uFlowScale (uniforms s)))
                      (uFlowOrigin (uniforms s))
            else tg)"
  using assms
  by (simp add: kernelTarget_plain setFlowTargets_layers setFlowTargets_resolveLayer)

lemma setFlowTargets_kernel_layers:
  assumes "1 < uNumLayers (uniforms s)"
  shows "kernelTarget g (uniforms (setFlowTargets e p opts s)) i tg =
           (if fst (resolveLayer (uniforms s) i) > 0
            then vadd (vscale (g (fst (resolveLayer (uniforms s) i)) i (uTime (uniforms s)) tg)
                         (snd (snd (resolveLayer (uniforms s) i))))
                      (fst (snd (resolveLayer (uniforms s) i)))
            else tg)"
  using assms
  by (simp add: kernelTarget_plain setFlowTargets_layers setFlowTargets_resolveLayer)

lemma release_step_kernel:
  assumes "phase s = Releasing" "convergence s < 0.02"
  shows "uNumLayers (uniforms (release_step e s)) = 1"
    and "kernelTarget g (uniforms (release_step e s)) i tg =
           (if nullish (GPU_PATTERN_IDS (or_str (pendingFlowPattern s) ''organic'')) 0 > 0
            then g (nullish (GPU_PATTERN_IDS (or_str (pendingFlowPattern s) ''organic'')) 0) i
                   (uTime (uniforms s)) tg
            else tg)"
proof -
  define s2 where "s2 = (resetToSingleLayer
                   (s\<lparr>phase := Flow, lastTextTime := 0, currentText := [],
                      physicsOverrides := None, dissolveMode := None, maxConvergence := 1.0,
                      holdDurationOverride := None, releaseSpeed := 1.0,
                      uniforms := (uniforms s)\<lparr>uBgPatternId := 0, uTextParticleRatio := 1.0,
                                    uTextPerChar := 1.0\<rparr>,
                      targetWorldQuat := Some QuatIdentity\<rparr>))
                 \<lparr>pendingFlowPattern := None, pendingFlowOptions := no_options\<rparr>"
  have u: "uniforms (release_step e s) =
             uniforms (setFlowTargets e (or_str (pendingFlowPattern s) ''organic'')
                         (pendingFlowOptions s) s2)"
    using assms by (simp add: release_step_def Let_def s2_def resetToSingleLayer_def)
  have s2: "uNumLayers (uniforms s2) = 1" "uFlowOrigin (uniforms s2) = (0, 0, 0)"
    "uFlowScale (uniforms s2) = 1" "uTime (uniforms s2) = uTime (uniforms s)"
    by (simp_all add: s2_def resetToSingleLayer_def)
  show "uNumLayers (uniforms (release_step e s)) = 1"
    by (simp add: u setFlowTargets_layers s2)
  have one: "\<not> 1 < uNumLayers (uniforms s2)" by (simp add: s2)
  show "kernelTarget g (uniforms (release_step e s)) i tg =
           (if nullish (GPU_PATTERN_IDS (or_str (pendingFlowPattern s) ''organic'')) 0 > 0
            then g (nullish (GPU_PATTERN_IDS (or_str (pendingFlowPattern s) ''organic'')) 0) i
                   (uTime (uniforms s)) tg
            else tg)"
    unfolding u setFlowTargets_kernel_single[OF one] s2
    by (simp add: vadd_def vscale_def)
qed

text \<open>
  Claim C3, amended. \<^verbatim>\<open>setMode('flow', ...)\<close> called in a phase other than \<^verbatim>\<open>text\<close> and
  \<^verbatim>\<open>forming\<close> (so in \<^verbatim>\<open>flow\<close>) calls \<^verbatim>\<open>setFlowTargets\<close> at once; called in phase \<^verbatim>\<open>text\<close> or
  \<^verbatim>\<open>forming\<close> it changes neither the target buffer nor any uniform on that call and records
  the pattern and options as pending. Within \<^verbatim>\<open>update\<close> only the last block, the return to
  flow, applies the pending pattern: the blocks before it leave the pattern and the pending
  request as they are. \<^verbatim>\<open>setFlowTargets\<close> itself is not deferred: in every phase it writes the
  pattern name and the pattern uniform (or regenerates the target buffer for a CPU-only
  pattern) at once and leaves the pending request untouched. It also leaves the layer count
  as it is. So the kernel's target of every particle follows the new pattern at once (the
  pattern's point scaled and offset by the flow scale and origin, or the buffer entry for a
  CPU-only pattern) only when at most one layer is active; while two or more layers are
  active the kernel keeps taking each particle's target from its layer and does not read
  the new pattern uniform. The return to flow resets the layer count to 1 before it applies
  the pending pattern, so there the kernel's targets are those of the pending pattern.
\<close>

theorem flow_request_timing:
  "(phase s \<noteq> Text \<and> phase s \<noteq> Forming \<longrightarrow>
      setMode e ''flow'' pattern opts s =
        (if truthy_str pattern
         then (setFlowTargets e (nullish pattern []) opts
                 (s\<lparr>sweepDir := (0, 0, 0), targetConvergence := 0.10\<rparr>))\<lparr>currentText := []\<rparr>
         else (setFlowTargets e
                 (FLOW_PATTERN_GENERATOR_KEYS !
                    (flowPatternIdx s mod length FLOW_PATTERN_GENERATOR_KEYS))
                 opts (s\<lparr>sweepDir := (0, 0, 0), targetConvergence := 0.10\<rparr>))
              \<lparr>flowPatternIdx := flowPatternIdx s + 1, currentText := []\<rparr>))
   \<and> (phase s = Text \<or> phase s = Forming \<longrightarrow>
        (let s' = setMode e ''flow'' pattern opts s
         in targetBuffer s' = targetBuffer s \<and> uniforms s' = uniforms s
          \<and> currentFlowPattern s' = currentFlowPattern s \<and> phase s' = phase s
          \<and> pendingFlowPattern s' = (if truthy_str pattern then pattern else None)
          \<and> pendingFlowOptions s' = opts))
   \<and> (let s' = setFlowTargets e p opts s;
            gpuId = nullish (GPU_PATTERN_IDS p) 0
        in currentFlowPattern s' = p \<and> uGPUPatternId (uniforms s') = gpuId
         \<and> targetBuffer s' =
             (if gpuId \<noteq> 0 then targetBuffer s else cpuGenerate e p (targetBuffer s) (count s))
         \<and> pendingFlowPattern s' = pendingFlowPattern s \<and> phase s' = phase s
         \<and> uNumLayers (uniforms s') = uNumLayers (uniforms s)
         \<and> (\<not> 1 < uNumLayers (uniforms s) \<longrightarrow>
              kernelTarget g (uniforms s') i tg =
                (if gpuId > 0
                 then vadd (vscale (g gpuId i (uTime (uniforms s)) tg) (uFlowScale (uniforms s)))
                           (uFlowOrigin (uniforms s))
                 else tg))
         \<and> (1 < uNumLayers (uniforms s) \<longrightarrow>
              kernelTarget g (uniforms s') i tg =
                (if fst (resolveLayer (uniforms s) i) > 0
                 then vadd (vscale (g (fst (resolveLayer (uniforms s) i)) i (uTime (uniforms s)) tg)
                              (snd (snd (resolveLayer (uniforms s) i))))
                           (fst (snd (resolveLayer (uniforms s) i)))
                 else tg)))
   \<and> (phase s = Releasing \<and> convergence s < 0.02 \<longrightarrow>
        currentFlowPattern (release_step e s) = or_str (pendingFlowPattern s) ''organic''
        \<and> pendingFlowPattern (release_step e s) = None
        \<and> uNumLayers (uniforms (release_step e s)) = 1
        \<and> kernelTarget g (uniforms (release_step e s)) i tg =
            (if nullish (GPU_PATTERN_IDS (or_str (pendingFlowPattern s) ''organic'')) 0 > 0
             then g (nullish (GPU_PATTERN_IDS (or_str (pendingFlowPattern s) ''organic'')) 0) i
                    (uTime (uniforms s)) tg
             else tg))
   \<and> update e tc s = release_step e (before_release e tc s)
   \<and> currentFlowPattern (before_release e tc s) = currentFlowPattern s
   \<and> uGPUPatternId (uniforms (before_release e tc s)) = uGPUPatternId (uniforms s)
   \<and> pendingFlowPattern (before_release e tc s) = pendingFlowPattern s
   \<and> (\<not> (phase (before_release e tc s) = Releasing
           \<and> convergence (before_release e tc s) < 0.02) \<longrightarrow>
        update e tc s = before_release e tc s)"
proof -
  have a: "phase s \<noteq> Text \<and> phase s \<noteq> Forming \<longrightarrow>
      setMode e ''flow'' pattern opts s =
        (if truthy_str pattern
         then (setFlowTargets e (nullish pattern []) opts
                 (s\<lparr>sweepDir := (0, 0, 0), targetConvergence := 0.10\<rparr>))\<lparr>currentText := []\<rparr>
         else (setFlowTargets e
                 (FLOW_PATTERN_GENERATOR_KEYS !
                    (flowPatternIdx s mod length FLOW_PATTERN_GENERATOR_KEYS))
                 opts (s\<lparr>sweepDir := (0, 0, 0), targetConvergence := 0.10\<rparr>))
              \<lparr>flowPatternIdx := flowPatternIdx s + 1, currentText := []\<rparr>)"
    using setMode_flow_applied by blast
  have b: "phase s = Text \<or> phase s = Forming \<longrightarrow>
        (let s' = setMode e ''flow'' pattern opts s
         in targetBuffer s' = targetBuffer s \<and> uniforms s' = uniforms s
          \<and> currentFlowPattern s' = currentFlowPattern s \<and> phase s' = phase s
          \<and> pendingFlowPattern s' = (if truthy_str pattern then pattern else None)
          \<and> pendingFlowOptions s' = opts)"
  proof
    assume "phase s = Text \<or> phase s = Forming"
    from setMode_flow_deferred[OF this]
    show "let s' = setMode e ''flow'' pattern opts s
         in targetBuffer s' = targetBuffer s \<and> uniforms s' = uniforms s
          \<and> currentFlowPattern s' = currentFlowPattern s \<and> phase s' = phase s
          \<and> pendingFlowPattern s' = (if truthy_str pattern then pattern else None)
          \<and> pendingFlowOptions s' = opts"
      by (simp add: Let_def)
  qed
  have c: "let s' = setFlowTargets e p opts s;
            gpuId = nullish (GPU_PATTERN_IDS p) 0
        in currentFlowPattern s' = p \<and> uGPUPatternId (uniforms s') = gpuId
         \<and> targetBuffer s' =
             (if gpuId \<noteq> 0 then targetBuffer s else cpuGenerate e p (targetBuffer s) (count s))
         \<and> pendingFlowPattern s' = pendingFlowPattern s \<and> phase s' = phase s
         \<and> uNumLayers (uniforms s') = uNumLayers (uniforms s)
         \<and> (\<not> 1 < uNumLayers (uniforms s) \<longrightarrow>
              kernelTarget g (uniforms s') i tg =
                (if gpuId > 0
                 then vadd (vscale (g gpuId i (uTime (uniforms s)) tg) (uFlowScale (uniforms s)))
                           (uFlowOrigin (uniforms s))
                 else tg))
         \<and> (1 < uNumLayers (uniforms s) \<longrightarrow>
              kernelTarget g (uniforms s') i tg =
                (if fst (resolveLayer (uniforms s) i) > 0
                 then vadd (vscale (g (fst (resolveLayer (uniforms s) i)) i (uTime (uniforms s)) tg)
                              (snd (snd (resolveLayer (uniforms s) i))))
                           (fst (snd (resolveLayer (uniforms s) i)))
                 else tg))"
    unfolding Let_def
    using setFlowTargets_fields(1,2,3,4,5)[of e p opts s] setFlowTargets_layers(1)[of e p opts s]
      setFlowTargets_kernel_single[where s = s and g = g and e = e and p = p and opts = opts
        and i = i and tg = tg]
      setFlowTargets_kernel_layers[where s = s and g = g and e = e and p = p and opts = opts
        and i = i and tg = tg]
    by blast
  have d: "phase s = Releasing \<and> convergence s < 0.02 \<longrightarrow>
        currentFlowPattern (release_step e s) = or_str (pendingFlowPattern s) ''organic''
        \<and> pendingFlowPattern (release_step e s) = None
        \<and> uNumLayers (uniforms (release_step e s)) = 1
        \<and> kernelTarget g (uniforms (release_step e s)) i tg =
            (if nullish (GPU_PATTERN_IDS (or_str (pendingFlowPattern s) ''organic'')) 0 > 0
             then g (nullish (GPU_PATTERN_IDS (or_str (pendingFlowPattern s) ''organic'')) 0) i
                    (uTime (uniforms s)) tg
             else tg)"
    using release_step_fields(8,11)[where s = s and e = e]
      release_step_kernel(1)[where s = s and e = e]
      release_step_kernel(2)[where s = s and e = e and g = g and i = i and tg = tg]
    by blast
  have f: "\<not> (phase (before_release e tc s) = Releasing
           \<and> convergence (before_release e tc s) < 0.02) \<longrightarrow>
        update e tc s = before_release e tc s"
    unfolding update_before_release using release_step_idle by blast
  from a b c d f update_before_release[of e tc s] before_release_frame(9,11,13)[of e tc s]
  show ?thesis by blast
qed

lemma c2w_text_pattern:
  "uGPUPatternId (uniforms c2w_text) = 0" "pendingFlowPattern c2w_text = None"
  "currentFlowPattern c2w_text = ''organic''"
  by (simp_all add: c2w_text_def demo_engine_eq c2w_opts_def eval_defs snapToTargets_def)

lemma demo_engine_phase: "phase demo_engine = Flow"
  by (simp add: demo_engine_eq constructed_def Let_def)

lemma c3_layered_fields:
  "phase c3_layered = Flow" "uNumLayers (uniforms c3_layered) = 2"
  "uTime (uniforms c3_layered) = 0" "resolveLayer (uniforms c3_layered) 3 = (8, (0, 0, 0), 1)"
proof -
  have u: "uniforms c3_layered =
     (initialUniforms 4 0.005 0.988 0.15 0.0003 1.0)
       \<lparr>uGPUPatternId := 7, uNumLayers := 2, uLayerPatternId0 := 7, uLayerOrigin0 := (1, 0, 0),
        uLayerScale0 := 2, uLayerPatternId1 := 8\<rparr>"
    by (simp add: c3_layered_def c6_two_layers)
  have m: "(3::nat) mod 2 = 1" by code_simp
  show "phase c3_layered = Flow"
    by (simp add: c3_layered_def setFlowTargetsMultiLayer_def Let_def demo_engine_phase)
  show "uNumLayers (uniforms c3_layered) = 2" "uTime (uniforms c3_layered) = 0"
    by (simp_all add: u initialUniforms_def)
  show "resolveLayer (uniforms c3_layered) 3 = (8, (0, 0, 0), 1)"
    by (simp add: u resolveLayer_def Let_def m) (simp add: initialUniforms_def)
qed

theorem flow_request_timing_witness:
  "phase c2w_text = Text
   \<and> uGPUPatternId (uniforms (setMode demo_env ''flow'' (Some ''galaxySpin'') no_options c2w_text)) = 0
   \<and> currentFlowPattern (setMode demo_env ''flow'' (Some ''galaxySpin'') no_options c2w_text)
       = ''organic''
   \<and> pendingFlowPattern (setMode demo_env ''flow'' (Some ''galaxySpin'') no_options c2w_text)
       = Some ''galaxySpin''
   \<and> phase demo_engine = Flow
   \<and> currentFlowPattern (setMode demo_env ''flow'' (Some ''galaxySpin'') no_options demo_engine)
       = ''galaxySpin''
   \<and> uGPUPatternId (uniforms (setMode demo_env ''flow'' (Some ''galaxySpin'') no_options demo_engine))
       = 7
   \<and> kernelTarget demo_pattern (uniforms (setFlowTargets demo_env ''galaxySpin'' no_options demo_engine))
       3 (0, 0, 0) = (7, 3, 0)
   \<and> phase c3_layered = Flow \<and> uNumLayers (uniforms c3_layered) = 2
   \<and> uGPUPatternId (uniforms (setFlowTargets demo_env ''ripplePool'' no_options c3_layered)) = 9
   \<and> uNumLayers (uniforms (setFlowTargets demo_env ''ripplePool'' no_options c3_layered)) = 2
   \<and> kernelTarget demo_pattern (uniforms (setFlowTargets demo_env ''ripplePool'' no_options c3_layered))
       3 (0, 0, 0) = (8, 3, 0)"
proof -
  have deferred: "phase c2w_text = Text"
    "uGPUPatternId (uniforms (setMode demo_env ''flow'' (Some ''galaxySpin'') no_options c2w_text)) = 0"
    "currentFlowPattern (setMode demo_env ''flow'' (Some ''galaxySpin'') no_options c2w_text)
       = ''organic''"
    "pendingFlowPattern (setMode demo_env ''flow'' (Some ''galaxySpin'') no_options c2w_text)
       = Some ''galaxySpin''"
    using flow_request_timing [where s = c2w_text and e = demo_env
          and pattern = "Some ''galaxySpin''" and opts = no_options and p = "''galaxySpin''"
          and tc = "tick_at 1" and g = demo_pattern and i = 3 and tg = "(0, 0, 0)"]
    by (simp_all add: Let_def c2w_text_fields c2w_text_pattern truthy_str_def)
  have du: "uNumLayers (uniforms demo_engine) = 1" "uTime (uniforms demo_engine) = 0"
    "uFlowScale (uniforms demo_engine) = 1" "uFlowOrigin (uniforms demo_engine) = (0, 0, 0)"
    by (simp_all add: demo_engine_uniforms initialUniforms_def)
  have applied: "phase demo_engine = Flow"
    "currentFlowPattern (setMode demo_env ''flow'' (Some ''galaxySpin'') no_options demo_engine)
       = ''galaxySpin''"
    "uGPUPatternId (uniforms (setMode demo_env ''flow'' (Some ''galaxySpin'') no_options demo_engine))
       = 7"
    "kernelTarget demo_pattern
       (uniforms (setFlowTargets demo_env ''galaxySpin'' no_options demo_engine)) 3 (0, 0, 0)
       = (7, 3, 0)"
    using flow_request_timing [where s = demo_engine and e = demo_env
          and pattern = "Some ''galaxySpin''" and opts = no_options and p = "''galaxySpin''"
          and tc = "tick_at 1" and g = demo_pattern and i = 3 and tg = "(0, 0, 0)"]
    by (simp_all add: Let_def demo_engine_phase truthy_str_def du
        nullish_def setFlowTargets_fields GPU_PATTERN_IDS_def demo_pattern_def vadd_def
        vscale_def)
  have layered: "phase c3_layered = Flow" "uNumLayers (uniforms c3_layered) = 2"
    "uGPUPatternId (uniforms (setFlowTargets demo_env ''ripplePool'' no_options c3_layered)) = 9"
    "uNumLayers (uniforms (setFlowTargets demo_env ''ripplePool'' no_options c3_layered)) = 2"
    "kernelTarget demo_pattern
       (uniforms (setFlowTargets demo_env ''ripplePool'' no_options c3_layered)) 3 (0, 0, 0)
       = (8, 3, 0)"
    using flow_request_timing [where s = c3_layered and e = demo_env
          and pattern = "Some ''ripplePool''" and opts = no_options and p = "''ripplePool''"
          and tc = "tick_at 1" and g = demo_pattern and i = 3 and tg = "(0, 0, 0)"]
    by (simp_all add: Let_def c3_layered_fields nullish_def GPU_PATTERN_IDS_def demo_pattern_def
        vadd_def vscale_def)
  from deferred applied layered show ?thesis by simp
qed

text \<open>
  The claim as stated fails for \<^verbatim>\<open>setFlowTargets\<close>: called while group A holds a text, it
  changes the pattern uniform on that call and records nothing as pending.
\<close>

theorem setFlowTargets_immediate_counterexample:
  "phase c2w_text = Text
   \<and> uGPUPatternId (uniforms c2w_text) = 0
   \<and> uGPUPatternId (uniforms (exec demo_env (SetFlowTargets (Some ''galaxySpin'') no_options) c2w_text))
       = 7
   \<and> uGPUPatternId (uniforms (exec demo_env (SetFlowTargets (Some ''galaxySpin'') no_options) c2w_text))
       \<noteq> uGPUPatternId (uniforms c2w_text)
   \<and> pendingFlowPattern (exec demo_env (SetFlowTargets (Some ''galaxySpin'') no_options) c2w_text)
       = None"
  by (simp add: c2w_text_fields c2w_text_pattern setFlowTargets_fields nullish_def
      GPU_PATTERN_IDS_def)

subsection \<open>Character targets\<close>

text \<open>A loop of indexed writes: its length, the entries it leaves and the entries it sets.\<close>

lemma foldl_update_length: "length (foldl (\<lambda>t j. t[f j := v j]) ta js) = length ta"
  by (induction js arbitrary: ta) simp_all

lemma foldl_update_outside:
  "\<forall>j\<in>set js. f j \<noteq> k \<Longrightarrow> foldl (\<lambda>t j. t[f j := v j]) ta js ! k = ta ! k"
  by (induction js arbitrary: ta) simp_all



lemma writeChar_length: "length (writeChar e cnt cd ta) = length ta"
  by (simp add: writeChar_def foldl_update_length)

lemma writeChar_outside:
  assumes "k < startIdx cd \<or> startIdx cd + cd_count cd \<le> k"
  shows "writeChar e cnt cd ta ! k = ta ! k"
proof (cases "length (textPositions cd) = 0")
  case True
  then show ?thesis by (simp add: writeChar_def)
next
  case False
  have "\<forall>j\<in>set (takeWhile (\<lambda>j. startIdx cd + j < cnt) [0..<cd_count cd]). startIdx cd + j \<noteq> k"
  proof
    fix j assume "j \<in> set (takeWhile (\<lambda>j. startIdx cd + j < cnt) [0..<cd_count cd])"
    then have "j \<in> set [0..<cd_count cd]" by (rule set_takeWhileD[THEN conjunct1])
    then show "startIdx cd + j \<noteq> k" using assms by auto
  qed
  from foldl_update_outside[OF this] False show ?thesis by (simp add: writeChar_def)
qed


lemma applyAllCharTargets_Nil: "applyAllCharTargets e cnt [] ta = ta"
  by (simp add: applyAllCharTargets_def)

lemma applyAllCharTargets_Cons:
  "applyAllCharTargets e cnt (cd # cds) ta = applyAllCharTargets e cnt cds (writeChar e cnt cd ta)"
  by (simp add: applyAllCharTargets_def)


lemma applyAllCharTargets_length: "length (applyAllCharTargets e cnt cds ta) = length ta"
  by (induction cds arbitrary: ta)
     (simp_all add: applyAllCharTargets_Nil applyAllCharTargets_Cons writeChar_length)

lemma applyAllCharTargets_outside:
  assumes "\<forall>cd\<in>set cds. k < startIdx cd \<or> startIdx cd + cd_count cd \<le> k"
  shows "applyAllCharTargets e cnt cds ta ! k = ta ! k"
  using assms
  by (induction cds arbitrary: ta)
     (simp_all add: applyAllCharTargets_Nil applyAllCharTargets_Cons writeChar_outside)


text \<open>The slices \<^verbatim>\<open>setTextTarget\<close> hands out: one after the other from the start of the group.\<close>

lemma length_assignSlices: "length (assignSlices gs gc n ox oy cds) = length cds"
  by (simp add: assignSlices_def Let_def)

lemma length_sample: "length (sampleTextPositionsPerChar e text so) = length text"
  by (simp add: sampleTextPositionsPerChar_def)

lemma assignSlices_nth:
  assumes "c < length cds"
  shows "startIdx (assignSlices gs gc n ox oy cds ! c) = gs + c * (gc div n)"
    and "cd_count (assignSlices gs gc n ox oy cds ! c) =
           (if c < n - 1 then gc div n else gc - c * (gc div n))"
    and "\<not> revealed (assignSlices gs gc n ox oy cds ! c)"
    and "textPositions (assignSlices gs gc n ox oy cds ! c) =
           map (\<lambda>(x, y, z). (x + ox, y + oy, z)) (textPositions (cds ! c))"
    and "center (assignSlices gs gc n ox oy cds ! c) =
           (fst (center (cds ! c)) + ox, fst (snd (center (cds ! c))) + oy,
            snd (snd (center (cds ! c))))"
  using assms by (simp_all add: assignSlices_def Let_def)


lemma assignSlices_from_start:
  assumes "cd \<in> set (assignSlices gs gc n ox oy cds)"
  shows "gs \<le> startIdx cd"
proof -
  from assms obtain c where "c < length cds" "cd = assignSlices gs gc n ox oy cds ! c"
    by (auto simp: in_set_conv_nth length_assignSlices)
  then show ?thesis by (simp add: assignSlices_nth)
qed

subsection \<open>A text for group B\<close>

text \<open>A text for group B leaves the main slot alone and moves the split to the middle.\<close>

lemma setTextTarget_groupB:
  assumes "text \<noteq> []" "particleGroup opts = Some 1"
  shows "phase (setTextTarget e text opts s) = phase s"
    and "convergence (setTextTarget e text opts s) = convergence s"
    and "targetConvergence (setTextTarget e text opts s) = targetConvergence s"
    and "maxConvergence (setTextTarget e text opts s) = maxConvergence s"
    and "holdDurationOverride (setTextTarget e text opts s) = holdDurationOverride s"
    and "releaseSpeed (setTextTarget e text opts s) = releaseSpeed s"
    and "dissolveMode (setTextTarget e text opts s) = dissolveMode s"
    and "charData (setTextTarget e text opts s) = charData s"
    and "lastTextTime (setTextTarget e text opts s) = lastTextTime s"
    and "formationPending (setTextTarget e text opts s) = formationPending s"
    and "sweepDir (setTextTarget e text opts s) = sweepDir s"
    and "splitPoint (setTextTarget e text opts s) = count s div 2"
    and "uGroupSplit (uniforms (setTextTarget e text opts s)) = count s div 2"
    and "formationStartTime (setTextTarget e text opts s) = formationStartTime s"
    and "count (setTextTarget e text opts s) = count s"
  using assms
  by (simp_all add: setTextTarget_def Let_def nullish_def splitForGroup_def backgroundForGroup_def
      writeSlotB_def resetToSingleLayer_def)

text \<open>What the same call writes outside slot B: state the two groups share.\<close>

lemma setTextTarget_groupB_shared:
  assumes "text \<noteq> []" "particleGroup opts = Some 1"
  shows "currentText (setTextTarget e text opts s) = text"
    and "textIndex (setTextTarget e text opts s) = textIndex s + 1"
    and "animType (setTextTarget e text opts s) =
           (case animation opts of
              Some a \<Rightarrow> (if a = [] then map fst TEXT_ANIMATIONS ! ((textIndex s + 1) mod length TEXT_ANIMATIONS)
                         else a)
            | None \<Rightarrow> map fst TEXT_ANIMATIONS ! ((textIndex s + 1) mod length TEXT_ANIMATIONS))"
    and "physicsOverrides (setTextTarget e text opts s) = extractPhysicsOverrides opts"
    and "uGPUPatternId (uniforms (setTextTarget e text opts s)) = 0"
    and "uNumLayers (uniforms (setTextTarget e text opts s)) = 1"
    and "uFlowOrigin (uniforms (setTextTarget e text opts s)) = (0, 0, 0)"
    and "uFlowScale (uniforms (setTextTarget e text opts s)) = 1"
    and "uFlattenZ (uniforms (setTextTarget e text opts s)) =
           (if isAnamorphicDir (viewDirection opts) then 0 else 1)"
    and "targetWorldQuat (setTextTarget e text opts s) =
           (if isAnamorphicDir (viewDirection opts)
            then Some (QuatFromUnitVectors (nullish (viewDirection opts) (0, 0, 1)))
            else Some QuatIdentity)"
    and "\<not> groupBPatternActive (setTextTarget e text opts s)"
  using assms
  by (simp_all add: setTextTarget_def Let_def nullish_def splitForGroup_def backgroundForGroup_def
      writeSlotB_def resetToSingleLayer_def or_str_def getDefaultAnimation_def
      split: option.splits)

lemma setTextTarget_groupB_slot:
  assumes "text \<noteq> []" "particleGroup opts = Some 1"
  shows "b_phase (slotB (setTextTarget e text opts s)) = Text"
    and "b_targetConvergence (slotB (setTextTarget e text opts s)) = 1"
    and "b_maxConvergence (slotB (setTextTarget e text opts s)) = nullish (o_maxConvergence opts) 1"
    and "b_holdDurationOverride (slotB (setTextTarget e text opts s)) = holdDuration opts"
    and "b_releaseSpeed (slotB (setTextTarget e text opts s)) = nullish (o_releaseSpeed opts) 1"
    and "b_dissolveMode (slotB (setTextTarget e text opts s)) = o_dissolveMode opts"
    and "b_lastTextTime (slotB (setTextTarget e text opts s)) = 0"
    and "\<not> b_formationPending (slotB (setTextTarget e text opts s))"
    and "b_convergence (slotB (setTextTarget e text opts s)) = b_convergence (slotB s)"
    and "b_physicsOverrides (slotB (setTextTarget e text opts s)) = extractPhysicsOverrides opts"
    and "b_sweepDir (slotB (setTextTarget e text opts s)) =
           sweepDirs ! ((textIndex s + 1) mod length sweepDirs)"
    and "b_animType (slotB (setTextTarget e text opts s)) =
           Some (animType (setTextTarget e text opts s))"
    and "b_charData (slotB (setTextTarget e text opts s)) = Some (groupB_records e text opts s)"
    and "targetBuffer (setTextTarget e text opts s) =
           applyAllCharTargets e (count s) (groupB_records e text opts s) (targetBuffer s)"
  using assms
  by (simp_all add: setTextTarget_def Let_def nullish_def splitForGroup_def backgroundForGroup_def
      writeSlotB_def resetToSingleLayer_def groupB_records_def groupB_sampler_def)

text \<open>The whole effect of the call, field by field; every field not named is unchanged.\<close>

lemma setTextTarget_groupB_state:
  assumes "text \<noteq> []" "particleGroup opts = Some 1"
  shows "setTextTarget e text opts s =
     s\<lparr>splitPoint := count s div 2, groupBPatternActive := False,
       currentText := text, textIndex := textIndex s + 1,
       physicsOverrides := extractPhysicsOverrides opts,
       animType :=
         (case animation opts of
            Some a \<Rightarrow> (if a = [] then map fst TEXT_ANIMATIONS ! ((textIndex s + 1) mod length TEXT_ANIMATIONS)
                       else a)
          | None \<Rightarrow> map fst TEXT_ANIMATIONS ! ((textIndex s + 1) mod length TEXT_ANIMATIONS)),
       targetWorldQuat :=
         (if isAnamorphicDir (viewDirection opts)
          then Some (QuatFromUnitVectors (nullish (viewDirection opts) (0, 0, 1)))
          else Some QuatIdentity),
       uniforms := (uniforms s)\<lparr>uGroupSplit := count s div 2, uGPUPatternId := 0, uNumLayers := 1,
                     uFlowOrigin := (0, 0, 0), uFlowScale := 1,
                     uFlattenZ := (if isAnamorphicDir (viewDirection opts) then 0 else 1)\<rparr>,
       slotB := (slotB s)\<lparr>b_charData := Some (groupB_records e text opts s),
                  b_formationStartTime := - 1, b_formationPending := False,
                  b_animType :=
                    Some (case animation opts of
                            Some a \<Rightarrow> (if a = []
                                       then map fst TEXT_ANIMATIONS !
                                              ((textIndex s + 1) mod length TEXT_ANIMATIONS)
                                       else a)
                          | None \<Rightarrow> map fst TEXT_ANIMATIONS !
                                      ((textIndex s + 1) mod length TEXT_ANIMATIONS)),
                  b_sweepDir := sweepDirs ! ((textIndex s + 1) mod length sweepDirs),
                  b_holdDurationOverride := holdDuration opts,
                  b_releaseSpeed := nullish (o_releaseSpeed opts) 1,
                  b_dissolveMode := o_dissolveMode opts,
                  b_maxConvergence := nullish (o_maxConvergence opts) 1,
                  b_physicsOverrides := extractPhysicsOverrides opts,
                  b_lastTextTime := 0, b_targetConvergence := 1, b_phase := Text\<rparr>,
       targetBuffer :=
         applyAllCharTargets e (count s) (groupB_records e text opts s) (targetBuffer s)\<rparr>"
  using assms
  by (simp add: setTextTarget_def Let_def nullish_def splitForGroup_def backgroundForGroup_def
      writeSlotB_def resetToSingleLayer_def groupB_records_def groupB_sampler_def or_str_def
      getDefaultAnimation_def split: option.splits)


text \<open>The records of group B: slices of the upper half, one after the other.\<close>

lemma length_groupB_records: "length (groupB_records e text opts s) = length text"
  by (simp add: groupB_records_def length_assignSlices length_sample)

lemma sample_nth:
  assumes "c < length text"
  shows "textPositions (sampleTextPositionsPerChar e text so ! c) = fst (rasterChar e text so c)"
    and "center (sampleTextPositionsPerChar e text so ! c) = snd (rasterChar e text so c)"
  using assms by (simp_all add: sampleTextPositionsPerChar_def)

lemma groupB_records_nth:
  assumes "c < length text"
  shows "startIdx (groupB_records e text opts s ! c) =
           count s div 2 + c * ((count s - count s div 2) div length text)"
    and "cd_count (groupB_records e text opts s ! c) =
           (if c < length text - 1 then (count s - count s div 2) div length text
            else (count s - count s div 2) - c * ((count s - count s div 2) div length text))"
    and "\<not> revealed (groupB_records e text opts s ! c)"
    and "textPositions (groupB_records e text opts s ! c) =
           map (\<lambda>(x, y, z).
                  (x + (case origin opts of Some (x, y, z) \<Rightarrow> x | None \<Rightarrow> 0),
                   y + (case origin opts of Some (x, y, z) \<Rightarrow> y | None \<Rightarrow> 0), z))
             (fst (rasterChar e text (groupB_sampler text opts s) c))"
proof -
  have c: "c < length (sampleTextPositionsPerChar e text (groupB_sampler text opts s))"
    using assms by (simp add: length_sample)
  show "startIdx (groupB_records e text opts s ! c) =
           count s div 2 + c * ((count s - count s div 2) div length text)"
    and "cd_count (groupB_records e text opts s ! c) =
           (if c < length text - 1 then (count s - count s div 2) div length text
            else (count s - count s div 2) - c * ((count s - count s div 2) div length text))"
    and "\<not> revealed (groupB_records e text opts s ! c)"
    and "textPositions (groupB_records e text opts s ! c) =
           map (\<lambda>(x, y, z).
                  (x + (case origin opts of Some (x, y, z) \<Rightarrow> x | None \<Rightarrow> 0),
                   y + (case origin opts of Some (x, y, z) \<Rightarrow> y | None \<Rightarrow> 0), z))
             (fst (rasterChar e text (groupB_sampler text opts s) c))"
    unfolding groupB_records_def
    by (simp_all only: assignSlices_nth[OF c] sample_nth[OF assms] not_False_eq_True)
qed



lemma setTextTarget_groupB_length:
  assumes "text \<noteq> []" "particleGroup opts = Some 1"
  shows "length (targetBuffer (setTextTarget e text opts s)) = length (targetBuffer s)"
  unfolding setTextTarget_groupB_slot(14)[OF assms]
  by (rule applyAllCharTargets_length)

lemma setTextTarget_groupB_lower:
  assumes "text \<noteq> []" "particleGroup opts = Some 1" "k < count s div 2"
  shows "targetBuffer (setTextTarget e text opts s) ! k = targetBuffer s ! k"
proof -
  have "\<forall>cd\<in>set (groupB_records e text opts s).
          k < startIdx cd \<or> startIdx cd + cd_count cd \<le> k"
  proof
    fix cd assume "cd \<in> set (groupB_records e text opts s)"
    then have "count s div 2 \<le> startIdx cd"
      unfolding groupB_records_def by (rule assignSlices_from_start)
    with assms(3) show "k < startIdx cd \<or> startIdx cd + cd_count cd \<le> k" by simp
  qed
  then show ?thesis
    unfolding setTextTarget_groupB_slot(14)[OF assms(1,2)]
    by (rule applyAllCharTargets_outside)
qed

subsection \<open>Group B\<close>

text \<open>
  Claim C8, amended. \<^verbatim>\<open>setText\<close> with \<^verbatim>\<open>particleGroup: 1\<close> and a non-empty text leaves group A's
  phase, convergence and target convergence as they are (whatever the phase, so also while
  group A holds a text), and likewise its ceiling, hold override, release speed, dissolve
  mode, character records, text time, formation state and sweep direction, and every target
  below the split. Slot B receives the new text state: phase \<^verbatim>\<open>text\<close>, target convergence 1,
  the ceiling, hold and release overrides and dissolve mode of the call, its physics
  overrides and animation name, and one character record per character, the records being
  consecutive slices of the upper half \<open>[N div 2, N)\<close> with the rasterised points of the
  character; and the split index becomes \<open>N div 2\<close>. The call does not write to slot B
  only: it also overwrites state that both groups share, namely the current text, the text
  index (incremented), the animation type, the physics overrides, the pattern uniform (set
  to 0), the layer count and flow origin and scale (reset to a single layer), the
  flattening factor, the target rotation and the flag of a group B pattern (cleared). Every
  other field of the engine is left as it is.
\<close>

theorem setText_groupB_frame:
  "str \<noteq> [] \<and> particleGroup opts = Some 1 \<longrightarrow>
     (let s' = setText e str opts s;
          b = slotB s';
          gs = count s div 2;
          gc = count s - count s div 2;
          n = length str;
          anamorphic = isAnamorphicDir (viewDirection opts);
          defaultAnim = map fst TEXT_ANIMATIONS ! ((textIndex s + 1) mod length TEXT_ANIMATIONS);
          sampler =
            \<lparr>s_font = or_str (font opts) (textFont s),
             s_fontSize = or_num (fontSize opts) (textFontSize s),
             s_maxPointsPerChar = min 30000 (gc div n),
             s_targetWidth = or_num (targetWidth opts) (if n \<le> 3 then 2.5 else 4),
             s_depthSpread = or_num (o_depthSpread opts) (if anamorphic then 0.15 else 0),
             s_align = or_str (align opts) ''center''\<rparr>;
          offX = (case origin opts of Some (x, y, z) \<Rightarrow> x | None \<Rightarrow> 0);
          offY = (case origin opts of Some (x, y, z) \<Rightarrow> y | None \<Rightarrow> 0)
      in phase s' = phase s \<and> convergence s' = convergence s
       \<and> targetConvergence s' = targetConvergence s
       \<and> maxConvergence s' = maxConvergence s
       \<and> holdDurationOverride s' = holdDurationOverride s
       \<and> releaseSpeed s' = releaseSpeed s \<and> dissolveMode s' = dissolveMode s
       \<and> charData s' = charData s \<and> lastTextTime s' = lastTextTime s
       \<and> formationPending s' = formationPending s \<and> sweepDir s' = sweepDir s
       \<and> formationStartTime s' = formationStartTime s
       \<and> splitPoint s' = count s div 2 \<and> uGroupSplit (uniforms s') = count s div 2
       \<and> b_phase b = Text \<and> b_targetConvergence b = 1
       \<and> b_maxConvergence b = nullish (o_maxConvergence opts) 1
       \<and> b_holdDurationOverride b = holdDuration opts
       \<and> b_releaseSpeed b = nullish (o_releaseSpeed opts) 1
       \<and> b_dissolveMode b = o_dissolveMode opts \<and> b_lastTextTime b = 0
       \<and> b_physicsOverrides b = extractPhysicsOverrides opts
       \<and> b_animType b = Some (animType s')
       \<and> b_sweepDir b = sweepDirs ! ((textIndex s + 1) mod length sweepDirs)
       \<and> map_option length (b_charData b) = Some (length str)
       \<and> (case b_charData b of
             Some cds \<Rightarrow>
               (\<forall>c<n. startIdx (cds ! c) = gs + c * (gc div n)
                    \<and> cd_count (cds ! c) = (if c < n - 1 then gc div n else gc - c * (gc div n))
                    \<and> \<not> revealed (cds ! c)
                    \<and> textPositions (cds ! c) =
                        map (\<lambda>(x, y, z). (x + offX, y + offY, z)) (fst (rasterChar e str sampler c)))
               \<and> targetBuffer s' = applyAllCharTargets e (count s) cds (targetBuffer s)
               \<and> s' =
                   s\<lparr>splitPoint := gs, groupBPatternActive := False,
                     currentText := str, textIndex := textIndex s + 1,
                     physicsOverrides := extractPhysicsOverrides opts,
                     animType :=
                       (case animation opts of
                          Some a \<Rightarrow> (if a = [] then defaultAnim else a)
                        | None \<Rightarrow> defaultAnim),
                     targetWorldQuat :=
                       (if anamorphic
                        then Some (QuatFromUnitVectors (nullish (viewDirection opts) (0, 0, 1)))
                        else Some QuatIdentity),
                     uniforms := (uniforms s)\<lparr>uGroupSplit := gs, uGPUPatternId := 0, uNumLayers := 1,
                                   uFlowOrigin := (0, 0, 0), uFlowScale := 1,
                                   uFlattenZ := (if anamorphic then 0 else 1)\<rparr>,
                     slotB := (slotB s)\<lparr>b_charData := Some cds,
                                b_formationStartTime := - 1, b_formationPending := False,
                                b_animType :=
                                  Some (case animation opts of
                                          Some a \<Rightarrow> (if a = [] then defaultAnim else a)
                                        | None \<Rightarrow> defaultAnim),
                                b_sweepDir := sweepDirs ! ((textIndex s + 1) mod length sweepDirs),
                                b_holdDurationOverride := holdDuration opts,
                                b_releaseSpeed := nullish (o_releaseSpeed opts) 1,
                                b_dissolveMode := o_dissolveMode opts,
                                b_maxConvergence := nullish (o_maxConvergence opts) 1,
                                b_physicsOverrides := extractPhysicsOverrides opts,
                                b_lastTextTime := 0, b_targetConvergence := 1, b_phase := Text\<rparr>,
                     targetBuffer := applyAllCharTargets e (count s) cds (targetBuffer s)\<rparr>
           | None \<Rightarrow> False)
       \<and> length (targetBuffer s') = length (targetBuffer s)
       \<and> (\<forall>k<gs. targetBuffer s' ! k = targetBuffer s ! k)
       \<and> currentText s' = str \<and> textIndex s' = textIndex s + 1
       \<and> animType s' =
           (case animation opts of
              Some a \<Rightarrow> (if a = [] then defaultAnim else a)
            | None \<Rightarrow> defaultAnim)
       \<and> physicsOverrides s' = extractPhysicsOverrides opts
       \<and> uGPUPatternId (uniforms s') = 0 \<and> uNumLayers (uniforms s') = 1
       \<and> uFlowOrigin (uniforms s') = (0, 0, 0) \<and> uFlowScale (uniforms s') = 1
       \<and> uFlattenZ (uniforms s') = (if anamorphic then 0 else 1)
       \<and> targetWorldQuat s' =
           (if anamorphic
            then Some (QuatFromUnitVectors (nullish (viewDirection opts) (0, 0, 1)))
            else Some QuatIdentity)
       \<and> \<not> groupBPatternActive s')"
proof (intro impI, elim conjE)
  assume a: "str \<noteq> []" "particleGroup opts = Some 1"
  let ?s' = "setTextTarget e str opts s"
  note f = setTextTarget_groupB[OF a, of e s] setTextTarget_groupB_slot(1-12)[OF a, of e s]
    setTextTarget_groupB_shared(1-10)[OF a, of e s]
  have len: "map_option length (b_charData (slotB ?s')) = Some (length str)"
    by (simp add: setTextTarget_groupB_slot(13)[OF a] length_groupB_records)
  have rec: "case b_charData (slotB ?s') of
             Some cds \<Rightarrow>
               (\<forall>c<length str.
                    startIdx (cds ! c) =
                      count s div 2 + c * ((count s - count s div 2) div length str)
                    \<and> cd_count (cds ! c) =
                        (if c < length str - 1 then (count s - count s div 2) div length str
                         else (count s - count s div 2)
                              - c * ((count s - count s div 2) div length str))
                    \<and> \<not> revealed (cds ! c)
                    \<and> textPositions (cds ! c) =
                        map (\<lambda>(x, y, z).
                               (x + (case origin opts of Some (x, y, z) \<Rightarrow> x | None \<Rightarrow> 0),
                                y + (case origin opts of Some (x, y, z) \<Rightarrow> y | None \<Rightarrow> 0), z))
                          (fst (rasterChar e str
                             \<lparr>s_font = or_str (font opts) (textFont s),
                              s_fontSize = or_num (fontSize opts) (textFontSize s),
                              s_maxPointsPerChar =
                                min 30000 ((count s - count s div 2) div length str),
                              s_targetWidth =
                                or_num (targetWidth opts) (if length str \<le> 3 then 2.5 else 4),
                              s_depthSpread =
                                or_num (o_depthSpread opts)
                                  (if isAnamorphicDir (viewDirection opts) then 0.15 else 0),
                              s_align = or_str (align opts) ''center''\<rparr> c)))
               \<and> targetBuffer ?s' = applyAllCharTargets e (count s) cds (targetBuffer s)
               \<and> ?s' =
                   s\<lparr>splitPoint := count s div 2, groupBPatternActive := False,
                     currentText := str, textIndex := textIndex s + 1,
                     physicsOverrides := extractPhysicsOverrides opts,
                     animType :=
                       (case animation opts of
                          Some a \<Rightarrow> (if a = [] then 
                                             map fst TEXT_ANIMATIONS ! ((textIndex s + 1) mod length TEXT_ANIMATIONS) else a)
                        | None \<Rightarrow> 
                                             map fst TEXT_ANIMATIONS ! ((textIndex s + 1) mod length TEXT_ANIMATIONS)),
                     targetWorldQuat :=
                       (if isAnamorphicDir (viewDirection opts)
                        then Some (QuatFromUnitVectors (nullish (viewDirection opts) (0, 0, 1)))
                        else Some QuatIdentity),
                     uniforms := (uniforms s)\<lparr>uGroupSplit := count s div 2, uGPUPatternId := 0, uNumLayers := 1,
                                   uFlowOrigin := (0, 0, 0), uFlowScale := 1,
                                   uFlattenZ := (if isAnamorphicDir (viewDirection opts) then 0 else 1)\<rparr>,
                     slotB := (slotB s)\<lparr>b_charData := Some cds,
                                b_formationStartTime := - 1, b_formationPending := False,
                                b_animType :=
                                  Some (case animation opts of
                                          Some a \<Rightarrow> (if a = [] then 
                                             map fst TEXT_ANIMATIONS ! ((textIndex s + 1) mod length TEXT_ANIMATIONS) else a)
                                        | None \<Rightarrow> 
                                             map fst TEXT_ANIMATIONS ! ((textIndex s + 1) mod length TEXT_ANIMATIONS)),
                                b_sweepDir := sweepDirs ! ((textIndex s + 1) mod length sweepDirs),
                                b_holdDurationOverride := holdDuration opts,
                                b_releaseSpeed := nullish (o_releaseSpeed opts) 1,
                                b_dissolveMode := o_dissolveMode opts,
                                b_maxConvergence := nullish (o_maxConvergence opts) 1,
                                b_physicsOverrides := extractPhysicsOverrides opts,
                                b_lastTextTime := 0, b_targetConvergence := 1, b_phase := Text\<rparr>,
                     targetBuffer := applyAllCharTargets e (count s) cds (targetBuffer s)\<rparr>
           | None \<Rightarrow> False"
    unfolding setTextTarget_groupB_slot(13)[OF a] option.case
    using groupB_records_nth[of _ str e opts s] setTextTarget_groupB_slot(14)[OF a, of e s]
      setTextTarget_groupB_state[OF a, of e s]
    unfolding groupB_sampler_def by blast
  have lower: "\<forall>k<count s div 2. targetBuffer ?s' ! k = targetBuffer s ! k"
    using setTextTarget_groupB_lower[OF a] by blast
  have tl: "length (targetBuffer ?s') = length (targetBuffer s)"
    by (rule setTextTarget_groupB_length[OF a])
  have nb: "groupBPatternActive ?s' = False"
    using setTextTarget_groupB_shared(11)[OF a, of e s] by simp
  show "let s' = setText e str opts s;
          b = slotB s';
          gs = count s div 2;
          gc = count s - count s div 2;
          n = length str;
          anamorphic = isAnamorphicDir (viewDirection opts);
          defaultAnim = map fst TEXT_ANIMATIONS ! ((textIndex s + 1) mod length TEXT_ANIMATIONS);
          sampler =
            \<lparr>s_font = or_str (font opts) (textFont s),
             s_fontSize = or_num (fontSize opts) (textFontSize s),
             s_maxPointsPerChar = min 30000 (gc div n),
             s_targetWidth = or_num (targetWidth opts) (if n \<le> 3 then 2.5 else 4),
             s_depthSpread = or_num (o_depthSpread opts) (if anamorphic then 0.15 else 0),
             s_align = or_str (align opts) ''center''\<rparr>;
          offX = (case origin opts of Some (x, y, z) \<Rightarrow> x | None \<Rightarrow> 0);
          offY = (case origin opts of Some (x, y, z) \<Rightarrow> y | None \<Rightarrow> 0)
      in phase s' = phase s \<and> convergence s' = convergence s
       \<and> targetConvergence s' = targetConvergence s
       \<and> maxConvergence s' = maxConvergence s
       \<and> holdDurationOverride s' = holdDurationOverride s
       \<and> releaseSpeed s' = releaseSpeed s \<and> dissolveMode s' = dissolveMode s
       \<and> charData s' = charData s \<and> lastTextTime s' = lastTextTime s
       \<and> formationPending s' = formationPending s \<and> sweepDir s' = sweepDir s
       \<and> formationStartTime s' = formationStartTime s
       \<and> splitPoint s' = count s div 2 \<and> uGroupSplit (uniforms s') = count s div 2
       \<and> b_phase b = Text \<and> b_targetConvergence b = 1
       \<and> b_maxConvergence b = nullish (o_maxConvergence opts) 1
       \<and> b_holdDurationOverride b = holdDuration opts
       \<and> b_releaseSpeed b = nullish (o_releaseSpeed opts) 1
       \<and> b_dissolveMode b = o_dissolveMode opts \<and> b_lastTextTime b = 0
       \<and> b_physicsOverrides b = extractPhysicsOverrides opts
       \<and> b_animType b = Some (animType s')
       \<and> b_sweepDir b = sweepDirs ! ((textIndex s + 1) mod length sweepDirs)
       \<and> map_option length (b_charData b) = Some (length str)
       \<and> (case b_charData b of
             Some cds \<Rightarrow>
               (\<forall>c<n. startIdx (cds ! c) = gs + c * (gc div n)
                    \<and> cd_count (cds ! c) = (if c < n - 1 then gc div n else gc - c * (gc div n))
                    \<and> \<not> revealed (cds ! c)
                    \<and> textPositions (cds ! c) =
                        map (\<lambda>(x, y, z). (x + offX, y + offY, z)) (fst (rasterChar e str sampler c)))
               \<and> targetBuffer s' = applyAllCharTargets e (count s) cds (targetBuffer s)
               \<and> s' =
                   s\<lparr>splitPoint := gs, groupBPatternActive := False,
                     currentText := str, textIndex := textIndex s + 1,
                     physicsOverrides := extractPhysicsOverrides opts,
                     animType :=
                       (case animation opts of
                          Some a \<Rightarrow> (if a = [] then defaultAnim else a)
                        | None \<Rightarrow> defaultAnim),
                     targetWorldQuat :=
                       (if anamorphic
                        then Some (QuatFromUnitVectors (nullish (viewDirection opts) (0, 0, 1)))
                        else Some QuatIdentity),
                     uniforms := (uniforms s)\<lparr>uGroupSplit := gs, uGPUPatternId := 0, uNumLayers := 1,
                                   uFlowOrigin := (0, 0, 0), uFlowScale := 1,
                                   uFlattenZ := (if anamorphic then 0 else 1)\<rparr>,
                     slotB := (slotB s)\<lparr>b_charData := Some cds,
                                b_formationStartTime := - 1, b_formationPending := False,
                                b_animType :=
                                  Some (case animation opts of
                                          Some a \<Rightarrow> (if a = [] then defaultAnim else a)
                                        | None \<Rightarrow> defaultAnim),
                                b_sweepDir := sweepDirs ! ((textIndex s + 1) mod length sweepDirs),
                                b_holdDurationOverride := holdDuration opts,
                                b_releaseSpeed := nullish (o_releaseSpeed opts) 1,
                                b_dissolveMode := o_dissolveMode opts,
                                b_maxConvergence := nullish (o_maxConvergence opts) 1,
                                b_physicsOverrides := extractPhysicsOverrides opts,
                                b_lastTextTime := 0, b_targetConvergence := 1, b_phase := Text\<rparr>,
                     targetBuffer := applyAllCharTargets e (count s) cds (targetBuffer s)\<rparr>
           | None \<Rightarrow> False)
       \<and> length (targetBuffer s') = length (targetBuffer s)
       \<and> (\<forall>k<gs. targetBuffer s' ! k = targetBuffer s ! k)
       \<and> currentText s' = str \<and> textIndex s' = textIndex s + 1
       \<and> animType s' =
           (case animation opts of
              Some a \<Rightarrow> (if a = [] then defaultAnim else a)
            | None \<Rightarrow> defaultAnim)
       \<and> physicsOverrides s' = extractPhysicsOverrides opts
       \<and> uGPUPatternId (uniforms s') = 0 \<and> uNumLayers (uniforms s') = 1
       \<and> uFlowOrigin (uniforms s') = (0, 0, 0) \<and> uFlowScale (uniforms s') = 1
       \<and> uFlattenZ (uniforms s') = (if anamorphic then 0 else 1)
       \<and> targetWorldQuat s' =
           (if anamorphic
            then Some (QuatFromUnitVectors (nullish (viewDirection opts) (0, 0, 1)))
            else Some QuatIdentity)
       \<and> \<not> groupBPatternActive s'"
    unfolding Let_def setText_def
    by (intro conjI; (rule lower | simp only: f len rec tl nb not_False_eq_True))
qed

lemma c8_opts_group:
  "particleGroup c8_opts = Some 1" "holdDuration c8_opts = Some 4"
  "animation c8_opts = Some ''typewriter''"
  by (simp_all add: c8_opts_def no_options_def)

theorem setText_groupB_frame_witness:
  "phase c2w_held = Text
   \<and> phase (setText demo_env ''B'' c8_opts c2w_held) = Text
   \<and> convergence (setText demo_env ''B'' c8_opts c2w_held) = 1
   \<and> targetConvergence (setText demo_env ''B'' c8_opts c2w_held) = 1
   \<and> splitPoint (setText demo_env ''B'' c8_opts c2w_held) = count c2w_held div 2
   \<and> b_phase (slotB (setText demo_env ''B'' c8_opts c2w_held)) = Text
   \<and> b_holdDurationOverride (slotB (setText demo_env ''B'' c8_opts c2w_held)) = Some 4
   \<and> animType (setText demo_env ''B'' c8_opts c2w_held) = ''typewriter''
   \<and> currentText (setText demo_env ''B'' c8_opts c2w_held) = ''B''
   \<and> uGPUPatternId (uniforms (setText demo_env ''B'' c8_opts c2w_held)) = 0"
  using setText_groupB_frame [where str = "''B''" and opts = c8_opts and e = demo_env
          and s = c2w_held]
  by (simp add: Let_def c8_opts_group c2w_held_fields)

text \<open>
  The claim as stated fails: while group A holds the text \<open>A\<close>, a text for group B with a
  spring override replaces the animation type, the current text, the text index and the
  physics overrides, none of which belongs to slot B.
\<close>

lemma c2w_text_shared:
  "animType c2w_text = ''directSnap''" "currentText c2w_text = ''A''" "textIndex c2w_text = 1"
  "physicsOverrides c2w_text = None"
  by (simp_all add: c2w_text_def demo_engine_eq c2w_opts_def eval_defs snapToTargets_def)

theorem setText_groupB_shared_counterexample:
  "phase c2w_text = Text \<and> particleGroup c8_spring_opts = Some 1
   \<and> animType c2w_text = ''directSnap''
   \<and> animType (exec demo_env (SetText ''B'' c8_spring_opts) c2w_text) = ''typewriter''
   \<and> currentText c2w_text = ''A''
   \<and> currentText (exec demo_env (SetText ''B'' c8_spring_opts) c2w_text) = ''B''
   \<and> textIndex c2w_text = 1
   \<and> textIndex (exec demo_env (SetText ''B'' c8_spring_opts) c2w_text) = 2
   \<and> physicsOverrides c2w_text = None
   \<and> ovGet (physicsOverrides (exec demo_env (SetText ''B'' c8_spring_opts) c2w_text)) ov_spring
       = Some 0.1
   \<and> physicsOverrides (exec demo_env (SetText ''B'' c8_spring_opts) c2w_text)
       \<noteq> physicsOverrides c2w_text"
proof -
  have g: "''B'' \<noteq> []" "particleGroup c8_spring_opts = Some 1"
    by (simp_all add: c8_spring_opts_def c8_opts_def no_options_def)
  have an: "animation c8_spring_opts = Some ''typewriter''"
    by (simp add: c8_spring_opts_def c8_opts_def no_options_def)
  have ov: "ovGet (extractPhysicsOverrides c8_spring_opts) ov_spring = Some 0.1"
    "extractPhysicsOverrides c8_spring_opts \<noteq> None"
    by (simp_all add: extractPhysicsOverrides_def ovGet_def c8_spring_opts_def c8_opts_def
        no_options_def Let_def)
  note sh = setTextTarget_groupB_shared(1-4)[OF g, of demo_env c2w_text]
  show ?thesis
    by (simp add: setText_def sh an ov g c2w_text_fields c2w_text_shared)
qed























end
